theory Spec2Isabelle
  imports Main "HOL-Library.AList"
begin

section \<open>Data model of the server\<close>

text \<open>
  The repository holds two copies of the server: one keeping its data in JSON files
  (\<open>persistentUsers\<close>, \<open>persistentHouses\<close>, \<open>items\<close>, written back with
  \<open>saveData\<close>) and one keeping it in a document store (\<open>usersCol\<close>,
  \<open>housesCol\<close>, \<open>itemsCol\<close>). Both are embedded; the names of the second carry
  the suffix \<open>_mongo\<close>, those of the first \<open>_file\<close>. Handlers whose text is the same in
  both copies are embedded once.

  The numbers of the server's state (money, prices, health, damage, positions that
  start at 400/300 and move in steps of 5) are modelled as \<open>int\<close>: they are integers
  far inside the range where the arithmetic of the source is exact. The operands and the
  answer of the quiz come from the client as it likes; for them the numbers of the
  source are modelled with their rounding. An object used as a dictionary is an
  association list kept in insertion order (\<open>Object.values\<close> lists it in that order) or
  a map where the order is never observed; the keys every object inherits are taken
  into account where a handler looks up a name the client has chosen and the outcome
  depends on it (\<open>register\<close> of the file-backed copy).
\<close>

type_synonym sid = string

text \<open>A field that may be \<open>undefined\<close> (never assigned), \<open>null\<close> or a value;
  \<open>===\<close> tells the three apart.\<close>

datatype 'a jsopt = Undefined | Null | Val 'a

text \<open>The account as stored (\<open>newUser\<close> of \<open>register\<close>). The fields \<open>x\<close>, \<open>y\<close>
  are named \<open>px\<close>, \<open>py\<close>. \<open>equipment\<close> is \<open>None\<close> for \<open>null\<close> and for a missing
  field: the code only tests it for truth and compares it with item ids.\<close>

record user =
  username :: string
  password :: string
  px :: int
  py :: int
  district :: string
  color :: string
  money :: int
  equipment :: "string option"

text \<open>The session built by \<open>loginUser\<close>: \<open>{...userData, playerId, hp, maxHp}\<close>,
  to which \<open>joinBattle\<close> adds \<open>mode\<close> and \<open>team\<close>.\<close>

record player = user +
  playerId :: sid
  hp :: int
  maxHp :: int
  mode :: "string jsopt"
  team :: "string jsopt"

record furniture =
  f_type :: string
  f_color :: string
  f_x :: int
  f_y :: int

record house =
  h_id :: string
  h_x :: int
  h_y :: int
  h_price :: int
  owner :: "string option"
  furnishing :: "furniture list"

record item =
  i_id :: string
  i_name :: string
  i_price :: int
  i_damage :: int
  i_range :: int

text \<open>The events the server sends, with their payloads.\<close>

datatype event =
    AuthError string
  | LoginSuccess player "item list"
  | HouseData "(string \<times> house) list"
  | CurrentPlayers "player list"
  | NewPlayer player
  | PlayerDisconnected sid
  | PlayerMoved player
  | PlayerChangedDistrict "player list"
  | SetDistrict string
  | HouseUpdate house
  | UpdateMoney int
  | ChatMessage string string string
  | QuizResultOk int int
  | QuizResultFail
  | ItemBoughtOk item
  | ItemBoughtFail string
  | PlayerUpdate player
  | BattleJoined "string jsopt" "string jsopt"
  | PlayerHit sid int sid
  | PlayerRespawned

text \<open>
  The transport: the connected sockets, the rooms each has joined, and the log of what
  was sent, each entry with the sockets it was delivered to, resolved when it is sent.
  The room every socket holds under its own id is left out: no handler addresses one
  (district names are the five fixed ones or start with \<open>house_\<close>).
\<close>

record io_state =
  connected :: "sid list"
  rooms :: "(sid \<times> string) list"
  outbox :: "(sid list \<times> event) list"

text \<open>\<open>players\<close> and \<open>socketUserMap\<close>, the two globals of both copies.\<close>

record session_state = io_state +
  players :: "(sid \<times> player) list"
  socketUserMap :: "(sid \<times> string) list"

text \<open>The file-backed copy: the three objects loaded from disk, and the two files
  \<open>saveData\<close> writes.\<close>

record file_server = session_state +
  persistentUsers :: "string \<rightharpoonup> user"
  persistentHouses :: "(string \<times> house) list"
  items :: "item list"
  users_file :: "string \<rightharpoonup> user"
  houses_file :: "(string \<times> house) list"

text \<open>The document-store copy: the three collections.\<close>

record mongo_server = session_state +
  usersCol :: "string \<rightharpoonup> user"
  housesCol :: "house list"
  itemsCol :: "item list"

definition DISTRICTS :: "string list" where
  "DISTRICTS = [''plaza'', ''housing'', ''arena'', ''school'', ''arena_battle'']"

subsection \<open>Sending and rooms\<close>

definition in_room :: "'a io_state_scheme \<Rightarrow> string \<Rightarrow> sid list" where
  "in_room st room = filter (\<lambda>t. (t, room) \<in> set (rooms st)) (connected st)"

text \<open>\<open>socket.emit(ev)\<close>: to the socket itself.\<close>

definition socket_emit :: "sid \<Rightarrow> event \<Rightarrow> 'a io_state_scheme \<Rightarrow> 'a io_state_scheme" where
  "socket_emit s ev st = st\<lparr>outbox := outbox st @ [([s], ev)]\<rparr>"

text \<open>\<open>socket.to(room).emit(ev)\<close>: to the room's members but the sender.\<close>

definition socket_to_emit ::
  "sid \<Rightarrow> string \<Rightarrow> event \<Rightarrow> 'a io_state_scheme \<Rightarrow> 'a io_state_scheme" where
  "socket_to_emit s room ev st =
     st\<lparr>outbox := outbox st @ [(filter (\<lambda>t. t \<noteq> s) (in_room st room), ev)]\<rparr>"

text \<open>\<open>io.to(room).emit(ev)\<close>: to every member of the room.\<close>

definition io_to_emit :: "string \<Rightarrow> event \<Rightarrow> 'a io_state_scheme \<Rightarrow> 'a io_state_scheme" where
  "io_to_emit room ev st = st\<lparr>outbox := outbox st @ [(in_room st room, ev)]\<rparr>"

text \<open>\<open>io.emit(ev)\<close>: to every connected socket.\<close>

definition io_emit :: "event \<Rightarrow> 'a io_state_scheme \<Rightarrow> 'a io_state_scheme" where
  "io_emit ev st = st\<lparr>outbox := outbox st @ [(connected st, ev)]\<rparr>"

text \<open>\<open>io.to(target.socketId).emit(ev)\<close>: sessions have no field \<open>socketId\<close>, the room
  is \<open>undefined\<close> and has no member.\<close>

definition io_to_undefined_emit :: "event \<Rightarrow> 'a io_state_scheme \<Rightarrow> 'a io_state_scheme" where
  "io_to_undefined_emit ev st = st\<lparr>outbox := outbox st @ [([], ev)]\<rparr>"

definition socket_join :: "sid \<Rightarrow> string \<Rightarrow> 'a io_state_scheme \<Rightarrow> 'a io_state_scheme" where
  "socket_join s room st = st\<lparr>rooms := List.insert (s, room) (rooms st)\<rparr>"

definition socket_leave :: "sid \<Rightarrow> string \<Rightarrow> 'a io_state_scheme \<Rightarrow> 'a io_state_scheme" where
  "socket_leave s room st = st\<lparr>rooms := removeAll (s, room) (rooms st)\<rparr>"

text \<open>A mutation through the reference \<open>players[k]\<close>.\<close>

definition upd_player ::
  "sid \<Rightarrow> (player \<Rightarrow> player) \<Rightarrow> 'a session_state_scheme \<Rightarrow> 'a session_state_scheme" where
  "upd_player k f st =
     (case map_of (players st) k of
        None \<Rightarrow> st
      | Some p \<Rightarrow> st\<lparr>players := AList.update k (f p) (players st)\<rparr>)"

section \<open>Handlers common to both copies\<close>

text \<open>\<open>playerMovement\<close> (the same text in both copies). The payload's \<open>state\<close>
  field is not read.\<close>

definition playerMovement ::
  "sid \<Rightarrow> int \<times> int \<Rightarrow> 'a session_state_scheme \<Rightarrow> 'a session_state_scheme" where
  "playerMovement s movementData st =
     (case map_of (players st) s of
        None \<Rightarrow> st
      | Some p0 \<Rightarrow>
          let st1 = upd_player s (\<lambda>p. p\<lparr>px := fst movementData\<rparr>) st;
              st2 = upd_player s (\<lambda>p. p\<lparr>py := snd movementData\<rparr>) st1
          in (case map_of (players st2) s of
                None \<Rightarrow> st2
              | Some p \<Rightarrow> socket_to_emit s (district p) (PlayerMoved p) st2))"


section \<open>The file-backed copy\<close>

text \<open>
  \<open>TypeError\<close> is the exception of a property access on \<open>undefined\<close>; it leaves the
  handler and ends the process. \<open>NoAccount\<close> is not an exception of the source:
  \<open>loginUser\<close> called for a name with no stored account would build a session with no
  account fields, which the typed model does not hold. \<open>register\<close> and \<open>login\<close>
  call it only for a stored account.
\<close>

datatype error = TypeError | NoAccount

definition saveData_users :: "file_server \<Rightarrow> file_server" where
  "saveData_users st = st\<lparr>users_file := persistentUsers st\<rparr>"

definition saveData_houses :: "file_server \<Rightarrow> file_server" where
  "saveData_houses st = st\<lparr>houses_file := persistentHouses st\<rparr>"

text \<open>Truth of a string or \<open>null\<close>: \<open>null\<close> and the empty string are false.\<close>

definition truthy :: "string option \<Rightarrow> bool" where
  "truthy v = (case v of None \<Rightarrow> False | Some t \<Rightarrow> t \<noteq> [])"

definition new_session :: "sid \<Rightarrow> user \<Rightarrow> player" where
  "new_session s userData =
     \<lparr>username = username userData, password = password userData,
      px = px userData, py = py userData, district = district userData,
      color = color userData, money = money userData, equipment = equipment userData,
      playerId = s, hp = 100, maxHp = 100, mode = Undefined, team = Undefined\<rparr>"

definition loginUser_file :: "sid \<Rightarrow> string \<Rightarrow> file_server \<Rightarrow> error + file_server" where
  "loginUser_file s name st =
     (case persistentUsers st name of
        None \<Rightarrow> Inl NoAccount
      | Some userData \<Rightarrow>
          let st1 = st\<lparr>socketUserMap := AList.update s name (socketUserMap st)\<rparr>;
              p = new_session s userData;
              st2 = st1\<lparr>players := AList.update s p (players st1)\<rparr>;
              d = district p;
              st3 = socket_join s d st2;
              st4 = socket_emit s (LoginSuccess p (items st3)) st3;
              st5 = socket_emit s (HouseData (persistentHouses st4)) st4;
              playersInDistrict = filter (\<lambda>q. district q = d) (map snd (players st5));
              st6 = socket_emit s (CurrentPlayers playersInDistrict) st5
          in Inr (socket_to_emit s d (NewPlayer p) st6))"

text \<open>
  \<open>persistentUsers\<close> is a plain object: a name that it does not hold itself but that
  is a property of every object (\<open>persistentUsers[name]\<close> is then a function or the
  prototype) counts as taken in \<open>register\<close>. In \<open>login\<close> such a value has no
  \<open>password\<close>, as if there were no account.
\<close>

definition inherited_keys :: "string list" where
  "inherited_keys =
     [''constructor'', ''__defineGetter__'', ''__defineSetter__'', ''hasOwnProperty'',
      ''__lookupGetter__'', ''__lookupSetter__'', ''isPrototypeOf'',
      ''propertyIsEnumerable'', ''toString'', ''valueOf'', ''__proto__'',
      ''toLocaleString'']"

text \<open>The colour is drawn with \<open>Math.random\<close>; it is an argument here.\<close>

definition register_file ::
  "sid \<Rightarrow> string \<Rightarrow> string \<Rightarrow> string \<Rightarrow> file_server \<Rightarrow> error + file_server" where
  "register_file s name pw col st =
     (case persistentUsers st name of
        Some existing \<Rightarrow> Inr (socket_emit s (AuthError ''Username already taken'') st)
      | None \<Rightarrow>
          if name \<in> set inherited_keys
          then Inr (socket_emit s (AuthError ''Username already taken'') st)
          else
          let newUser = \<lparr>username = name, password = pw, px = 400, py = 300,
                district = ''plaza'', color = col, money = 1000, equipment = None\<rparr>;
              st1 = st\<lparr>persistentUsers := (persistentUsers st)(name \<mapsto> newUser)\<rparr>;
              st2 = saveData_users st1
          in loginUser_file s name st2)"

definition login_file ::
  "sid \<Rightarrow> string \<Rightarrow> string \<Rightarrow> file_server \<Rightarrow> error + file_server" where
  "login_file s name pw st =
     (case persistentUsers st name of
        None \<Rightarrow> Inr (socket_emit s (AuthError ''Invalid username or password'') st)
      | Some u \<Rightarrow>
          if password u \<noteq> pw
          then Inr (socket_emit s (AuthError ''Invalid username or password'') st)
          else if name \<in> snd ` set (socketUserMap st)
          then Inr (socket_emit s (AuthError ''User already logged in'') st)
          else loginUser_file s name st)"

text \<open>The transport takes a closing socket out of its rooms before the \<open>disconnect\<close>
  handler runs.\<close>

definition socket_close :: "sid \<Rightarrow> 'a io_state_scheme \<Rightarrow> 'a io_state_scheme" where
  "socket_close s st =
     st\<lparr>connected := removeAll s (connected st),
        rooms := filter (\<lambda>m. fst m \<noteq> s) (rooms st)\<rparr>"

definition connection :: "sid \<Rightarrow> 'a io_state_scheme \<Rightarrow> 'a io_state_scheme" where
  "connection s st = st\<lparr>connected := List.insert s (connected st)\<rparr>"

definition or_null :: "string option \<Rightarrow> string option" where
  "or_null v = (if truthy v then v else None)"

definition disconnect_file :: "sid \<Rightarrow> file_server \<Rightarrow> error + file_server" where
  "disconnect_file s st0 =
     (let st = socket_close s st0 in
      case map_of (socketUserMap st) s of
        None \<Rightarrow> Inr st
      | Some name \<Rightarrow>
          if name = [] then Inr st
          else (case map_of (players st) s of
            None \<Rightarrow> Inr st
          | Some p \<Rightarrow>
              (case persistentUsers st name of
                 None \<Rightarrow> Inl TypeError
               | Some u \<Rightarrow>
                   let u' = u\<lparr>px := px p, py := py p, district := district p,
                              money := money p, equipment := or_null (equipment p)\<rparr>;
                       st1 = st\<lparr>persistentUsers := (persistentUsers st)(name \<mapsto> u')\<rparr>;
                       st2 = saveData_users st1;
                       st3 = st2\<lparr>players := AList.delete s (players st2),
                                 socketUserMap := AList.delete s (socketUserMap st2)\<rparr>
                   in Inr (if district p \<noteq> []
                           then io_to_emit (district p) (PlayerDisconnected s) st3
                           else st3))))"

text \<open>\<open>handleDistrictChange\<close>. \<open>spawnPos\<close> is \<open>None\<close> when the caller passes none.\<close>

definition persist_district_file ::
  "sid \<Rightarrow> string \<Rightarrow> file_server \<Rightarrow> error + file_server" where
  "persist_district_file s newRoom st =
     (if newRoom \<in> set DISTRICTS
      then (case map_of (socketUserMap st) s of
              None \<Rightarrow> Inr st
            | Some name \<Rightarrow>
                if name = [] then Inr st
                else (case persistentUsers st name of
                        None \<Rightarrow> Inl TypeError
                      | Some u \<Rightarrow>
                          Inr (saveData_users
                            (st\<lparr>persistentUsers :=
                                 (persistentUsers st)(name \<mapsto> u\<lparr>district := newRoom\<rparr>)\<rparr>))))
      else Inr st)"

definition move_session ::
  "sid \<Rightarrow> string \<Rightarrow> (int \<times> int) option \<Rightarrow> 'a session_state_scheme \<Rightarrow> 'a session_state_scheme" where
  "move_session s newRoom spawnPos st =
     (case map_of (players st) s of
        None \<Rightarrow> st
      | Some player0 \<Rightarrow>
          let oldRoom = district player0;
              st1 = socket_leave s oldRoom st;
              st2 = socket_to_emit s oldRoom (PlayerDisconnected s) st1;
              st3 = upd_player s (\<lambda>p. p\<lparr>district := newRoom\<rparr>) st2
          in (case spawnPos of
                Some pos \<Rightarrow> upd_player s (\<lambda>p. p\<lparr>px := fst pos, py := snd pos\<rparr>) st3
              | None \<Rightarrow>
                  if oldRoom \<noteq> newRoom
                  then upd_player s (\<lambda>p. p\<lparr>px := 400, py := 300\<rparr>) st3
                  else st3))"

definition announce_session ::
  "sid \<Rightarrow> string \<Rightarrow> 'a session_state_scheme \<Rightarrow> 'a session_state_scheme" where
  "announce_session s newRoom st =
     (let st1 = socket_join s newRoom st;
          roomPlayers = filter (\<lambda>p. district p = newRoom) (map snd (players st1));
          st2 = socket_emit s (PlayerChangedDistrict roomPlayers) st1;
          st3 = (case map_of (players st2) s of
                   None \<Rightarrow> st2
                 | Some p \<Rightarrow> socket_to_emit s newRoom (NewPlayer p) st2)
      in socket_emit s (SetDistrict newRoom) st3)"

definition handleDistrictChange_file ::
  "sid \<Rightarrow> string \<Rightarrow> (int \<times> int) option \<Rightarrow> file_server \<Rightarrow> error + file_server" where
  "handleDistrictChange_file s newRoom spawnPos st =
     (case map_of (players st) s of
        None \<Rightarrow> Inr st
      | Some player0 \<Rightarrow>
          (case persist_district_file s newRoom (move_session s newRoom spawnPos st) of
             Inl e \<Rightarrow> Inl e
           | Inr st1 \<Rightarrow>
               let st2 = announce_session s newRoom st1
               in Inr (if newRoom = ''housing''
                       then socket_emit s (HouseData (persistentHouses st2)) st2
                       else st2)))"

definition joinDistrict_file ::
  "sid \<Rightarrow> string \<Rightarrow> (int \<times> int) option \<Rightarrow> file_server \<Rightarrow> error + file_server" where
  "joinDistrict_file s newDistrict spawnPos st =
     (if newDistrict \<notin> set DISTRICTS then Inr st
      else handleDistrictChange_file s newDistrict spawnPos st)"

definition enterHouse_file :: "sid \<Rightarrow> string \<Rightarrow> file_server \<Rightarrow> error + file_server" where
  "enterHouse_file s plotId st = handleDistrictChange_file s (''house_'' @ plotId) None st"

definition leaveHouse_file :: "sid \<Rightarrow> file_server \<Rightarrow> error + file_server" where
  "leaveHouse_file s st = handleDistrictChange_file s ''housing'' None st"

definition joinBattle_file ::
  "sid \<Rightarrow> string jsopt \<Rightarrow> string jsopt \<Rightarrow> file_server \<Rightarrow> error + file_server" where
  "joinBattle_file s md tm st =
     (case map_of (players st) s of
        None \<Rightarrow> Inr st
      | Some player0 \<Rightarrow>
          let st1 = upd_player s (\<lambda>p. p\<lparr>hp := 100, maxHp := 100, mode := md, team := tm\<rparr>) st
          in (case handleDistrictChange_file s ''arena_battle'' (Some (400, 300)) st1 of
                Inl e \<Rightarrow> Inl e
              | Inr st2 \<Rightarrow>
                  (case map_of (players st2) s of
                     None \<Rightarrow> Inr st2
                   | Some p \<Rightarrow>
                       let st3 = io_emit (PlayerUpdate p) st2;
                           st4 = socket_emit s (BattleJoined md tm) st3
                       in Inr (io_to_emit ''arena_battle''
                            (ChatMessage ''SYSTEM'' (username p @ '' entered the arena!'') ''#ff4444'')
                            st4))))"


subsection \<open>Purchases and the quiz (file-backed)\<close>

definition buyHouse_file :: "sid \<Rightarrow> string \<Rightarrow> file_server \<Rightarrow> error + file_server" where
  "buyHouse_file s plotId st =
     (case map_of (persistentHouses st) plotId of
        None \<Rightarrow> Inr st
      | Some dbHouse \<Rightarrow>
          (case map_of (players st) s of
             None \<Rightarrow> Inr st
           | Some player0 \<Rightarrow>
               if \<not> truthy (owner dbHouse) \<and> money player0 \<ge> h_price dbHouse
               then
                 let st1 = upd_player s (\<lambda>p. p\<lparr>money := money p - h_price dbHouse\<rparr>) st;
                     dbHouse' = dbHouse\<lparr>owner := Some (username player0)\<rparr>;
                     st2 = st1\<lparr>persistentHouses :=
                              AList.update plotId dbHouse' (persistentHouses st1)\<rparr>;
                     st3 = saveData_houses st2;
                     balance = money player0 - h_price dbHouse
                 in (case persistentUsers st3 (username player0) of
                       None \<Rightarrow> Inl TypeError
                     | Some u \<Rightarrow>
                         let st4 = st3\<lparr>persistentUsers :=
                                     (persistentUsers st3)(username player0 \<mapsto> u\<lparr>money := balance\<rparr>)\<rparr>;
                             st5 = saveData_users st4;
                             st6 = io_emit (HouseUpdate dbHouse') st5;
                             st7 = socket_emit s (UpdateMoney balance) st6
                         in Inr (io_to_emit ''housing''
                              (ChatMessage ''SYSTEM''
                                 (username player0 @ '' bought '' @ plotId @ ''!'') ''#ffff00'')
                              st7))
               else Inr st))"

text \<open>
  The quiz payload as the client builds it: the operands are numbers, the answer is the
  text of the input field. Any further field of the payload (the \<open>questionId\<close>, a flag
  of the client's) is the \<open>more\<close> part of the record. The operands are the integer
  numerals of the message, the answer is the list of the 16-bit code units of the text.
  Operands that are no integers or no numbers are outside the model.
\<close>

record quiz_answer =
  num1 :: int
  num2 :: int
  answer :: "nat list"

text \<open>The code units of a text of the characters 0 to 255.\<close>

definition code_units :: "string \<Rightarrow> nat list" where
  "code_units t = map of_char t"

text \<open>
  The numbers with an integer value, the infinities and \<open>NaN\<close>. A number is a binary
  floating-point number with 53 significant bits: \<open>number_value n\<close> is the number for the
  integer \<open>n\<close>, the nearest one, the one with the even significand when two are equally
  near, and an infinity from \<open>2 ^ 1024 - 2 ^ 970\<close> on. Reading a numeral, \<open>parseInt\<close> and
  \<open>+\<close> give the number for the exact value. \<open>Num 0\<close> stands for both zeros, which
  \<open>===\<close> does not tell apart.
\<close>

datatype number = Num int | Infinity | MinusInfinity | NaN

function bit_length :: "int \<Rightarrow> nat" where
  "bit_length n = (if n \<le> 0 then 0 else Suc (bit_length (n div 2)))"
  by pat_completeness auto
termination by (relation "measure nat") auto

declare bit_length.simps [simp del]

definition number_value :: "int \<Rightarrow> number" where
  "number_value n =
     (let a = \<bar>n\<bar> in
      if a < 2 ^ 53 then Num n
      else
        let e = bit_length a - 53;
            q = a div 2 ^ e;
            r = a mod 2 ^ e;
            q1 = (if 2 ^ e < 2 * r \<or> (2 * r = 2 ^ e \<and> odd q) then q + 1 else q);
            m = q1 * 2 ^ e
        in if 2 ^ 1024 \<le> m then (if n < 0 then MinusInfinity else Infinity)
           else Num (if n < 0 then - m else m))"

text \<open>\<open>a + b\<close> and \<open>a === b\<close> of two numbers.\<close>

fun add_number :: "number \<Rightarrow> number \<Rightarrow> number" where
  "add_number (Num a) (Num b) = number_value (a + b)"
| "add_number NaN b = NaN"
| "add_number a NaN = NaN"
| "add_number Infinity MinusInfinity = NaN"
| "add_number MinusInfinity Infinity = NaN"
| "add_number Infinity b = Infinity"
| "add_number a Infinity = Infinity"
| "add_number MinusInfinity b = MinusInfinity"
| "add_number a MinusInfinity = MinusInfinity"

fun strictly_equal :: "number \<Rightarrow> number \<Rightarrow> bool" where
  "strictly_equal NaN b = False"
| "strictly_equal a NaN = False"
| "strictly_equal a b = (a = b)"

text \<open>
  \<open>parseInt\<close> of a string, with no radix given: leading white space is skipped, a sign is
  read, \<open>0x\<close> or \<open>0X\<close> selects radix 16, and the longest run of digits of the radix is
  the number; what follows the digits is ignored, and with no digit the result is
  \<open>NaN\<close>. White space is what \<open>String.prototype.trim\<close> removes: tab, line feed,
  vertical tab, form feed, carriage return, space, no-break space, the byte order mark,
  the line and paragraph separators and the other space separators of Unicode.
\<close>

definition isWhiteSpace :: "nat \<Rightarrow> bool" where
  "isWhiteSpace c =
     (c \<in> {9, 10, 11, 12, 13, 32, 160, 5760, 8232, 8233, 8239, 8287, 12288, 65279}
      \<or> (8192 \<le> c \<and> c \<le> 8202))"

definition digitValue :: "nat \<Rightarrow> nat" where
  "digitValue c =
     (if 48 \<le> c \<and> c \<le> 57 then c - 48
      else if 97 \<le> c \<and> c \<le> 122 then c - 87
      else if 65 \<le> c \<and> c \<le> 90 then c - 55
      else 36)"

definition parseInt :: "nat list \<Rightarrow> number" where
  "parseInt inputString =
     (let S = dropWhile isWhiteSpace inputString;
          sign = (if S \<noteq> [] \<and> hd S = of_char CHR ''-'' then - 1 else 1 :: int);
          S1 = (if S \<noteq> [] \<and> (hd S = of_char CHR ''+'' \<or> hd S = of_char CHR ''-'') then tl S else S);
          hex = (length S1 \<ge> 2 \<and> (take 2 S1 = code_units ''0x'' \<or> take 2 S1 = code_units ''0X''));
          R = (if hex then 16 else 10 :: nat);
          S2 = (if hex then drop 2 S1 else S1);
          Z = takeWhile (\<lambda>c. digitValue c < R) S2
      in if Z = [] then NaN
         else number_value (sign * int (foldl (\<lambda>acc c. acc * R + digitValue c) 0 Z)))"

definition submitQuizAnswer_file ::
  "sid \<Rightarrow> 'a quiz_answer_scheme \<Rightarrow> file_server \<Rightarrow> file_server" where
  "submitQuizAnswer_file s payload st =
     (case map_of (players st) s of
        None \<Rightarrow> st
      | Some player0 \<Rightarrow>
          let correctAnswer = add_number (number_value (num1 payload)) (number_value (num2 payload))
          in if strictly_equal (parseInt (answer payload)) correctAnswer
             then
               let st1 = upd_player s (\<lambda>p. p\<lparr>money := money p + 10\<rparr>) st;
                   balance = money player0 + 10;
                   st2 = (case persistentUsers st1 (username player0) of
                            None \<Rightarrow> st1
                          | Some u \<Rightarrow>
                              st1\<lparr>persistentUsers :=
                                (persistentUsers st1)(username player0 \<mapsto> u\<lparr>money := balance\<rparr>)\<rparr>);
                   st3 = saveData_users st2;
                   st4 = socket_emit s (UpdateMoney balance) st3
               in socket_emit s (QuizResultOk 10 balance) st4
             else socket_emit s QuizResultFail st)"

definition buyItem_file :: "sid \<Rightarrow> string \<Rightarrow> file_server \<Rightarrow> file_server" where
  "buyItem_file s itemId st =
     (case map_of (players st) s of
        None \<Rightarrow> st
      | Some player0 \<Rightarrow>
          (case find (\<lambda>i. i_id i = itemId) (items st) of
             None \<Rightarrow> st
           | Some it \<Rightarrow>
               if money player0 \<ge> i_price it
               then
                 let st1 = upd_player s (\<lambda>p. p\<lparr>money := money p - i_price it\<rparr>) st;
                     st2 = upd_player s (\<lambda>p. p\<lparr>equipment := Some itemId\<rparr>) st1;
                     balance = money player0 - i_price it;
                     st3 = (case persistentUsers st2 (username player0) of
                              None \<Rightarrow> st2
                            | Some u \<Rightarrow>
                                st2\<lparr>persistentUsers :=
                                  (persistentUsers st2)(username player0 \<mapsto>
                                     u\<lparr>money := balance, equipment := Some itemId\<rparr>)\<rparr>);
                     st4 = saveData_users st3;
                     st5 = socket_emit s (UpdateMoney balance) st4;
                     st6 = socket_emit s (ItemBoughtOk it) st5
                 in io_to_emit (district player0)
                      (ChatMessage ''SYSTEM''
                         (username player0 @ '' bought a '' @ i_name it @ ''!'') ''#ffff00'')
                      st6
               else socket_emit s (ItemBoughtFail ''Not enough money'') st))"

subsection \<open>Combat (file-backed)\<close>

text \<open>The weapon of a session: the first catalogue item whose id is its \<open>equipment\<close>.\<close>

definition weapon_of :: "item list \<Rightarrow> player \<Rightarrow> item option" where
  "weapon_of catalogue p =
     (case equipment p of
        None \<Rightarrow> None
      | Some e \<Rightarrow> find (\<lambda>i. i_id i = e) catalogue)"

text \<open>
  \<open>playerAttack\<close>. The target is the first session whose \<open>playerId\<close> is the given id;
  \<open>tk\<close> is the key it is stored under, so that the mutations of \<open>target\<close> and of
  \<open>attacker\<close> reach the same object when the two are one.
\<close>

definition playerAttack_file :: "sid \<Rightarrow> sid \<Rightarrow> file_server \<Rightarrow> file_server" where
  "playerAttack_file s targetId st =
     (case map_of (players st) s of
        None \<Rightarrow> st
      | Some attacker \<Rightarrow>
          (case find (\<lambda>kp. playerId (snd kp) = targetId) (players st) of
             None \<Rightarrow> st
           | Some (tk, target) \<Rightarrow>
               if district attacker \<noteq> ''arena_battle'' \<or> district target \<noteq> ''arena_battle''
               then st
               else if mode attacker = Val ''team'' \<and> team attacker = team target then st
               else
                 let damage = (case weapon_of (items st) attacker of
                                 Some weapon \<Rightarrow> i_damage weapon
                               | None \<Rightarrow> 10);
                     newHp = max 0 (hp target - damage);
                     st1 = upd_player tk (\<lambda>p. p\<lparr>hp := newHp\<rparr>) st;
                     st2 = io_emit (PlayerUpdate (target\<lparr>hp := newHp\<rparr>)) st1;
                     st3 = io_to_emit ''arena_battle''
                             (PlayerHit (playerId target) newHp (playerId attacker)) st2
                 in if newHp \<le> 0
                    then
                      let st4 = upd_player s (\<lambda>p. p\<lparr>money := money p + 50\<rparr>) st3;
                          balance = money attacker + 50;
                          st5 = (case persistentUsers st4 (username attacker) of
                                   None \<Rightarrow> st4
                                 | Some u \<Rightarrow>
                                     saveData_users
                                       (st4\<lparr>persistentUsers :=
                                          (persistentUsers st4)(username attacker \<mapsto>
                                             u\<lparr>money := balance\<rparr>)\<rparr>));
                          st6 = upd_player tk (\<lambda>p. p\<lparr>hp := 100, px := 400, py := 300\<rparr>) st5;
                          st7 = (case map_of (players st6) tk of
                                   None \<Rightarrow> st6
                                 | Some t \<Rightarrow> io_emit (PlayerUpdate t) st6);
                          st8 = io_to_emit ''arena_battle''
                                  (ChatMessage ''SYSTEM''
                                     (username attacker @ '' eliminated '' @ username target
                                        @ ''! +50 Coins'') ''#ffaa00'') st7;
                          st9 = io_to_undefined_emit PlayerRespawned st8
                      in socket_emit s (UpdateMoney balance) st9
                    else st3))"


section \<open>The document-store copy\<close>

text \<open>
  A collection is the list of its documents, \<open>usersCol\<close> a map from the username.
  \<open>findOne\<close> gives the first match, \<open>updateOne\<close> changes the first match and does
  nothing when there is none. A handler of this copy is an \<open>async\<close> function: it
  gives way to other events at each \<open>await\<close>. The handlers below are the
  compositions of their segments, as they run when no other event comes between. The
  segments of \<open>login\<close>, \<open>buyHouse\<close>, \<open>submitQuizAnswer\<close> and
  \<open>handleDistrictChange\<close> are also given on their own, further down, with the event
  loop that runs them in any order.
\<close>

definition updateOne_user ::
  "string \<Rightarrow> (user \<Rightarrow> user) \<Rightarrow> mongo_server \<Rightarrow> mongo_server" where
  "updateOne_user name f st =
     (case usersCol st name of
        None \<Rightarrow> st
      | Some u \<Rightarrow> st\<lparr>usersCol := (usersCol st)(name \<mapsto> f u)\<rparr>)"

fun update_first :: "('a \<Rightarrow> bool) \<Rightarrow> ('a \<Rightarrow> 'a) \<Rightarrow> 'a list \<Rightarrow> 'a list" where
  "update_first P f [] = []"
| "update_first P f (x # xs) = (if P x then f x # xs else x # update_first P f xs)"

text \<open>\<open>persistentHousesArr.forEach(h => persistentHouses[h.id] = h)\<close>\<close>

definition houses_by_id :: "house list \<Rightarrow> (string \<times> house) list" where
  "houses_by_id hs = foldl (\<lambda>m h. AList.update (h_id h) h m) [] hs"

text \<open>\<open>loginUser\<close>, from the \<open>await\<close> of its \<open>findOne\<close> to the next one.\<close>

definition loginUser_enter_mongo :: "sid \<Rightarrow> string \<Rightarrow> mongo_server \<Rightarrow> error + mongo_server" where
  "loginUser_enter_mongo s name st =
     (case usersCol st name of
        None \<Rightarrow> Inl NoAccount
      | Some userData \<Rightarrow>
          let st1 = st\<lparr>socketUserMap := AList.update s name (socketUserMap st)\<rparr>;
              p = new_session s userData;
              st2 = st1\<lparr>players := AList.update s p (players st1)\<rparr>
          in Inr (socket_join s (district p) st2))"

text \<open>\<open>loginUser\<close>, after the catalogue and the houses have been read: \<open>d\<close> is its
  local \<open>district\<close>.\<close>

definition loginUser_notify_mongo :: "sid \<Rightarrow> string \<Rightarrow> mongo_server \<Rightarrow> error + mongo_server" where
  "loginUser_notify_mongo s d st =
     (case map_of (players st) s of
        None \<Rightarrow> Inl NoAccount
      | Some p \<Rightarrow>
          let st1 = socket_emit s (LoginSuccess p (itemsCol st)) st;
              st2 = socket_emit s (HouseData (houses_by_id (housesCol st1))) st1;
              playersInDistrict = filter (\<lambda>q. district q = d) (map snd (players st2));
              st3 = socket_emit s (CurrentPlayers playersInDistrict) st2
          in Inr (socket_to_emit s d (NewPlayer p) st3))"

definition loginUser_mongo :: "sid \<Rightarrow> string \<Rightarrow> mongo_server \<Rightarrow> error + mongo_server" where
  "loginUser_mongo s name st =
     (case loginUser_enter_mongo s name st of
        Inl e \<Rightarrow> Inl e
      | Inr st1 \<Rightarrow>
          (case map_of (players st1) s of
             None \<Rightarrow> Inl NoAccount
           | Some p \<Rightarrow> loginUser_notify_mongo s (district p) st1))"

text \<open>The \<open>login\<close> handler from its first \<open>await\<close> up to the call of \<open>loginUser\<close>:
  the result is the state and whether \<open>loginUser\<close> was called.\<close>

definition login_check_mongo ::
  "sid \<Rightarrow> string \<Rightarrow> string \<Rightarrow> mongo_server \<Rightarrow> mongo_server \<times> bool" where
  "login_check_mongo s name pw st =
     (case usersCol st name of
        None \<Rightarrow> (socket_emit s (AuthError ''Invalid username or password'') st, False)
      | Some u \<Rightarrow>
          if password u \<noteq> pw
          then (socket_emit s (AuthError ''Invalid username or password'') st, False)
          else if name \<in> snd ` set (socketUserMap st)
          then (socket_emit s (AuthError ''User already logged in'') st, False)
          else (st, True))"

definition login_mongo ::
  "sid \<Rightarrow> string \<Rightarrow> string \<Rightarrow> mongo_server \<Rightarrow> error + mongo_server" where
  "login_mongo s name pw st =
     (case login_check_mongo s name pw st of
        (st1, False) \<Rightarrow> Inr st1
      | (st1, True) \<Rightarrow> loginUser_mongo s name st1)"

definition register_mongo ::
  "sid \<Rightarrow> string \<Rightarrow> string \<Rightarrow> string \<Rightarrow> mongo_server \<Rightarrow> error + mongo_server" where
  "register_mongo s name pw col st =
     (case usersCol st name of
        Some existing \<Rightarrow> Inr (socket_emit s (AuthError ''Username already taken'') st)
      | None \<Rightarrow>
          let newUser = \<lparr>username = name, password = pw, px = 400, py = 300,
                district = ''plaza'', color = col, money = 1000, equipment = None\<rparr>;
              st1 = st\<lparr>usersCol := (usersCol st)(name \<mapsto> newUser)\<rparr>
          in loginUser_mongo s name st1)"

definition disconnect_mongo :: "sid \<Rightarrow> mongo_server \<Rightarrow> mongo_server" where
  "disconnect_mongo s st0 =
     (let st = socket_close s st0 in
      case map_of (socketUserMap st) s of
        None \<Rightarrow> st
      | Some name \<Rightarrow>
          if name = [] then st
          else (case map_of (players st) s of
            None \<Rightarrow> st
          | Some p \<Rightarrow>
              let st1 = updateOne_user name
                          (\<lambda>u. u\<lparr>px := px p, py := py p, district := district p,
                                  money := money p, equipment := or_null (equipment p)\<rparr>) st;
                  st2 = st1\<lparr>players := AList.delete s (players st1),
                            socketUserMap := AList.delete s (socketUserMap st1)\<rparr>
              in if district p \<noteq> []
                 then io_to_emit (district p) (PlayerDisconnected s) st2
                 else st2))"

definition persist_district_mongo :: "sid \<Rightarrow> string \<Rightarrow> mongo_server \<Rightarrow> mongo_server" where
  "persist_district_mongo s newRoom st =
     (if newRoom \<in> set DISTRICTS
      then (case map_of (players st) s of
              None \<Rightarrow> st
            | Some p \<Rightarrow>
                updateOne_user (username p)
                  (\<lambda>u. u\<lparr>district := newRoom, px := px p, py := py p\<rparr>) st)
      else st)"

definition housing_data_mongo :: "sid \<Rightarrow> string \<Rightarrow> mongo_server \<Rightarrow> mongo_server" where
  "housing_data_mongo s newRoom st =
     (if newRoom = ''housing''
      then socket_emit s (HouseData (houses_by_id (housesCol st))) st
      else st)"

definition handleDistrictChange_mongo ::
  "sid \<Rightarrow> string \<Rightarrow> (int \<times> int) option \<Rightarrow> mongo_server \<Rightarrow> mongo_server" where
  "handleDistrictChange_mongo s newRoom spawnPos st =
     (case map_of (players st) s of
        None \<Rightarrow> st
      | Some player0 \<Rightarrow>
          housing_data_mongo s newRoom
            (announce_session s newRoom
               (persist_district_mongo s newRoom (move_session s newRoom spawnPos st))))"

definition joinDistrict_mongo ::
  "sid \<Rightarrow> string \<Rightarrow> (int \<times> int) option \<Rightarrow> mongo_server \<Rightarrow> mongo_server" where
  "joinDistrict_mongo s newDistrict spawnPos st =
     (if newDistrict \<notin> set DISTRICTS \<and> take 6 newDistrict \<noteq> ''house_'' then st
      else handleDistrictChange_mongo s newDistrict spawnPos st)"

definition enterHouse_mongo :: "sid \<Rightarrow> string \<Rightarrow> mongo_server \<Rightarrow> mongo_server" where
  "enterHouse_mongo s plotId st = handleDistrictChange_mongo s (''house_'' @ plotId) None st"

definition leaveHouse_mongo :: "sid \<Rightarrow> mongo_server \<Rightarrow> mongo_server" where
  "leaveHouse_mongo s st = handleDistrictChange_mongo s ''housing'' None st"

text \<open>\<open>joinBattle\<close> does not wait for \<open>handleDistrictChange\<close>: its \<open>playerUpdate\<close>
  is sent when the transfer has reached its \<open>await\<close>, before the socket joins the room.\<close>

definition joinBattle_mongo ::
  "sid \<Rightarrow> string jsopt \<Rightarrow> string jsopt \<Rightarrow> mongo_server \<Rightarrow> mongo_server" where
  "joinBattle_mongo s md tm st =
     (case map_of (players st) s of
        None \<Rightarrow> st
      | Some player0 \<Rightarrow>
          let st1 = upd_player s (\<lambda>p. p\<lparr>hp := 100, maxHp := 100, mode := md, team := tm\<rparr>) st;
              st2 = persist_district_mongo s ''arena_battle''
                      (move_session s ''arena_battle'' (Some (400, 300)) st1);
              st3 = (case map_of (players st2) s of
                       None \<Rightarrow> st2
                     | Some p \<Rightarrow> io_to_emit ''arena_battle'' (PlayerUpdate p) st2)
          in housing_data_mongo s ''arena_battle'' (announce_session s ''arena_battle'' st3))"

subsection \<open>Purchases and the quiz (document store)\<close>

definition buyHouse_mongo :: "sid \<Rightarrow> string \<Rightarrow> mongo_server \<Rightarrow> mongo_server" where
  "buyHouse_mongo s plotId st =
     (case map_of (players st) s of
        None \<Rightarrow> st
      | Some player0 \<Rightarrow>
          (case find (\<lambda>h. h_id h = plotId) (housesCol st) of
             None \<Rightarrow> st
           | Some hs \<Rightarrow>
               if \<not> truthy (owner hs) \<and> money player0 \<ge> h_price hs
               then
                 let st1 = upd_player s (\<lambda>p. p\<lparr>money := money p - h_price hs\<rparr>) st;
                     balance = money player0 - h_price hs;
                     st2 = st1\<lparr>housesCol :=
                              update_first (\<lambda>h. h_id h = plotId)
                                (\<lambda>h. h\<lparr>owner := Some (username player0)\<rparr>) (housesCol st1)\<rparr>;
                     st3 = updateOne_user (username player0) (\<lambda>u. u\<lparr>money := balance\<rparr>) st2;
                     st4 = (case find (\<lambda>h. h_id h = plotId) (housesCol st3) of
                              None \<Rightarrow> st3
                            | Some updatedHouse \<Rightarrow> io_emit (HouseUpdate updatedHouse) st3);
                     st5 = socket_emit s (UpdateMoney balance) st4
                 in io_to_emit ''housing''
                      (ChatMessage ''SYSTEM''
                         (username player0 @ '' bought '' @ plotId @ ''!'') ''#ffff00'')
                      st5
               else st))"

definition submitQuizAnswer_mongo ::
  "sid \<Rightarrow> 'a quiz_answer_scheme \<Rightarrow> mongo_server \<Rightarrow> mongo_server" where
  "submitQuizAnswer_mongo s payload st =
     (case map_of (players st) s of
        None \<Rightarrow> st
      | Some player0 \<Rightarrow>
          let correctAnswer = add_number (number_value (num1 payload)) (number_value (num2 payload))
          in if strictly_equal (parseInt (answer payload)) correctAnswer
             then
               let st1 = upd_player s (\<lambda>p. p\<lparr>money := money p + 10\<rparr>) st;
                   balance = money player0 + 10;
                   st2 = updateOne_user (username player0) (\<lambda>u. u\<lparr>money := balance\<rparr>) st1;
                   st3 = socket_emit s (UpdateMoney balance) st2
               in socket_emit s (QuizResultOk 10 balance) st3
             else socket_emit s QuizResultFail st)"

definition buyItem_mongo :: "sid \<Rightarrow> string \<Rightarrow> mongo_server \<Rightarrow> mongo_server" where
  "buyItem_mongo s itemId st =
     (case map_of (players st) s of
        None \<Rightarrow> st
      | Some player0 \<Rightarrow>
          (case find (\<lambda>i. i_id i = itemId) (itemsCol st) of
             None \<Rightarrow> socket_emit s (ItemBoughtFail ''Not enough money'') st
           | Some it \<Rightarrow>
               if money player0 \<ge> i_price it
               then
                 let st1 = upd_player s (\<lambda>p. p\<lparr>money := money p - i_price it\<rparr>) st;
                     st2 = upd_player s (\<lambda>p. p\<lparr>equipment := Some itemId\<rparr>) st1;
                     balance = money player0 - i_price it;
                     st3 = updateOne_user (username player0)
                             (\<lambda>u. u\<lparr>money := balance, equipment := Some itemId\<rparr>) st2;
                     st4 = socket_emit s (UpdateMoney balance) st3;
                     st5 = socket_emit s (ItemBoughtOk it) st4
                 in io_to_emit (district player0)
                      (ChatMessage ''SYSTEM''
                         (username player0 @ '' bought a '' @ i_name it @ ''!'') ''#ffff00'')
                      st5
               else socket_emit s (ItemBoughtFail ''Not enough money'') st))"

subsection \<open>Combat (document store)\<close>

definition playerAttack_mongo :: "sid \<Rightarrow> sid \<Rightarrow> mongo_server \<Rightarrow> mongo_server" where
  "playerAttack_mongo s targetId st =
     (case map_of (players st) s of
        None \<Rightarrow> st
      | Some attacker \<Rightarrow>
          (case map_of (players st) targetId of
             None \<Rightarrow> st
           | Some target \<Rightarrow>
               if district attacker \<noteq> ''arena_battle'' \<or> district target \<noteq> ''arena_battle''
               then st
               else
                 let damage = (case weapon_of (itemsCol st) attacker of
                                 Some weapon \<Rightarrow> i_damage weapon
                               | None \<Rightarrow> 5);
                     newHp = hp target - damage;
                     st1 = upd_player targetId (\<lambda>p. p\<lparr>hp := newHp\<rparr>) st;
                     st2 = io_to_emit ''arena_battle'' (PlayerHit targetId newHp s) st1
                 in if newHp \<le> 0
                    then
                      let st3 = upd_player s (\<lambda>p. p\<lparr>money := money p + 50\<rparr>) st2;
                          balance = money attacker + 50;
                          st4 = updateOne_user (username attacker) (\<lambda>u. u\<lparr>money := balance\<rparr>) st3;
                          st5 = upd_player targetId (\<lambda>p. p\<lparr>hp := 100, px := 400, py := 300\<rparr>) st4;
                          st6 = (case map_of (players st5) targetId of
                                   None \<Rightarrow> st5
                                 | Some t \<Rightarrow> io_emit (PlayerUpdate t) st5);
                          st7 = io_to_emit ''arena_battle''
                                  (ChatMessage ''SYSTEM''
                                     (username attacker @ '' eliminated '' @ username target
                                        @ ''! +50 Coins'') ''#ffaa00'') st6;
                          st8 = io_to_undefined_emit PlayerRespawned st7
                      in socket_emit s (UpdateMoney balance) st8
                    else st2))"


section \<open>The client's movement\<close>

text \<open>
  \<open>update\<close> and \<open>checkDistrictBoundaries\<close> of the client, for a client that is
  logged in (\<open>players[myId]\<close> exists; its \<open>x\<close>, \<open>y\<close> are \<open>c_x\<close>, \<open>c_y\<close>).
  The \<open>playerMovement\<close> message \<open>update\<close> sends is throttled by the clock and is
  left out; \<open>sent\<close> holds the \<open>joinDistrict\<close> messages. \<open>checkInteractions\<close> and
  \<open>handleAttack\<close>, which \<open>update\<close> calls before it moves the player, leave the position
  as it is; the first may open the quiz, and \<open>quizOpen\<close> is the quiz window's state when
  the movement is computed.
\<close>

record obstacle =
  o_x :: int
  o_y :: int
  o_width :: int
  o_height :: int

definition BATTLE_OBSTACLES :: "obstacle list" where
  "BATTLE_OBSTACLES =
     [\<lparr>o_x = 200, o_y = 150, o_width = 80, o_height = 80\<rparr>,
      \<lparr>o_x = 520, o_y = 150, o_width = 80, o_height = 80\<rparr>,
      \<lparr>o_x = 200, o_y = 370, o_width = 80, o_height = 80\<rparr>,
      \<lparr>o_x = 520, o_y = 370, o_width = 80, o_height = 80\<rparr>,
      \<lparr>o_x = 260, o_y = 260, o_width = 80, o_height = 80\<rparr>,
      \<lparr>o_x = 460, o_y = 260, o_width = 80, o_height = 80\<rparr>]"

text \<open>The body of the loop of \<open>checkCollision\<close>: the circle round \<open>(x, y)\<close> against
  one rectangle.\<close>

definition obstacle_hit :: "int \<Rightarrow> int \<Rightarrow> int \<Rightarrow> obstacle \<Rightarrow> bool" where
  "obstacle_hit x y radius ob =
     (let closestX = max (o_x ob) (min x (o_x ob + o_width ob));
          closestY = max (o_y ob) (min y (o_y ob + o_height ob));
          distanceX = x - closestX;
          distanceY = y - closestY;
          distanceSquared = (distanceX * distanceX) + (distanceY * distanceY)
      in distanceSquared < (radius * radius))"

fun hits_any :: "int \<Rightarrow> int \<Rightarrow> int \<Rightarrow> obstacle list \<Rightarrow> bool" where
  "hits_any x y radius [] = False"
| "hits_any x y radius (ob # obs) =
     (if obstacle_hit x y radius ob then True else hits_any x y radius obs)"

definition checkCollision_radius :: "string \<Rightarrow> int \<Rightarrow> int \<Rightarrow> int \<Rightarrow> bool" where
  "checkCollision_radius cur x y radius =
     (if cur = ''arena_battle'' then hits_any x y radius BATTLE_OBSTACLES else False)"

text \<open>\<open>checkCollision(x, y)\<close>: the radius takes its default, 15.\<close>

definition checkCollision :: "string \<Rightarrow> int \<Rightarrow> int \<Rightarrow> bool" where
  "checkCollision cur x y = checkCollision_radius cur x y 15"

record keys =
  key_w :: bool
  key_a :: bool
  key_s :: bool
  key_d :: bool
  key_ArrowUp :: bool
  key_ArrowLeft :: bool
  key_ArrowDown :: bool
  key_ArrowRight :: bool
  key_e :: bool
  key_space :: bool

datatype client_msg = JoinDistrict string "int \<times> int"

record client =
  c_x :: int
  c_y :: int
  currentDistrict :: string
  pressed :: keys
  quizOpen :: bool
  isTransitioning :: bool
  sent :: "client_msg list"

definition SPEED :: int where
  "SPEED = 5"

text \<open>The candidate position of \<open>update\<close>.\<close>

definition candidate :: "client \<Rightarrow> int \<times> int" where
  "candidate c =
     (let k = pressed c;
          newY1 = (if key_w k \<or> key_ArrowUp k then c_y c - SPEED else c_y c);
          newY = (if key_s k \<or> key_ArrowDown k then newY1 + SPEED else newY1);
          newX1 = (if key_a k \<or> key_ArrowLeft k then c_x c - SPEED else c_x c);
          newX = (if key_d k \<or> key_ArrowRight k then newX1 + SPEED else newX1)
      in (newX, newY))"

text \<open>The movement of \<open>update\<close>: the client after it, and \<open>moved\<close>.\<close>

definition update_position :: "client \<Rightarrow> client \<times> bool" where
  "update_position c =
     (if quizOpen c then (c, False)
      else
        let newX = fst (candidate c); newY = snd (candidate c);
            wouldCollide = checkCollision (currentDistrict c) newX newY
        in if \<not> wouldCollide
           then (if newX \<noteq> c_x c \<or> newY \<noteq> c_y c
                 then (c\<lparr>c_x := newX, c_y := newY\<rparr>, True)
                 else (c, False))
           else if \<not> checkCollision (currentDistrict c) newX (c_y c)
           then (c\<lparr>c_x := newX\<rparr>, True)
           else if \<not> checkCollision (currentDistrict c) (c_x c) newY
           then (c\<lparr>c_y := newY\<rparr>, True)
           else (c, False))"

datatype side = Left | Right | Top | Bottom

fun DISTRICT_MAP :: "string \<Rightarrow> side \<Rightarrow> string option" where
  "DISTRICT_MAP cur sd =
     (if cur = ''plaza''
      then (case sd of Left \<Rightarrow> Some ''housing'' | Right \<Rightarrow> Some ''arena''
                     | Top \<Rightarrow> Some ''school'' | Bottom \<Rightarrow> None)
      else if cur = ''housing'' then (case sd of Right \<Rightarrow> Some ''plaza'' | _ \<Rightarrow> None)
      else if cur = ''arena'' then (case sd of Left \<Rightarrow> Some ''plaza'' | _ \<Rightarrow> None)
      else if cur = ''school'' then (case sd of Bottom \<Rightarrow> Some ''plaza'' | _ \<Rightarrow> None)
      else None)"

text \<open>The first half of \<open>checkDistrictBoundaries\<close>: the side looked at and the spawn
  point, \<open>None\<close> when \<open>target\<close> and \<open>spawn\<close> stay \<open>null\<close>.\<close>

definition exit_side :: "int \<Rightarrow> int \<Rightarrow> (side \<times> (int \<times> int)) option" where
  "exit_side x y =
     (let W = 800; H = 600; OFFSET = 75 in
      if x < 0 then Some (Left, (W - OFFSET, y))
      else if x > W then Some (Right, (OFFSET, y))
      else if y < 0 then Some (Top, (x, H - OFFSET))
      else if y > H then Some (Bottom, (x, OFFSET))
      else None)"

definition clamp_to_bounds :: "client \<Rightarrow> client" where
  "clamp_to_bounds c =
     (let c1 = (if c_x c < 0 then c\<lparr>c_x := 0\<rparr> else c);
          c2 = (if c_x c1 > 800 then c1\<lparr>c_x := 800\<rparr> else c1);
          c3 = (if c_y c2 < 0 then c2\<lparr>c_y := 0\<rparr> else c2)
      in if c_y c3 > 600 then c3\<lparr>c_y := 600\<rparr> else c3)"

definition checkDistrictBoundaries :: "client \<Rightarrow> client" where
  "checkDistrictBoundaries c =
     (if isTransitioning c then c
      else
        (case exit_side (c_x c) (c_y c) of
           None \<Rightarrow> clamp_to_bounds c
         | Some (sd, spawn) \<Rightarrow>
             (case DISTRICT_MAP (currentDistrict c) sd of
                None \<Rightarrow> clamp_to_bounds c
              | Some target \<Rightarrow>
                  c\<lparr>pressed := (pressed c)\<lparr>key_w := False, key_a := False,
                                            key_s := False, key_d := False\<rparr>,
                    isTransitioning := True,
                    c_x := fst spawn, c_y := snd spawn,
                    sent := sent c @ [JoinDistrict target spawn],
                    currentDistrict := target\<rparr>)))"

text \<open>The timer set by a transfer, 500 ms later.\<close>

definition transition_timeout :: "client \<Rightarrow> client" where
  "transition_timeout c = c\<lparr>isTransitioning := False\<rparr>"

text \<open>One frame: the movement, then the boundaries when the player has moved.\<close>

definition tick :: "client \<Rightarrow> client" where
  "tick c = (case update_position c of (c1, moved) \<Rightarrow>
               if moved then checkDistrictBoundaries c1 else c1)"

section \<open>Runs of the server\<close>

text \<open>The events of the clients, and the server's reaction to a list of them, one
  handler after the other.\<close>

datatype client_event =
    Connection sid
  | Register sid string string string
  | Login sid string string
  | Disconnect sid
  | PlayerMovement sid int int
  | JoinDistrictOf sid string "(int \<times> int) option"
  | BuyHouse sid string
  | EnterHouse sid string
  | LeaveHouse sid
  | SubmitQuizAnswer sid quiz_answer
  | BuyItem sid string
  | JoinBattle sid "string jsopt" "string jsopt"
  | PlayerAttack sid sid

fun step_file :: "client_event \<Rightarrow> file_server \<Rightarrow> error + file_server" where
  "step_file (Connection s) st = Inr (connection s st)"
| "step_file (Register s name pw col) st = register_file s name pw col st"
| "step_file (Login s name pw) st = login_file s name pw st"
| "step_file (Disconnect s) st = disconnect_file s st"
| "step_file (PlayerMovement s x y) st = Inr (playerMovement s (x, y) st)"
| "step_file (JoinDistrictOf s d spawnPos) st = joinDistrict_file s d spawnPos st"
| "step_file (BuyHouse s plotId) st = buyHouse_file s plotId st"
| "step_file (EnterHouse s plotId) st = enterHouse_file s plotId st"
| "step_file (LeaveHouse s) st = leaveHouse_file s st"
| "step_file (SubmitQuizAnswer s payload) st = Inr (submitQuizAnswer_file s payload st)"
| "step_file (BuyItem s itemId) st = Inr (buyItem_file s itemId st)"
| "step_file (JoinBattle s md tm) st = joinBattle_file s md tm st"
| "step_file (PlayerAttack s targetId) st = Inr (playerAttack_file s targetId st)"

fun run_file :: "client_event list \<Rightarrow> file_server \<Rightarrow> error + file_server" where
  "run_file [] st = Inr st"
| "run_file (ev # evs) st =
     (case step_file ev st of Inl e \<Rightarrow> Inl e | Inr st1 \<Rightarrow> run_file evs st1)"

fun step_mongo :: "client_event \<Rightarrow> mongo_server \<Rightarrow> error + mongo_server" where
  "step_mongo (Connection s) st = Inr (connection s st)"
| "step_mongo (Register s name pw col) st = register_mongo s name pw col st"
| "step_mongo (Login s name pw) st = login_mongo s name pw st"
| "step_mongo (Disconnect s) st = Inr (disconnect_mongo s st)"
| "step_mongo (PlayerMovement s x y) st = Inr (playerMovement s (x, y) st)"
| "step_mongo (JoinDistrictOf s d spawnPos) st = Inr (joinDistrict_mongo s d spawnPos st)"
| "step_mongo (BuyHouse s plotId) st = Inr (buyHouse_mongo s plotId st)"
| "step_mongo (EnterHouse s plotId) st = Inr (enterHouse_mongo s plotId st)"
| "step_mongo (LeaveHouse s) st = Inr (leaveHouse_mongo s st)"
| "step_mongo (SubmitQuizAnswer s payload) st = Inr (submitQuizAnswer_mongo s payload st)"
| "step_mongo (BuyItem s itemId) st = Inr (buyItem_mongo s itemId st)"
| "step_mongo (JoinBattle s md tm) st = Inr (joinBattle_mongo s md tm st)"
| "step_mongo (PlayerAttack s targetId) st = Inr (playerAttack_mongo s targetId st)"

fun run_mongo :: "client_event list \<Rightarrow> mongo_server \<Rightarrow> error + mongo_server" where
  "run_mongo [] st = Inr st"
| "run_mongo (ev # evs) st =
     (case step_mongo ev st of Inl e \<Rightarrow> Inl e | Inr st1 \<Rightarrow> run_mongo evs st1)"

text \<open>The plots the file-backed copy creates when it finds none.\<close>

definition default_plot :: "nat \<Rightarrow> string \<Rightarrow> string \<times> house" where
  "default_plot i name =
     (name, \<lparr>h_id = name, h_x = 200 + int i * 150, h_y = 200, h_price = 500,
             owner = None, furnishing = []\<rparr>)"

definition default_plots :: "(string \<times> house) list" where
  "default_plots =
     [default_plot 1 ''plot_1'', default_plot 2 ''plot_2'',
      default_plot 3 ''plot_3'', default_plot 4 ''plot_4'']"

text \<open>The servers at start, with no account, for a given catalogue (the catalogue's file
  is not part of the sources). The document-store copy fills an empty collection of houses
  from \<open>initial_data/houses.json\<close>, which is not part of the sources either; the runs
  below start it with the same four plots as the file-backed copy.\<close>

definition file_start :: "item list \<Rightarrow> file_server" where
  "file_start catalogue =
     \<lparr>connected = [], rooms = [], outbox = [], players = [], socketUserMap = [],
      persistentUsers = Map.empty, persistentHouses = default_plots, items = catalogue,
      users_file = Map.empty, houses_file = default_plots\<rparr>"

definition mongo_start :: "item list \<Rightarrow> mongo_server" where
  "mongo_start catalogue =
     \<lparr>connected = [], rooms = [], outbox = [], players = [], socketUserMap = [],
      usersCol = Map.empty, housesCol = map snd default_plots, itemsCol = catalogue\<rparr>"

text \<open>The state a run ends in (the start state again for a run that ends in an error).\<close>

definition after_file :: "item list \<Rightarrow> client_event list \<Rightarrow> file_server" where
  "after_file catalogue evs =
     (case run_file evs (file_start catalogue) of
        Inl e \<Rightarrow> file_start catalogue
      | Inr st \<Rightarrow> st)"

definition after_mongo :: "item list \<Rightarrow> client_event list \<Rightarrow> mongo_server" where
  "after_mongo catalogue evs =
     (case run_mongo evs (mongo_start catalogue) of
        Inl e \<Rightarrow> mongo_start catalogue
      | Inr st \<Rightarrow> st)"

text \<open>A catalogue of one weapon, for the runs below.\<close>

definition sword :: item where
  "sword = \<lparr>i_id = ''sword'', i_name = ''Iron Sword'', i_price = 100, i_damage = 20, i_range = 50\<rparr>"

text \<open>Two accounts, and a run in which both register and stand in the plaza.\<close>

definition alice :: user where
  "alice = \<lparr>username = ''alice'', password = ''pa'', px = 400, py = 300,
            district = ''plaza'', color = ''red'', money = 1000, equipment = None\<rparr>"

definition bob :: user where
  "bob = \<lparr>username = ''bob'', password = ''pb'', px = 400, py = 300,
          district = ''plaza'', color = ''blue'', money = 1000, equipment = None\<rparr>"

definition two_in_plaza :: "client_event list" where
  "two_in_plaza =
     [Connection ''s1'', Register ''s1'' ''alice'' ''pa'' ''red'',
      Connection ''s2'', Register ''s2'' ''bob'' ''pb'' ''blue'']"

section \<open>Predicates the properties are stated with\<close>

text \<open>No session holds a negative balance; no stored account does.\<close>

definition sessions_nonneg :: "'a session_state_scheme \<Rightarrow> bool" where
  "sessions_nonneg st = list_all (\<lambda>kp. 0 \<le> money (snd kp)) (players st)"

definition accounts_nonneg :: "(string \<rightharpoonup> user) \<Rightarrow> bool" where
  "accounts_nonneg m = (\<forall>name u. m name = Some u \<longrightarrow> 0 \<le> money u)"

text \<open>Every session's account is in the store (accounts are never removed).\<close>

definition accounts_present :: "file_server \<Rightarrow> bool" where
  "accounts_present st =
     list_all (\<lambda>kp. persistentUsers st (username (snd kp)) \<noteq> None) (players st)"

text \<open>The run in which alice then buys the first plot.\<close>

definition plot_sold :: "client_event list" where
  "plot_sold = two_in_plaza @ [BuyHouse ''s1'' ''plot_1'']"

text \<open>
  Following the claim's words, \<open>num1 + num2\<close> equals the claimed answer: the answer's
  text is a decimal numeral of the number, digits only, after a minus sign for a
  negative number. And the integers every one of which is a number, as are the sums of
  any two whose sum is among them.
\<close>

definition is_decimal_digit :: "nat \<Rightarrow> bool" where
  "is_decimal_digit c = (48 \<le> c \<and> c \<le> 57)"

definition decimal_value :: "nat list \<Rightarrow> nat" where
  "decimal_value ds = foldl (\<lambda>acc c. acc * 10 + (c - 48)) 0 ds"

definition answer_is :: "nat list \<Rightarrow> int \<Rightarrow> bool" where
  "answer_is a n =
     (case a of
        [] \<Rightarrow> False
      | c # ds \<Rightarrow>
          if c = of_char CHR ''-''
          then ds \<noteq> [] \<and> list_all is_decimal_digit ds \<and> n = - int (decimal_value ds)
          else list_all is_decimal_digit a \<and> n = int (decimal_value a))"

definition exact :: "int \<Rightarrow> bool" where
  "exact n = (\<bar>n\<bar> < 2 ^ 53)"

text \<open>Runs in the combat zone. In \<open>duel\<close> alice and bob have entered it; in
  \<open>bob_worn_down\<close> alice has hit bob once with bare hands, bought the sword, and hit
  him four times with it. In \<open>red_team\<close> both have entered in team mode, in the same
  team.\<close>

definition duel :: "client_event list" where
  "duel = two_in_plaza @
     [JoinBattle ''s1'' (Val ''solo'') Null, JoinBattle ''s2'' (Val ''solo'') Null]"

definition bob_worn_down :: "client_event list" where
  "bob_worn_down = duel @
     [PlayerAttack ''s1'' ''s2'', BuyItem ''s1'' ''sword'',
      PlayerAttack ''s1'' ''s2'', PlayerAttack ''s1'' ''s2'',
      PlayerAttack ''s1'' ''s2'', PlayerAttack ''s1'' ''s2'']"

definition red_team :: "client_event list" where
  "red_team = two_in_plaza @
     [JoinBattle ''s1'' (Val ''team'') (Val ''red''),
      JoinBattle ''s2'' (Val ''team'') (Val ''red'')]"

text \<open>The health an event carries, and a list of sent events none of which carries a
  negative one.\<close>

definition health_of :: "event \<Rightarrow> int option" where
  "health_of ev =
     (case ev of
        PlayerHit targetId h attackerId \<Rightarrow> Some h
      | PlayerUpdate p \<Rightarrow> Some (hp p)
      | _ \<Rightarrow> None)"

definition no_negative_health :: "(sid list \<times> event) list \<Rightarrow> bool" where
  "no_negative_health sent_events =
     list_all (\<lambda>e. case health_of (snd e) of None \<Rightarrow> True | Some h \<Rightarrow> 0 \<le> h) sent_events"

text \<open>
  Following the claim's words: the circle of the given radius round \<open>(x, y)\<close> meets
  the rectangle, that is, some point of the rectangle is nearer to \<open>(x, y)\<close> than the
  radius.
\<close>

definition circle_meets :: "int \<Rightarrow> int \<Rightarrow> int \<Rightarrow> obstacle \<Rightarrow> bool" where
  "circle_meets x y radius ob =
     (\<exists>qx qy. o_x ob \<le> qx \<and> qx \<le> o_x ob + o_width ob
            \<and> o_y ob \<le> qy \<and> qy \<le> o_y ob + o_height ob
            \<and> (x - qx) * (x - qx) + (y - qy) * (y - qy) < radius * radius)"

text \<open>A client in the combat zone, beside the first obstacle, with the keys for right and
  down pressed.\<close>

definition no_keys :: keys where
  "no_keys = \<lparr>key_w = False, key_a = False, key_s = False, key_d = False,
              key_ArrowUp = False, key_ArrowLeft = False, key_ArrowDown = False,
              key_ArrowRight = False, key_e = False, key_space = False\<rparr>"

definition beside_obstacle :: client where
  "beside_obstacle =
     \<lparr>c_x = 185, c_y = 200, currentDistrict = ''arena_battle'',
      pressed = no_keys\<lparr>key_d := True, key_s := True\<rparr>,
      quizOpen = False, isTransitioning = False, sent = []\<rparr>"

text \<open>
  What \<open>checkDistrictBoundaries\<close> does for a player that has left the world on the
  side \<open>sd\<close>, \<open>spawn\<close> being the point 75 inside the opposite edge: with a neighbour
  on that side the player is put at \<open>spawn\<close>, \<open>joinDistrict\<close> is sent for the
  neighbour, which becomes the current district, the four letter keys are released and
  the cooldown starts; with none the position is clamped into the world.
\<close>

definition crossing :: "client \<Rightarrow> side \<Rightarrow> int \<times> int \<Rightarrow> client" where
  "crossing c sd spawn =
     (case DISTRICT_MAP (currentDistrict c) sd of
        Some target \<Rightarrow>
          c\<lparr>pressed := (pressed c)\<lparr>key_w := False, key_a := False,
                                    key_s := False, key_d := False\<rparr>,
            isTransitioning := True,
            c_x := fst spawn, c_y := snd spawn,
            sent := sent c @ [JoinDistrict target spawn],
            currentDistrict := target\<rparr>
      | None \<Rightarrow> c\<lparr>c_x := min 800 (max 0 (c_x c)), c_y := min 600 (max 0 (c_y c))\<rparr>)"

text \<open>A client in the bottom left corner of the school, with the keys for left and down
  pressed; and one in the plaza that has stepped over its left edge.\<close>

definition school_corner :: client where
  "school_corner =
     \<lparr>c_x = 0, c_y = 600, currentDistrict = ''school'',
      pressed = no_keys\<lparr>key_a := True, key_s := True\<rparr>,
      quizOpen = False, isTransitioning = False, sent = []\<rparr>"

definition plaza_left_edge :: client where
  "plaza_left_edge =
     \<lparr>c_x = - 5, c_y = 300, currentDistrict = ''plaza'',
      pressed = no_keys\<lparr>key_a := True\<rparr>,
      quizOpen = False, isTransitioning = False, sent = []\<rparr>"

text \<open>
  A transfer, in the claim's words. The position after it: the spawn position when one
  is given, else the default spawn point when the district changes, else the old
  position. The other members of a room. And the transfer of session \<open>p\<close> of socket
  \<open>s\<close> from \<open>st\<close> to \<open>st'\<close>: the session has the new district and position and no
  other session changes; the socket has left the room of the old district and is in
  that of the new one; the old room's remaining members are told of the departure, the
  session is sent the sessions now in the new district, the new room's other members
  are told of the arrival, and the session is told its district; \<open>between\<close> is what
  is sent after the departure notice and before the rest, \<open>extra\<close> what is sent last.
\<close>

definition transfer_position :: "player \<Rightarrow> string \<Rightarrow> (int \<times> int) option \<Rightarrow> int \<times> int" where
  "transfer_position p newRoom spawnPos =
     (case spawnPos of
        Some pos \<Rightarrow> pos
      | None \<Rightarrow> if district p \<noteq> newRoom then (400, 300) else (px p, py p))"

definition others_in :: "'a io_state_scheme \<Rightarrow> sid \<Rightarrow> string \<Rightarrow> sid list" where
  "others_in st s room = filter (\<lambda>t. t \<noteq> s \<and> (t, room) \<in> set (rooms st)) (connected st)"

definition transferred ::
  "sid \<Rightarrow> player \<Rightarrow> string \<Rightarrow> (int \<times> int) option \<Rightarrow>
   (sid list \<times> event) list \<Rightarrow> (sid list \<times> event) list \<Rightarrow>
   'a session_state_scheme \<Rightarrow> 'b session_state_scheme \<Rightarrow> bool" where
  "transferred s p newRoom spawnPos between extra st st' =
     (let p' = p\<lparr>district := newRoom,
                  px := fst (transfer_position p newRoom spawnPos),
                  py := snd (transfer_position p newRoom spawnPos)\<rparr>
      in map_of (players st') s = Some p'
       \<and> (\<forall>t. t \<noteq> s \<longrightarrow> map_of (players st') t = map_of (players st) t)
       \<and> set (rooms st') = insert (s, newRoom) (set (rooms st) - {(s, district p)})
       \<and> connected st' = connected st
       \<and> socketUserMap st' = socketUserMap st
       \<and> outbox st' = outbox st @
           [(others_in st s (district p), PlayerDisconnected s)] @ between @
           [([s], PlayerChangedDistrict
                    (filter (\<lambda>q. district q = newRoom) (map snd (players st')))),
            (others_in st s newRoom, NewPlayer p'),
            ([s], SetDistrict newRoom)] @ extra)"

definition sockets_have_accounts :: "file_server \<Rightarrow> bool" where
  "sockets_have_accounts st =
     list_all (\<lambda>kn. persistentUsers st (snd kn) \<noteq> None) (socketUserMap st)"

section \<open>The login of the document-store copy, segment by segment\<close>

text \<open>
  A \<open>login\<close> handler of the document-store copy that has been started waits three
  times: for the \<open>findOne\<close> of the handler, for the \<open>findOne\<close> of \<open>loginUser\<close>, and
  for the reads of the catalogue and the houses (\<open>d\<close> is \<open>loginUser\<close>'s local
  \<open>district\<close>). Between two waits it runs without interruption; while it waits, the
  event loop runs other handlers. A task is a started handler with the point it waits at.
\<close>

datatype stage = AfterFindOne | InLoginUser | InLoginUserRead string

type_synonym task = "sid \<times> string \<times> string \<times> stage"

text \<open>A task runs on to its next wait: the new state, and the task if it is not
  finished.\<close>

fun resume :: "task \<Rightarrow> mongo_server \<Rightarrow> error + (mongo_server \<times> task option)" where
  "resume (s, name, pw, AfterFindOne) st =
     (case login_check_mongo s name pw st of
        (st1, False) \<Rightarrow> Inr (st1, None)
      | (st1, True) \<Rightarrow> Inr (st1, Some (s, name, pw, InLoginUser)))"
| "resume (s, name, pw, InLoginUser) st =
     (case loginUser_enter_mongo s name st of
        Inl e \<Rightarrow> Inl e
      | Inr st1 \<Rightarrow>
          (case map_of (players st1) s of
             None \<Rightarrow> Inl NoAccount
           | Some p \<Rightarrow> Inr (st1, Some (s, name, pw, InLoginUserRead (district p)))))"
| "resume (s, name, pw, InLoginUserRead d) st =
     (case loginUser_notify_mongo s d st of
        Inl e \<Rightarrow> Inl e
      | Inr st1 \<Rightarrow> Inr (st1, None))"

text \<open>What the event loop does next: it starts the handler of a \<open>login\<close> event that
  has arrived, or it resumes the \<open>k\<close>-th waiting task, whose wait is over.\<close>

datatype action = LoginArrives sid string string | Resume nat

fun schedule ::
  "action list \<Rightarrow> mongo_server \<times> task list \<Rightarrow> error + (mongo_server \<times> task list)" where
  "schedule [] c = Inr c"
| "schedule (LoginArrives s name pw # acts) (st, tasks) =
     schedule acts (st, tasks @ [(s, name, pw, AfterFindOne)])"
| "schedule (Resume k # acts) (st, tasks) =
     (if k < length tasks
      then (case resume (tasks ! k) st of
              Inl e \<Rightarrow> Inl e
            | Inr (st1, None) \<Rightarrow> schedule acts (st1, take k tasks @ drop (Suc k) tasks)
            | Inr (st1, Some t) \<Rightarrow> schedule acts (st1, tasks[k := t]))
      else schedule acts (st, tasks))"

text \<open>The run in which alice has registered and left, and two sockets have connected.\<close>

definition alice_offline :: "client_event list" where
  "alice_offline =
     [Connection ''s0'', Register ''s0'' ''alice'' ''pa'' ''red'', Disconnect ''s0'',
      Connection ''s1'', Connection ''s2'']"

text \<open>The usernames of the live sessions.\<close>

definition session_names :: "'a session_state_scheme \<Rightarrow> string list" where
  "session_names st = map (\<lambda>kp. username (snd kp)) (players st)"

text \<open>
  At most one live session per account: no two sessions carry the same username. And
  the invariant of the file-backed copy that keeps it so: every stored account is filed
  under its own username, the sessions and \<open>socketUserMap\<close> list the same sockets with
  the same usernames, no socket and no username occurs twice there, and every logged-in
  socket's account is stored.
\<close>

definition one_session_per_account :: "'a session_state_scheme \<Rightarrow> bool" where
  "one_session_per_account st = distinct (session_names st)"

definition store_consistent :: "(string \<rightharpoonup> user) \<Rightarrow> bool" where
  "store_consistent m = (\<forall>n u. m n = Some u \<longrightarrow> username u = n)"

definition sessions_wf_file :: "file_server \<Rightarrow> bool" where
  "sessions_wf_file st =
     (store_consistent (persistentUsers st)
      \<and> map (\<lambda>kp. (fst kp, username (snd kp))) (players st) = socketUserMap st
      \<and> distinct (map fst (socketUserMap st))
      \<and> distinct (map snd (socketUserMap st))
      \<and> sockets_have_accounts st)"

text \<open>The events of the session registry.\<close>

fun registry_event :: "client_event \<Rightarrow> bool" where
  "registry_event (Connection s) = True"
| "registry_event (Register s name pw col) = True"
| "registry_event (Login s name pw) = True"
| "registry_event (Disconnect s) = True"
| "registry_event ev = False"

text \<open>The same invariant for the document-store copy.\<close>

definition sockets_have_documents :: "mongo_server \<Rightarrow> bool" where
  "sockets_have_documents st =
     list_all (\<lambda>kn. usersCol st (snd kn) \<noteq> None) (socketUserMap st)"

definition sessions_wf_mongo :: "mongo_server \<Rightarrow> bool" where
  "sessions_wf_mongo st =
     (store_consistent (usersCol st)
      \<and> map (\<lambda>kp. (fst kp, username (snd kp))) (players st) = socketUserMap st
      \<and> distinct (map fst (socketUserMap st))
      \<and> distinct (map snd (socketUserMap st))
      \<and> sockets_have_documents st)"

section \<open>Other handlers of the document-store copy, segment by segment\<close>

text \<open>
  \<open>buyHouse\<close>, \<open>submitQuizAnswer\<close> and \<open>handleDistrictChange\<close> of the document-store
  copy wait for the store as well. A handler runs without interruption up to an
  \<open>await\<close>; the store is taken here to carry out the operation awaited when it is
  issued, so that operations are served in the order of their issue; the handler goes on
  with the result in a later turn of the event loop, and other handlers run in between. A
  waiting handler is given by the point it waits at and what it holds: its socket, its
  arguments and, after a read, the document read.

  A handler holds the session object it found in \<open>players\<close> when it started. None of
  the events of this section removes or replaces a session (lemma \<open>sessions_stay\<close>),
  so that this object is \<open>players[socket.id]\<close> as long as the handler runs.
\<close>

datatype waiting =
    BuyHouseFindOne sid string "house option"
  | BuyHouseUpdateOwner sid string
  | BuyHouseUpdateMoney sid string
  | BuyHouseFindUpdated sid string "house option"
  | QuizUpdateMoney sid
  | DistrictUpdate sid string
  | DistrictFindHouses sid "house list"

text \<open>\<open>buyHouse\<close>: up to the \<open>findOne\<close> of the plot; from its result, through the
  test and the debit, to the \<open>updateOne\<close> of the owner; on to the \<open>updateOne\<close> of the
  balance, which is the session's balance at that moment; on to the second \<open>findOne\<close>;
  and from its result to the end. (The plot was found before, and no plot is ever
  removed: the second \<open>findOne\<close> finds it.)\<close>

definition buyHouse_start_mongo :: "sid \<Rightarrow> string \<Rightarrow> mongo_server \<Rightarrow> mongo_server \<times> waiting option" where
  "buyHouse_start_mongo s plotId st =
     (case map_of (players st) s of
        None \<Rightarrow> (st, None)
      | Some player0 \<Rightarrow>
          (st, Some (BuyHouseFindOne s plotId (find (\<lambda>h. h_id h = plotId) (housesCol st)))))"

definition buyHouse_decide_mongo ::
  "sid \<Rightarrow> string \<Rightarrow> house option \<Rightarrow> mongo_server \<Rightarrow> mongo_server \<times> waiting option" where
  "buyHouse_decide_mongo s plotId found st =
     (case map_of (players st) s of
        None \<Rightarrow> (st, None)
      | Some player0 \<Rightarrow>
          (case found of
             None \<Rightarrow> (st, None)
           | Some hs \<Rightarrow>
               if \<not> truthy (owner hs) \<and> money player0 \<ge> h_price hs
               then
                 let st1 = upd_player s (\<lambda>p. p\<lparr>money := money p - h_price hs\<rparr>) st;
                     st2 = st1\<lparr>housesCol :=
                              update_first (\<lambda>h. h_id h = plotId)
                                (\<lambda>h. h\<lparr>owner := Some (username player0)\<rparr>) (housesCol st1)\<rparr>
                 in (st2, Some (BuyHouseUpdateOwner s plotId))
               else (st, None)))"

definition buyHouse_persist_mongo ::
  "sid \<Rightarrow> string \<Rightarrow> mongo_server \<Rightarrow> mongo_server \<times> waiting option" where
  "buyHouse_persist_mongo s plotId st =
     (case map_of (players st) s of
        None \<Rightarrow> (st, None)
      | Some player0 \<Rightarrow>
          (updateOne_user (username player0) (\<lambda>u. u\<lparr>money := money player0\<rparr>) st,
           Some (BuyHouseUpdateMoney s plotId)))"

definition buyHouse_reread_mongo ::
  "sid \<Rightarrow> string \<Rightarrow> mongo_server \<Rightarrow> mongo_server \<times> waiting option" where
  "buyHouse_reread_mongo s plotId st =
     (st, Some (BuyHouseFindUpdated s plotId (find (\<lambda>h. h_id h = plotId) (housesCol st))))"

definition buyHouse_notify_mongo ::
  "sid \<Rightarrow> string \<Rightarrow> house option \<Rightarrow> mongo_server \<Rightarrow> mongo_server \<times> waiting option" where
  "buyHouse_notify_mongo s plotId found st =
     (case map_of (players st) s of
        None \<Rightarrow> (st, None)
      | Some player0 \<Rightarrow>
          let st1 = (case found of
                       None \<Rightarrow> st
                     | Some updatedHouse \<Rightarrow> io_emit (HouseUpdate updatedHouse) st);
              st2 = socket_emit s (UpdateMoney (money player0)) st1
          in (io_to_emit ''housing''
                (ChatMessage ''SYSTEM''
                   (username player0 @ '' bought '' @ plotId @ ''!'') ''#ffff00'')
                st2, None))"

text \<open>\<open>submitQuizAnswer\<close>: up to the \<open>updateOne\<close> of the balance, and from there to the
  end; the two messages carry the session's balance at the time they are sent.\<close>

definition submitQuizAnswer_start_mongo ::
  "sid \<Rightarrow> 'a quiz_answer_scheme \<Rightarrow> mongo_server \<Rightarrow> mongo_server \<times> waiting option" where
  "submitQuizAnswer_start_mongo s payload st =
     (case map_of (players st) s of
        None \<Rightarrow> (st, None)
      | Some player0 \<Rightarrow>
          let correctAnswer = add_number (number_value (num1 payload)) (number_value (num2 payload))
          in if strictly_equal (parseInt (answer payload)) correctAnswer
             then
               let st1 = upd_player s (\<lambda>p. p\<lparr>money := money p + 10\<rparr>) st;
                   balance = money player0 + 10
               in (updateOne_user (username player0) (\<lambda>u. u\<lparr>money := balance\<rparr>) st1,
                   Some (QuizUpdateMoney s))
             else (socket_emit s QuizResultFail st, None))"

definition submitQuizAnswer_report_mongo ::
  "sid \<Rightarrow> mongo_server \<Rightarrow> mongo_server \<times> waiting option" where
  "submitQuizAnswer_report_mongo s st =
     (case map_of (players st) s of
        None \<Rightarrow> (st, None)
      | Some player0 \<Rightarrow>
          (socket_emit s (QuizResultOk 10 (money player0))
             (socket_emit s (UpdateMoney (money player0)) st), None))"

text \<open>
  \<open>handleDistrictChange\<close>: for a room that is one of \<open>DISTRICTS\<close>, up to the
  \<open>updateOne\<close> of the account; from there, or at once for any other room, through
  \<open>socket.join\<close> and the three messages up to the read of the houses, which is made for
  \<open>housing\<close> only; and from there to the end. Its callers do not wait for it: they go
  on when it reaches its first \<open>await\<close>.
\<close>

definition handleDistrictChange_join_mongo ::
  "sid \<Rightarrow> string \<Rightarrow> mongo_server \<Rightarrow> mongo_server \<times> waiting option" where
  "handleDistrictChange_join_mongo s newRoom st =
     (let st1 = announce_session s newRoom st
      in if newRoom = ''housing''
         then (st1, Some (DistrictFindHouses s (housesCol st1)))
         else (st1, None))"

definition handleDistrictChange_start_mongo ::
  "sid \<Rightarrow> string \<Rightarrow> (int \<times> int) option \<Rightarrow> mongo_server \<Rightarrow> mongo_server \<times> waiting option" where
  "handleDistrictChange_start_mongo s newRoom spawnPos st =
     (case map_of (players st) s of
        None \<Rightarrow> (st, None)
      | Some player0 \<Rightarrow>
          let st1 = move_session s newRoom spawnPos st
          in if newRoom \<in> set DISTRICTS
             then (persist_district_mongo s newRoom st1, Some (DistrictUpdate s newRoom))
             else handleDistrictChange_join_mongo s newRoom st1)"

definition handleDistrictChange_houses_mongo ::
  "sid \<Rightarrow> house list \<Rightarrow> mongo_server \<Rightarrow> mongo_server \<times> waiting option" where
  "handleDistrictChange_houses_mongo s persistentHousesArr st =
     (socket_emit s (HouseData (houses_by_id persistentHousesArr)) st, None)"

definition joinDistrict_start_mongo ::
  "sid \<Rightarrow> string \<Rightarrow> (int \<times> int) option \<Rightarrow> mongo_server \<Rightarrow> mongo_server \<times> waiting option" where
  "joinDistrict_start_mongo s newDistrict spawnPos st =
     (if newDistrict \<notin> set DISTRICTS \<and> take 6 newDistrict \<noteq> ''house_'' then (st, None)
      else handleDistrictChange_start_mongo s newDistrict spawnPos st)"

definition joinBattle_start_mongo ::
  "sid \<Rightarrow> string jsopt \<Rightarrow> string jsopt \<Rightarrow> mongo_server \<Rightarrow> mongo_server \<times> waiting option" where
  "joinBattle_start_mongo s md tm st =
     (case map_of (players st) s of
        None \<Rightarrow> (st, None)
      | Some player0 \<Rightarrow>
          let st1 = upd_player s (\<lambda>p. p\<lparr>hp := 100, maxHp := 100, mode := md, team := tm\<rparr>) st;
              r = handleDistrictChange_start_mongo s ''arena_battle'' (Some (400, 300)) st1;
              st2 = fst r
          in ((case map_of (players st2) s of
                 None \<Rightarrow> st2
               | Some p \<Rightarrow> io_to_emit ''arena_battle'' (PlayerUpdate p) st2), snd r))"

text \<open>The events whose handlers are given segment by segment, and the start of the
  handler of each: it runs to its first wait or to its end.\<close>

datatype 'a request =
    OnBuyHouse sid string
  | OnSubmitQuizAnswer sid "'a quiz_answer_scheme"
  | OnJoinDistrict sid string "(int \<times> int) option"
  | OnEnterHouse sid string
  | OnLeaveHouse sid
  | OnJoinBattle sid "string jsopt" "string jsopt"

fun start :: "'a request \<Rightarrow> mongo_server \<Rightarrow> mongo_server \<times> waiting option" where
  "start (OnBuyHouse s plotId) st = buyHouse_start_mongo s plotId st"
| "start (OnSubmitQuizAnswer s payload) st = submitQuizAnswer_start_mongo s payload st"
| "start (OnJoinDistrict s newDistrict spawnPos) st = joinDistrict_start_mongo s newDistrict spawnPos st"
| "start (OnEnterHouse s plotId) st =
     handleDistrictChange_start_mongo s (''house_'' @ plotId) None st"
| "start (OnLeaveHouse s) st = handleDistrictChange_start_mongo s ''housing'' None st"
| "start (OnJoinBattle s md tm) st = joinBattle_start_mongo s md tm st"

text \<open>A waiting handler goes on to its next wait or to its end.\<close>

fun continue :: "waiting \<Rightarrow> mongo_server \<Rightarrow> mongo_server \<times> waiting option" where
  "continue (BuyHouseFindOne s plotId found) st = buyHouse_decide_mongo s plotId found st"
| "continue (BuyHouseUpdateOwner s plotId) st = buyHouse_persist_mongo s plotId st"
| "continue (BuyHouseUpdateMoney s plotId) st = buyHouse_reread_mongo s plotId st"
| "continue (BuyHouseFindUpdated s plotId found) st = buyHouse_notify_mongo s plotId found st"
| "continue (QuizUpdateMoney s) st = submitQuizAnswer_report_mongo s st"
| "continue (DistrictUpdate s newRoom) st = handleDistrictChange_join_mongo s newRoom st"
| "continue (DistrictFindHouses s persistentHousesArr) st =
     handleDistrictChange_houses_mongo s persistentHousesArr st"

text \<open>A turn of the event loop: the handler of an event that has arrived is started, or
  the \<open>k\<close>-th of the waiting handlers goes on (nothing happens when there is none).\<close>

datatype 'a turn = Arrival "'a request" | Continue nat

fun event_loop ::
  "'a turn list \<Rightarrow> mongo_server \<times> waiting list \<Rightarrow> mongo_server \<times> waiting list" where
  "event_loop [] c = c"
| "event_loop (Arrival r # ts) (st, ws) =
     (case start r st of
        (st1, None) \<Rightarrow> event_loop ts (st1, ws)
      | (st1, Some w) \<Rightarrow> event_loop ts (st1, ws @ [w]))"
| "event_loop (Continue k # ts) (st, ws) =
     (if k < length ws
      then (case continue (ws ! k) st of
              (st1, None) \<Rightarrow> event_loop ts (st1, take k ws @ drop (Suc k) ws)
            | (st1, Some w) \<Rightarrow> event_loop ts (st1, ws[k := w]))
      else event_loop ts (st, ws))"

text \<open>A handler that runs alone: it is started with no handler waiting, and no other
  event arrives before it has ended (no handler waits more than four times).\<close>

definition alone :: "'a request \<Rightarrow> mongo_server \<Rightarrow> mongo_server \<times> waiting list" where
  "alone r st = event_loop [Arrival r, Continue 0, Continue 0, Continue 0, Continue 0] (st, [])"

text \<open>
  Two runs in which handlers overlap, both after alice and bob have registered. In the
  first alice's socket sends \<open>joinDistrict\<close> for \<open>housing\<close> and for \<open>arena\<close>, and the
  second event arrives while the handler of the first waits for the store; then both
  handlers go on, in the order in which they started. In the second her socket sends
  \<open>buyHouse\<close> for the same plot twice in the same way.
\<close>

definition two_transfers :: "unit turn list" where
  "two_transfers =
     [Arrival (OnJoinDistrict ''s1'' ''housing'' None),
      Arrival (OnJoinDistrict ''s1'' ''arena'' None),
      Continue 0, Continue 1, Continue 0]"

definition two_purchases :: "unit turn list" where
  "two_purchases =
     [Arrival (OnBuyHouse ''s1'' ''plot_1''), Arrival (OnBuyHouse ''s1'' ''plot_1''),
      Continue 0, Continue 1, Continue 0, Continue 1, Continue 0, Continue 1,
      Continue 0, Continue 0]"

definition after_turns :: "unit turn list \<Rightarrow> mongo_server" where
  "after_turns ts = fst (event_loop ts (after_mongo [sword] two_in_plaza, []))"

definition still_waiting :: "unit turn list \<Rightarrow> waiting list" where
  "still_waiting ts = snd (event_loop ts (after_mongo [sword] two_in_plaza, []))"

section \<open>Properties\<close>

subsection \<open>Evaluation and frame lemmas\<close>

lemmas transport_defs =
  in_room_def socket_emit_def socket_to_emit_def io_to_emit_def io_emit_def
  io_to_undefined_emit_def socket_join_def socket_leave_def socket_close_def connection_def

lemmas file_defs =
  saveData_users_def saveData_houses_def truthy_def or_null_def new_session_def
  loginUser_file_def register_file_def inherited_keys_def login_file_def disconnect_file_def
  persist_district_file_def move_session_def announce_session_def
  handleDistrictChange_file_def joinDistrict_file_def enterHouse_file_def
  leaveHouse_file_def joinBattle_file_def buyHouse_file_def submitQuizAnswer_file_def
  buyItem_file_def weapon_of_def playerAttack_file_def playerMovement_def upd_player_def
  DISTRICTS_def

lemmas mongo_defs =
  updateOne_user_def houses_by_id_def truthy_def or_null_def new_session_def
  loginUser_enter_mongo_def loginUser_notify_mongo_def loginUser_mongo_def
  login_check_mongo_def login_mongo_def register_mongo_def disconnect_mongo_def
  persist_district_mongo_def housing_data_mongo_def move_session_def announce_session_def
  handleDistrictChange_mongo_def joinDistrict_mongo_def enterHouse_mongo_def
  leaveHouse_mongo_def joinBattle_mongo_def buyHouse_mongo_def submitQuizAnswer_mongo_def
  buyItem_mongo_def weapon_of_def playerAttack_mongo_def playerMovement_def upd_player_def
  DISTRICTS_def

lemmas run_defs =
  after_file_def after_mongo_def file_start_def mongo_start_def default_plots_def
  default_plot_def sword_def alice_def bob_def two_in_plaza_def plot_sold_def
  duel_def bob_worn_down_def red_team_def alice_offline_def

lemma map_of_upd_player:
  "map_of (players (upd_player k f st)) t =
     (if t = k then map_option f (map_of (players st) k) else map_of (players st) t)"
  by (simp add: upd_player_def update_conv' split: option.split)

lemma upd_player_frame [simp]:
  "outbox (upd_player k f st) = outbox st"
  "rooms (upd_player k f st) = rooms st"
  "connected (upd_player k f st) = connected st"
  "socketUserMap (upd_player k f st) = socketUserMap st"
  "session_state.more (upd_player k f st) = session_state.more st"
  by (simp_all add: upd_player_def split: option.split)

lemma in_room_upd_player [simp]: "in_room (upd_player k f st) r = in_room st r"
  by (simp add: in_room_def)

subsection \<open>Movement reports are taken as they come\<close>

text \<open>
  C10. For a \<open>playerMovement\<close> event of a logged-in session and any coordinates, the
  server stores exactly these coordinates as the session's position, with no collision
  test, no clamp and no boundary evaluation: nothing else of the state changes, and one
  \<open>playerMoved\<close> with the updated session goes to the other sockets of the session's
  district room.
\<close>

theorem playerMovement_sets_position:
  assumes "map_of (players st) s = Some p"
  shows "map_of (players (playerMovement s (x, y) st)) s = Some (p\<lparr>px := x, py := y\<rparr>)
       \<and> (\<forall>t. t \<noteq> s \<longrightarrow>
             map_of (players (playerMovement s (x, y) st)) t = map_of (players st) t)
       \<and> outbox (playerMovement s (x, y) st) =
           outbox st @ [(filter (\<lambda>t. t \<noteq> s) (in_room st (district p)),
                         PlayerMoved (p\<lparr>px := x, py := y\<rparr>))]
       \<and> rooms (playerMovement s (x, y) st) = rooms st
       \<and> connected (playerMovement s (x, y) st) = connected st
       \<and> socketUserMap (playerMovement s (x, y) st) = socketUserMap st
       \<and> session_state.more (playerMovement s (x, y) st) = session_state.more st"
  using assms
  by (simp add: playerMovement_def Let_def map_of_upd_player socket_to_emit_def)

text \<open>The theorem at a position far outside the 800 x 600 world: alice and bob stand in
  the plaza, alice reports \<open>(-1000, 7000)\<close>, and bob is told so.\<close>

theorem playerMovement_sets_position_witness:
  "map_of (players (after_file [sword] two_in_plaza)) ''s1'' = Some (new_session ''s1'' alice)
   \<and> map_of (players (playerMovement ''s1'' (- 1000, 7000) (after_file [sword] two_in_plaza))) ''s1''
       = Some ((new_session ''s1'' alice)\<lparr>px := - 1000, py := 7000\<rparr>)
   \<and> last (outbox (playerMovement ''s1'' (- 1000, 7000) (after_file [sword] two_in_plaza)))
       = ([''s2''], PlayerMoved ((new_session ''s1'' alice)\<lparr>px := - 1000, py := 7000\<rparr>))"
proof -
  have h: "map_of (players (after_file [sword] two_in_plaza)) ''s1'' = Some (new_session ''s1'' alice)"
    by (simp add: run_defs file_defs transport_defs Let_def)
  have r: "in_room (after_file [sword] two_in_plaza) ''plaza'' = [''s2'', ''s1'']"
    by (simp add: run_defs file_defs transport_defs Let_def)
  show ?thesis
    using h r playerMovement_sets_position [OF h, of "- 1000" 7000]
    by (simp add: new_session_def alice_def)
qed

lemma upd_player_file [simp]:
  "persistentUsers (upd_player k f fs) = persistentUsers fs"
  "persistentHouses (upd_player k f fs) = persistentHouses fs"
  "items (upd_player k f fs) = items fs"
  "users_file (upd_player k f fs) = users_file fs"
  "houses_file (upd_player k f fs) = houses_file fs"
  by (simp_all add: upd_player_def split: option.split)

lemma upd_player_mongo [simp]:
  "usersCol (upd_player k f ms) = usersCol ms"
  "housesCol (upd_player k f ms) = housesCol ms"
  "itemsCol (upd_player k f ms) = itemsCol ms"
  by (simp_all add: upd_player_def split: option.split)

lemma upd_player_Some:
  "map_of (players st) k = Some p \<Longrightarrow>
     upd_player k f st = st\<lparr>players := AList.update k (f p) (players st)\<rparr>"
  by (simp add: upd_player_def)

lemma updateOne_user_frame [simp]:
  "players (updateOne_user n f ms) = players ms"
  "outbox (updateOne_user n f ms) = outbox ms"
  "rooms (updateOne_user n f ms) = rooms ms"
  "connected (updateOne_user n f ms) = connected ms"
  "socketUserMap (updateOne_user n f ms) = socketUserMap ms"
  "housesCol (updateOne_user n f ms) = housesCol ms"
  "itemsCol (updateOne_user n f ms) = itemsCol ms"
  by (simp_all add: updateOne_user_def split: option.split)

lemma usersCol_updateOne_user:
  "usersCol (updateOne_user n f ms) m =
     (if m = n then map_option f (usersCol ms n) else usersCol ms m)"
  by (simp add: updateOne_user_def split: option.split)

lemma find_update_first:
  "(\<And>x. P x \<Longrightarrow> P (f x)) \<Longrightarrow> find P (update_first P f xs) = map_option f (find P xs)"
  by (induction xs) auto

subsection \<open>What each purchase and the quiz do, case by case\<close>

lemma buyHouse_file_ok:
  assumes "map_of (persistentHouses fs) plot = Some h" "map_of (players fs) s = Some p"
    "\<not> truthy (owner h)" "h_price h \<le> money p" "persistentUsers fs (username p) = Some u"
  shows "buyHouse_file s plot fs =
     Inr (fs\<lparr>players := AList.update s (p\<lparr>money := money p - h_price h\<rparr>) (players fs),
              persistentHouses :=
                AList.update plot (h\<lparr>owner := Some (username p)\<rparr>) (persistentHouses fs),
              houses_file :=
                AList.update plot (h\<lparr>owner := Some (username p)\<rparr>) (persistentHouses fs),
              persistentUsers :=
                (persistentUsers fs)(username p \<mapsto> u\<lparr>money := money p - h_price h\<rparr>),
              users_file :=
                (persistentUsers fs)(username p \<mapsto> u\<lparr>money := money p - h_price h\<rparr>),
              outbox := outbox fs @
                [(connected fs, HouseUpdate (h\<lparr>owner := Some (username p)\<rparr>)),
                 ([s], UpdateMoney (money p - h_price h)),
                 (in_room fs ''housing'',
                  ChatMessage ''SYSTEM'' (username p @ '' bought '' @ plot @ ''!'') ''#ffff00'')]\<rparr>)"
  using assms
  by (simp add: buyHouse_file_def Let_def upd_player_Some saveData_users_def saveData_houses_def
      transport_defs)


lemma buyHouse_file_rejected:
  assumes "map_of (persistentHouses fs) plot = None \<or> map_of (players fs) s = None
     \<or> (\<exists>h p. map_of (persistentHouses fs) plot = Some h \<and> map_of (players fs) s = Some p
          \<and> (truthy (owner h) \<or> money p < h_price h))"
  shows "buyHouse_file s plot fs = Inr fs"
  using assms
  by (auto simp: buyHouse_file_def split: option.split)

lemma buyHouse_mongo_ok:
  assumes "find (\<lambda>h. h_id h = plot) (housesCol ms) = Some h" "map_of (players ms) s = Some p"
    "\<not> truthy (owner h)" "h_price h \<le> money p"
  shows "buyHouse_mongo s plot ms =
     ms\<lparr>players := AList.update s (p\<lparr>money := money p - h_price h\<rparr>) (players ms),
         housesCol := update_first (\<lambda>h. h_id h = plot)
                        (\<lambda>h. h\<lparr>owner := Some (username p)\<rparr>) (housesCol ms),
         usersCol := usersCol (updateOne_user (username p)
                        (\<lambda>u. u\<lparr>money := money p - h_price h\<rparr>) ms),
         outbox := outbox ms @
           [(connected ms, HouseUpdate (h\<lparr>owner := Some (username p)\<rparr>)),
            ([s], UpdateMoney (money p - h_price h)),
            (in_room ms ''housing'',
             ChatMessage ''SYSTEM'' (username p @ '' bought '' @ plot @ ''!'') ''#ffff00'')]\<rparr>"
proof -
  have F: "find (\<lambda>h. h_id h = plot)
             (update_first (\<lambda>h. h_id h = plot) (\<lambda>h. h\<lparr>owner := Some (username p)\<rparr>) (housesCol ms))
           = Some (h\<lparr>owner := Some (username p)\<rparr>)"
    using assms(1) by (simp add: find_update_first)
  show ?thesis
    using assms F
    by (simp add: buyHouse_mongo_def Let_def upd_player_Some transport_defs updateOne_user_def
        split: option.split)
qed

lemma buyHouse_mongo_rejected:
  assumes "find (\<lambda>h. h_id h = plot) (housesCol ms) = None \<or> map_of (players ms) s = None
     \<or> (\<exists>h p. find (\<lambda>h. h_id h = plot) (housesCol ms) = Some h \<and> map_of (players ms) s = Some p
          \<and> (truthy (owner h) \<or> money p < h_price h))"
  shows "buyHouse_mongo s plot ms = ms"
  using assms
  by (auto simp: buyHouse_mongo_def split: option.split)

lemma buyItem_file_ok:
  assumes "map_of (players fs) s = Some p" "find (\<lambda>i. i_id i = itemId) (items fs) = Some it"
    "i_price it \<le> money p"
  shows "buyItem_file s itemId fs =
     fs\<lparr>players := AList.update s (p\<lparr>money := money p - i_price it, equipment := Some itemId\<rparr>)
                      (players fs),
         persistentUsers :=
           (case persistentUsers fs (username p) of
              None \<Rightarrow> persistentUsers fs
            | Some u \<Rightarrow> (persistentUsers fs)(username p \<mapsto>
                          u\<lparr>money := money p - i_price it, equipment := Some itemId\<rparr>)),
         users_file :=
           (case persistentUsers fs (username p) of
              None \<Rightarrow> persistentUsers fs
            | Some u \<Rightarrow> (persistentUsers fs)(username p \<mapsto>
                          u\<lparr>money := money p - i_price it, equipment := Some itemId\<rparr>)),
         outbox := outbox fs @
           [([s], UpdateMoney (money p - i_price it)),
            ([s], ItemBoughtOk it),
            (in_room fs (district p),
             ChatMessage ''SYSTEM'' (username p @ '' bought a '' @ i_name it @ ''!'') ''#ffff00'')]\<rparr>"
  using assms
  by (simp add: buyItem_file_def Let_def upd_player_def saveData_users_def transport_defs
      update_conv' split: option.split)

lemma buyItem_file_rejected:
  assumes "map_of (players fs) s = Some p" "find (\<lambda>i. i_id i = itemId) (items fs) = Some it"
    "money p < i_price it"
  shows "buyItem_file s itemId fs = fs\<lparr>outbox := outbox fs @ [([s], ItemBoughtFail ''Not enough money'')]\<rparr>"
  using assms by (simp add: buyItem_file_def socket_emit_def)

lemma buyItem_mongo_ok:
  assumes "map_of (players ms) s = Some p" "find (\<lambda>i. i_id i = itemId) (itemsCol ms) = Some it"
    "i_price it \<le> money p"
  shows "buyItem_mongo s itemId ms =
     ms\<lparr>players := AList.update s (p\<lparr>money := money p - i_price it, equipment := Some itemId\<rparr>)
                      (players ms),
         usersCol := usersCol (updateOne_user (username p)
                       (\<lambda>u. u\<lparr>money := money p - i_price it, equipment := Some itemId\<rparr>) ms),
         outbox := outbox ms @
           [([s], UpdateMoney (money p - i_price it)),
            ([s], ItemBoughtOk it),
            (in_room ms (district p),
             ChatMessage ''SYSTEM'' (username p @ '' bought a '' @ i_name it @ ''!'') ''#ffff00'')]\<rparr>"
  using assms
  by (simp add: buyItem_mongo_def Let_def upd_player_def transport_defs updateOne_user_def
      update_conv' split: option.split)

lemma buyItem_mongo_rejected:
  assumes "map_of (players ms) s = Some p"
    "find (\<lambda>i. i_id i = itemId) (itemsCol ms) = None
     \<or> (\<exists>it. find (\<lambda>i. i_id i = itemId) (itemsCol ms) = Some it \<and> money p < i_price it)"
  shows "buyItem_mongo s itemId ms = ms\<lparr>outbox := outbox ms @ [([s], ItemBoughtFail ''Not enough money'')]\<rparr>"
  using assms by (auto simp: buyItem_mongo_def socket_emit_def)

subsection \<open>Balances stay non-negative\<close>

lemma set_AList_update: "set (AList.update k v xs) \<subseteq> insert (k, v) (set xs)"
  by (induction xs) auto

lemma nonneg_AList_update:
  "list_all (\<lambda>kp. 0 \<le> money (snd kp)) xs \<Longrightarrow> 0 \<le> money q \<Longrightarrow>
     list_all (\<lambda>kp. 0 \<le> money (snd kp)) (AList.update k q xs)"
  using set_AList_update [of k q xs] by (auto simp: list_all_iff)

lemma sessions_nonneg_lookup:
  "sessions_nonneg st \<Longrightarrow> map_of (players st) k = Some p \<Longrightarrow> 0 \<le> money p"
  by (auto simp: sessions_nonneg_def list_all_iff dest!: map_of_SomeD)

lemma accounts_nonneg_upd:
  "accounts_nonneg m \<Longrightarrow> 0 \<le> money u \<Longrightarrow> accounts_nonneg (m(k \<mapsto> u))"
  by (simp add: accounts_nonneg_def)

lemma accounts_nonneg_updateOne_user:
  "accounts_nonneg (usersCol ms) \<Longrightarrow> (\<And>u. 0 \<le> money (f u)) \<Longrightarrow>
     accounts_nonneg (usersCol (updateOne_user n f ms))"
  by (auto simp: accounts_nonneg_def usersCol_updateOne_user)

lemma accounts_present_lookup:
  "accounts_present st \<Longrightarrow> map_of (players st) k = Some p \<Longrightarrow>
     \<exists>u. persistentUsers st (username p) = Some u"
  by (auto simp: accounts_present_def list_all_iff dest!: map_of_SomeD)

lemma buyHouse_file_nonneg:
  assumes "sessions_nonneg fs" "accounts_nonneg (persistentUsers fs)"
    "accounts_nonneg (users_file fs)" "accounts_present fs"
  shows "\<exists>fs'. buyHouse_file s plot fs = Inr fs' \<and> sessions_nonneg fs'
           \<and> accounts_nonneg (persistentUsers fs') \<and> accounts_nonneg (users_file fs')"
proof (cases "\<exists>h p. map_of (persistentHouses fs) plot = Some h \<and> map_of (players fs) s = Some p
                 \<and> \<not> truthy (owner h) \<and> h_price h \<le> money p")
  case False
  then have "buyHouse_file s plot fs = Inr fs"
    by (intro buyHouse_file_rejected) (cases "map_of (persistentHouses fs) plot";
        cases "map_of (players fs) s"; auto)
  then show ?thesis using assms by simp
next
  case True
  then obtain h p where H: "map_of (persistentHouses fs) plot = Some h"
    and P: "map_of (players fs) s = Some p" and O: "\<not> truthy (owner h)"
    and M: "h_price h \<le> money p" by blast
  obtain u where U: "persistentUsers fs (username p) = Some u"
    using accounts_present_lookup [OF assms(4) P] by blast
  have A: "accounts_nonneg ((persistentUsers fs)(username p \<mapsto> u\<lparr>money := money p - h_price h\<rparr>))"
    using assms(2) M by (intro accounts_nonneg_upd) auto
  have S: "list_all (\<lambda>kp. 0 \<le> money (snd kp))
             (AList.update s (p\<lparr>money := money p - h_price h\<rparr>) (players fs))"
    using assms(1) M by (intro nonneg_AList_update) (auto simp: sessions_nonneg_def)
  show ?thesis
    using A S by (simp add: buyHouse_file_ok [OF H P O M U] sessions_nonneg_def)
qed

lemma buyItem_file_nonneg:
  assumes "sessions_nonneg fs" "accounts_nonneg (persistentUsers fs)"
    "accounts_nonneg (users_file fs)"
  shows "sessions_nonneg (buyItem_file s itemId fs)
       \<and> accounts_nonneg (persistentUsers (buyItem_file s itemId fs))
       \<and> accounts_nonneg (users_file (buyItem_file s itemId fs))"
proof (cases "map_of (players fs) s")
  case None
  then show ?thesis using assms by (simp add: buyItem_file_def)
next
  case (Some p)
  note P = Some
  show ?thesis
  proof (cases "find (\<lambda>i. i_id i = itemId) (items fs)")
    case None
    then show ?thesis using assms P by (simp add: buyItem_file_def)
  next
    case (Some it)
    show ?thesis
    proof (cases "i_price it \<le> money p")
      case False
      then have "money p < i_price it" by simp
      then show ?thesis
        using assms by (simp add: buyItem_file_rejected [OF P Some] sessions_nonneg_def)
    next
      case True
      have S: "list_all (\<lambda>kp. 0 \<le> money (snd kp))
          (AList.update s (p\<lparr>money := money p - i_price it, equipment := Some itemId\<rparr>) (players fs))"
        using assms(1) True by (intro nonneg_AList_update) (auto simp: sessions_nonneg_def)
      have A: "accounts_nonneg (case persistentUsers fs (username p) of
              None \<Rightarrow> persistentUsers fs
            | Some u \<Rightarrow> (persistentUsers fs)(username p \<mapsto>
                          u\<lparr>money := money p - i_price it, equipment := Some itemId\<rparr>))"
        using assms(2) True by (auto split: option.split intro!: accounts_nonneg_upd)
      show ?thesis
        using S A by (simp add: buyItem_file_ok [OF P Some True] sessions_nonneg_def)
    qed
  qed
qed

lemma buyHouse_mongo_nonneg:
  assumes "sessions_nonneg ms" "accounts_nonneg (usersCol ms)"
  shows "sessions_nonneg (buyHouse_mongo s plot ms)
       \<and> accounts_nonneg (usersCol (buyHouse_mongo s plot ms))"
proof (cases "\<exists>h p. find (\<lambda>h. h_id h = plot) (housesCol ms) = Some h \<and> map_of (players ms) s = Some p
                 \<and> \<not> truthy (owner h) \<and> h_price h \<le> money p")
  case False
  then have "buyHouse_mongo s plot ms = ms"
    by (intro buyHouse_mongo_rejected) (cases "find (\<lambda>h. h_id h = plot) (housesCol ms)";
        cases "map_of (players ms) s"; auto)
  then show ?thesis using assms by simp
next
  case True
  then obtain h p where H: "find (\<lambda>h. h_id h = plot) (housesCol ms) = Some h"
    and P: "map_of (players ms) s = Some p" and O: "\<not> truthy (owner h)"
    and M: "h_price h \<le> money p" by blast
  have A: "accounts_nonneg (usersCol (updateOne_user (username p)
                        (\<lambda>u. u\<lparr>money := money p - h_price h\<rparr>) ms))"
    using assms(2) M by (intro accounts_nonneg_updateOne_user) auto
  have S: "list_all (\<lambda>kp. 0 \<le> money (snd kp))
             (AList.update s (p\<lparr>money := money p - h_price h\<rparr>) (players ms))"
    using assms(1) M by (intro nonneg_AList_update) (auto simp: sessions_nonneg_def)
  show ?thesis
    using A S by (simp add: buyHouse_mongo_ok [OF H P O M] sessions_nonneg_def)
qed

lemma buyItem_mongo_nonneg:
  assumes "sessions_nonneg ms" "accounts_nonneg (usersCol ms)"
  shows "sessions_nonneg (buyItem_mongo s itemId ms)
       \<and> accounts_nonneg (usersCol (buyItem_mongo s itemId ms))"
proof (cases "map_of (players ms) s")
  case None
  then show ?thesis using assms by (simp add: buyItem_mongo_def)
next
  case (Some p)
  note P = Some
  show ?thesis
  proof (cases "\<exists>it. find (\<lambda>i. i_id i = itemId) (itemsCol ms) = Some it \<and> i_price it \<le> money p")
    case False
    then have "buyItem_mongo s itemId ms =
        ms\<lparr>outbox := outbox ms @ [([s], ItemBoughtFail ''Not enough money'')]\<rparr>"
      by (intro buyItem_mongo_rejected [OF P])
         (cases "find (\<lambda>i. i_id i = itemId) (itemsCol ms)"; auto)
    then show ?thesis using assms by (simp add: sessions_nonneg_def)
  next
    case True
    then obtain it where I: "find (\<lambda>i. i_id i = itemId) (itemsCol ms) = Some it"
      and M: "i_price it \<le> money p" by blast
    have S: "list_all (\<lambda>kp. 0 \<le> money (snd kp))
        (AList.update s (p\<lparr>money := money p - i_price it, equipment := Some itemId\<rparr>) (players ms))"
      using assms(1) M by (intro nonneg_AList_update) (auto simp: sessions_nonneg_def)
    have A: "accounts_nonneg (usersCol (updateOne_user (username p)
                       (\<lambda>u. u\<lparr>money := money p - i_price it, equipment := Some itemId\<rparr>) ms))"
      using assms(2) M by (intro accounts_nonneg_updateOne_user) auto
    show ?thesis
      using S A by (simp add: buyItem_mongo_ok [OF P I M] sessions_nonneg_def)
  qed
qed

text \<open>
  C4. A purchase (\<open>buyHouse\<close> or \<open>buyItem\<close>, in either copy of the server) never
  drives a balance below zero: when no session and no stored account holds a negative
  balance before the handler runs, none does after it; the balance is debited only
  under the guard \<open>money >= price\<close>. For the file-backed \<open>buyHouse\<close>, which writes
  through to the buyer's stored account, the handler also ends without an exception
  when every session's account is in the store.
\<close>

theorem purchases_keep_balances_nonneg:
  assumes "sessions_nonneg fs" and "accounts_nonneg (persistentUsers fs)"
    and "accounts_nonneg (users_file fs)" and "accounts_present fs"
    and "sessions_nonneg ms" and "accounts_nonneg (usersCol ms)"
  shows "(\<exists>fs'. buyHouse_file s plot fs = Inr fs' \<and> sessions_nonneg fs'
            \<and> accounts_nonneg (persistentUsers fs') \<and> accounts_nonneg (users_file fs'))
       \<and> (sessions_nonneg (buyItem_file s itemId fs)
            \<and> accounts_nonneg (persistentUsers (buyItem_file s itemId fs))
            \<and> accounts_nonneg (users_file (buyItem_file s itemId fs)))
       \<and> (sessions_nonneg (buyHouse_mongo s plot ms)
            \<and> accounts_nonneg (usersCol (buyHouse_mongo s plot ms)))
       \<and> (sessions_nonneg (buyItem_mongo s itemId ms)
            \<and> accounts_nonneg (usersCol (buyItem_mongo s itemId ms)))"
  using buyHouse_file_nonneg [OF assms(1-4)] buyItem_file_nonneg [OF assms(1-3)]
    buyHouse_mongo_nonneg [OF assms(5,6)] buyItem_mongo_nonneg [OF assms(5,6)]
  by blast

text \<open>The theorem where purchases do take place: alice, with 1000 coins, buys a plot for
  500 in the file-backed copy and the sword for 100 in the other.\<close>

theorem purchases_keep_balances_nonneg_witness:
  "sessions_nonneg (after_file [sword] two_in_plaza)
   \<and> accounts_nonneg (persistentUsers (after_file [sword] two_in_plaza))
   \<and> accounts_nonneg (users_file (after_file [sword] two_in_plaza))
   \<and> accounts_present (after_file [sword] two_in_plaza)
   \<and> sessions_nonneg (after_mongo [sword] two_in_plaza)
   \<and> accounts_nonneg (usersCol (after_mongo [sword] two_in_plaza))
   \<and> (\<exists>fs'. buyHouse_file ''s1'' ''plot_1'' (after_file [sword] two_in_plaza) = Inr fs'
         \<and> map (\<lambda>kp. money (snd kp)) (players fs') = [500, 1000]
         \<and> sessions_nonneg fs' \<and> accounts_nonneg (persistentUsers fs')
         \<and> accounts_nonneg (users_file fs'))
   \<and> map (\<lambda>kp. money (snd kp)) (players (buyItem_mongo ''s1'' ''sword'' (after_mongo [sword] two_in_plaza)))
       = [900, 1000]
   \<and> sessions_nonneg (buyItem_mongo ''s1'' ''sword'' (after_mongo [sword] two_in_plaza))
   \<and> accounts_nonneg (usersCol (buyItem_mongo ''s1'' ''sword'' (after_mongo [sword] two_in_plaza)))"
proof -
  have f1: "sessions_nonneg (after_file [sword] two_in_plaza)"
    by (simp add: sessions_nonneg_def run_defs file_defs transport_defs Let_def)
  have f2: "accounts_nonneg (persistentUsers (after_file [sword] two_in_plaza))"
    by (simp add: accounts_nonneg_def run_defs file_defs transport_defs Let_def)
  have f3: "accounts_nonneg (users_file (after_file [sword] two_in_plaza))"
    by (simp add: accounts_nonneg_def run_defs file_defs transport_defs Let_def)
  have f4: "accounts_present (after_file [sword] two_in_plaza)"
    by (simp add: accounts_present_def run_defs file_defs transport_defs Let_def)
  have m1: "sessions_nonneg (after_mongo [sword] two_in_plaza)"
    by (simp add: sessions_nonneg_def run_defs mongo_defs transport_defs Let_def)
  have m2: "accounts_nonneg (usersCol (after_mongo [sword] two_in_plaza))"
    by (simp add: accounts_nonneg_def run_defs mongo_defs transport_defs Let_def)
  have e1: "map (\<lambda>kp. money (snd kp))
      (players (buyItem_mongo ''s1'' ''sword'' (after_mongo [sword] two_in_plaza))) = [900, 1000]"
    by (simp add: run_defs mongo_defs transport_defs Let_def)
  have e2: "map_sum id (\<lambda>st. map (\<lambda>kp. money (snd kp)) (players st))
      (buyHouse_file ''s1'' ''plot_1'' (after_file [sword] two_in_plaza)) = Inr [500, 1000]"
    by (simp add: run_defs file_defs transport_defs Let_def)
  from purchases_keep_balances_nonneg [OF f1 f2 f3 f4 m1 m2, of "''s1''" "''plot_1''" "''sword''"]
  show ?thesis
    using f1 f2 f3 f4 m1 m2 e1 e2 by auto
qed

subsection \<open>Buying a plot\<close>






text \<open>
  Two \<open>buyHouse\<close> requests for one plot that overlap in the document-store copy are
  both accepted: each handler has read the plot before the other has written the owner.
  Alice pays twice for the first plot; her balance is 0, in the session and in the
  store, and both handlers have ended.
\<close>

lemma two_purchases_both_debit:
  "map_option money (map_of (players (after_turns two_purchases)) ''s1'') = Some 0
   \<and> map_option money (usersCol (after_turns two_purchases) ''alice'') = Some 0
   \<and> map owner (housesCol (after_turns two_purchases)) = [Some ''alice'', None, None, None]
   \<and> still_waiting two_purchases = []"
  by code_simp



subsection \<open>The quiz\<close>

lemmas parse_defs = parseInt_def isWhiteSpace_def digitValue_def code_units_def Let_def

lemma digit_not_ws: "is_decimal_digit c \<Longrightarrow> \<not> isWhiteSpace c"
  by (auto simp: is_decimal_digit_def isWhiteSpace_def)

lemma digit_value_lt: "is_decimal_digit c \<Longrightarrow> digitValue c < 10"
  by (auto simp: is_decimal_digit_def digitValue_def)

lemma digit_value_eq: "is_decimal_digit c \<Longrightarrow> digitValue c = c - 48"
  by (auto simp: is_decimal_digit_def digitValue_def)

lemma digit_not_sign: "is_decimal_digit c \<Longrightarrow> c \<noteq> 45 \<and> c \<noteq> 43"
  by (auto simp: is_decimal_digit_def)

lemma takeWhile_digits:
  "list_all is_decimal_digit ds \<Longrightarrow> takeWhile (\<lambda>c. digitValue c < 10) ds = ds"
  by (induction ds) (simp_all add: digit_value_lt)

lemma foldl_digits:
  "list_all is_decimal_digit ds \<Longrightarrow>
     foldl (\<lambda>acc c. acc * 10 + digitValue c) a ds = foldl (\<lambda>acc c. acc * 10 + (c - 48)) a ds"
  by (induction ds arbitrary: a) (simp_all add: digit_value_eq)

lemma not_hex_digits:
  "list_all is_decimal_digit ds \<Longrightarrow>
     take 2 ds \<noteq> code_units ''0x'' \<and> take 2 ds \<noteq> code_units ''0X''"
  by (cases ds; cases "tl ds") (auto simp: is_decimal_digit_def code_units_def)

lemma parseInt_digits:
  assumes "ds \<noteq> []" "list_all is_decimal_digit ds"
  shows "parseInt ds = number_value (int (decimal_value ds))"
proof -
  obtain c cs where ds: "ds = c # cs" using assms(1) by (cases ds) auto
  have c: "is_decimal_digit c" using assms(2) ds by simp
  have 1: "dropWhile isWhiteSpace ds = ds" using c ds digit_not_ws by simp
  have 2: "hd ds \<noteq> 45" "hd ds \<noteq> 43" using c ds digit_not_sign by auto
  show ?thesis
    using assms(1) 1 2 not_hex_digits [OF assms(2)]
    by (simp add: parseInt_def Let_def decimal_value_def takeWhile_digits [OF assms(2)]
        foldl_digits [OF assms(2)])
qed

lemma parseInt_minus_digits:
  assumes "ds \<noteq> []" "list_all is_decimal_digit ds"
  shows "parseInt (45 # ds) = number_value (- int (decimal_value ds))"
proof -
  have 1: "dropWhile isWhiteSpace (45 # ds) = 45 # ds"
    by (simp add: isWhiteSpace_def)
  show ?thesis
    using assms(1) not_hex_digits [OF assms(2)]
    by (simp add: parseInt_def Let_def decimal_value_def isWhiteSpace_def
        takeWhile_digits [OF assms(2)] foldl_digits [OF assms(2)])
qed

lemma parseInt_answer_is: "answer_is a n \<Longrightarrow> parseInt a = number_value n"
  by (cases a) (auto simp: answer_is_def parseInt_digits parseInt_minus_digits split: if_splits)

lemma number_value_exact: "exact n \<Longrightarrow> number_value n = Num n"
  by (simp add: number_value_def exact_def Let_def)

text \<open>Within the exact integers the sum of the numbers is the sum, and an answer that
  is the numeral of the sum is strictly equal to it.\<close>

lemma exact_sum_answer:
  assumes "exact a" "exact b" "exact (a + b)" "answer_is t (a + b)"
  shows "strictly_equal (parseInt t) (add_number (number_value a) (number_value b))"
  using assms by (simp add: number_value_exact parseInt_answer_is)

text \<open>
  What the numbers and the white space of the source do at their margins: a no-break
  space before the digits is skipped, and \<open>2 ^ 53 + 1\<close> is the number \<open>2 ^ 53\<close>.
\<close>

lemma parseInt_no_break_space: "parseInt [160, 56] = Num 8"
  by (simp add: parseInt_def isWhiteSpace_def digitValue_def number_value_def code_units_def
      Let_def)

lemma number_value_rounds:
  "number_value 9007199254740993 = Num 9007199254740992
   \<and> number_value 9007199254740995 = Num 9007199254740996
   \<and> number_value (2 ^ 1024) = Infinity"
  by code_simp

lemma add_number_rounds:
  "add_number (number_value 9007199254740992) (number_value 1) = Num 9007199254740992
   \<and> parseInt (code_units ''9007199254740992'') = Num 9007199254740992"
  by (simp add: parseInt_def isWhiteSpace_def digitValue_def number_value_def code_units_def
      bit_length.simps Let_def)

lemma submitQuizAnswer_file_ok:
  assumes "map_of (players fs) s = Some p"
    "strictly_equal (parseInt (answer payload))
       (add_number (number_value (num1 payload)) (number_value (num2 payload)))"
  shows "submitQuizAnswer_file s payload fs =
     fs\<lparr>players := AList.update s (p\<lparr>money := money p + 10\<rparr>) (players fs),
         persistentUsers :=
           (case persistentUsers fs (username p) of
              None \<Rightarrow> persistentUsers fs
            | Some u \<Rightarrow> (persistentUsers fs)(username p \<mapsto> u\<lparr>money := money p + 10\<rparr>)),
         users_file :=
           (case persistentUsers fs (username p) of
              None \<Rightarrow> persistentUsers fs
            | Some u \<Rightarrow> (persistentUsers fs)(username p \<mapsto> u\<lparr>money := money p + 10\<rparr>)),
         outbox := outbox fs @
           [([s], UpdateMoney (money p + 10)), ([s], QuizResultOk 10 (money p + 10))]\<rparr>"
  using assms
  by (simp add: submitQuizAnswer_file_def Let_def upd_player_def saveData_users_def
      transport_defs split: option.split)

lemma submitQuizAnswer_file_wrong:
  assumes "map_of (players fs) s = Some p"
    "\<not> strictly_equal (parseInt (answer payload))
       (add_number (number_value (num1 payload)) (number_value (num2 payload)))"
  shows "submitQuizAnswer_file s payload fs = fs\<lparr>outbox := outbox fs @ [([s], QuizResultFail)]\<rparr>"
  using assms by (simp add: submitQuizAnswer_file_def socket_emit_def)

lemma submitQuizAnswer_mongo_ok:
  assumes "map_of (players ms) s = Some q"
    "strictly_equal (parseInt (answer payload))
       (add_number (number_value (num1 payload)) (number_value (num2 payload)))"
  shows "submitQuizAnswer_mongo s payload ms =
     ms\<lparr>players := AList.update s (q\<lparr>money := money q + 10\<rparr>) (players ms),
         usersCol := usersCol (updateOne_user (username q) (\<lambda>u. u\<lparr>money := money q + 10\<rparr>) ms),
         outbox := outbox ms @
           [([s], UpdateMoney (money q + 10)), ([s], QuizResultOk 10 (money q + 10))]\<rparr>"
  using assms
  by (simp add: submitQuizAnswer_mongo_def Let_def upd_player_def updateOne_user_def
      transport_defs split: option.split)

lemma submitQuizAnswer_mongo_wrong:
  assumes "map_of (players ms) s = Some q"
    "\<not> strictly_equal (parseInt (answer payload))
       (add_number (number_value (num1 payload)) (number_value (num2 payload)))"
  shows "submitQuizAnswer_mongo s payload ms = ms\<lparr>outbox := outbox ms @ [([s], QuizResultFail)]\<rparr>"
  using assms by (simp add: submitQuizAnswer_mongo_def socket_emit_def)

lemma alone_submitQuizAnswer:
  "alone (OnSubmitQuizAnswer s payload) ms = (submitQuizAnswer_mongo s payload ms, [])"
  by (simp add: alone_def submitQuizAnswer_start_mongo_def submitQuizAnswer_report_mongo_def
      submitQuizAnswer_mongo_def Let_def upd_player_def updateOne_user_def socket_emit_def
      update_conv' split: option.split)

lemma submitQuizAnswer_start_mongo_cases:
  assumes "map_of (players ms) s = Some q"
  shows "submitQuizAnswer_start_mongo s payload ms =
     (if strictly_equal (parseInt (answer payload))
           (add_number (number_value (num1 payload)) (number_value (num2 payload)))
      then (ms\<lparr>players := AList.update s (q\<lparr>money := money q + 10\<rparr>) (players ms),
               usersCol := usersCol (updateOne_user (username q)
                             (\<lambda>u. u\<lparr>money := money q + 10\<rparr>) ms)\<rparr>,
            Some (QuizUpdateMoney s))
      else (ms\<lparr>outbox := outbox ms @ [([s], QuizResultFail)]\<rparr>, None))"
  using assms
  by (simp add: submitQuizAnswer_start_mongo_def Let_def upd_player_def updateOne_user_def
      socket_emit_def split: option.split)

lemma submitQuizAnswer_report_mongo_sends:
  assumes "map_of (players ms) s = Some q"
  shows "submitQuizAnswer_report_mongo s ms =
     (ms\<lparr>outbox := outbox ms @
         [([s], UpdateMoney (money q)), ([s], QuizResultOk 10 (money q))]\<rparr>, None)"
  using assms by (simp add: submitQuizAnswer_report_mongo_def socket_emit_def)

text \<open>
  C1, as the claim states it, fails: the reward is also granted when the sum is not the
  claimed answer. With the operands 3 and 5 and the answer \<open>8.5\<close>, alice is paid the
  reward in both copies: \<open>parseInt\<close> reads the 8 and ignores the rest.
\<close>

theorem quiz_rewards_other_answer:
  "\<not> answer_is (code_units ''8.5'') (3 + 5)
   \<and> parseInt (code_units ''8.5'') = Num 8
   \<and> last (outbox (submitQuizAnswer_file ''s1''
        \<lparr>num1 = 3, num2 = 5, answer = code_units ''8.5''\<rparr>
        (after_file [sword] two_in_plaza))) = ([''s1''], QuizResultOk 10 1010)
   \<and> map (\<lambda>kp. money (snd kp))
        (players (submitQuizAnswer_file ''s1''
           \<lparr>num1 = 3, num2 = 5, answer = code_units ''8.5''\<rparr>
           (after_file [sword] two_in_plaza))) = [1010, 1000]
   \<and> last (outbox (fst (alone
        (OnSubmitQuizAnswer ''s1'' \<lparr>num1 = 3, num2 = 5, answer = code_units ''8.5''\<rparr>)
        (after_mongo [sword] two_in_plaza)))) = ([''s1''], QuizResultOk 10 1010)
   \<and> map (\<lambda>kp. money (snd kp))
        (players (fst (alone
           (OnSubmitQuizAnswer ''s1'' \<lparr>num1 = 3, num2 = 5, answer = code_units ''8.5''\<rparr>)
           (after_mongo [sword] two_in_plaza)))) = [1010, 1000]"
proof -
  have a: "\<not> answer_is (code_units ''8.5'') (3 + 5)"
    by (simp add: answer_is_def is_decimal_digit_def decimal_value_def code_units_def)
  have b: "parseInt (code_units ''8.5'') = Num 8"
    by (simp add: parse_defs number_value_def)
  have b': "strictly_equal (parseInt (code_units ''8.5''))
      (add_number (number_value 3) (number_value 5))"
    by (simp add: b number_value_def)
  have f: "map_of (players (after_file [sword] two_in_plaza)) ''s1'' = Some (new_session ''s1'' alice)"
    by (simp add: run_defs file_defs transport_defs Let_def)
  have m: "map_of (players (after_mongo [sword] two_in_plaza)) ''s1'' = Some (new_session ''s1'' alice)"
    by (simp add: run_defs mongo_defs transport_defs Let_def)
  have fk: "map fst (players (after_file [sword] two_in_plaza)) = [''s1'', ''s2'']"
    "map (\<lambda>kp. money (snd kp)) (players (after_file [sword] two_in_plaza)) = [1000, 1000]"
    by (simp_all add: run_defs file_defs transport_defs Let_def)
  have mk: "map fst (players (after_mongo [sword] two_in_plaza)) = [''s1'', ''s2'']"
    "map (\<lambda>kp. money (snd kp)) (players (after_mongo [sword] two_in_plaza)) = [1000, 1000]"
    by (simp_all add: run_defs mongo_defs transport_defs Let_def)
  have c: "last (outbox (submitQuizAnswer_file ''s1''
        \<lparr>num1 = 3, num2 = 5, answer = code_units ''8.5''\<rparr>
        (after_file [sword] two_in_plaza))) = ([''s1''], QuizResultOk 10 1010)"
    using b' by (simp add: submitQuizAnswer_file_ok [OF f] new_session_def alice_def)
  have d: "last (outbox (fst (alone
        (OnSubmitQuizAnswer ''s1'' \<lparr>num1 = 3, num2 = 5, answer = code_units ''8.5''\<rparr>)
        (after_mongo [sword] two_in_plaza)))) = ([''s1''], QuizResultOk 10 1010)"
    using b' by (simp add: alone_submitQuizAnswer submitQuizAnswer_mongo_ok [OF m]
        new_session_def alice_def)
  have e: "map (\<lambda>kp. money (snd kp))
        (players (submitQuizAnswer_file ''s1''
           \<lparr>num1 = 3, num2 = 5, answer = code_units ''8.5''\<rparr>
           (after_file [sword] two_in_plaza))) = [1010, 1000]"
    using b' fk by (cases "players (after_file [sword] two_in_plaza)")
      (auto simp: submitQuizAnswer_file_ok [OF f] new_session_def alice_def)
  have g: "map (\<lambda>kp. money (snd kp))
        (players (fst (alone
           (OnSubmitQuizAnswer ''s1'' \<lparr>num1 = 3, num2 = 5, answer = code_units ''8.5''\<rparr>)
           (after_mongo [sword] two_in_plaza)))) = [1010, 1000]"
    using b' mk by (cases "players (after_mongo [sword] two_in_plaza)")
      (auto simp: alone_submitQuizAnswer submitQuizAnswer_mongo_ok [OF m]
         new_session_def alice_def)
  show ?thesis using a b c d e g by simp
qed

text \<open>
  C1, amended. For a \<open>submitQuizAnswer\<close> of a logged-in session with operands
  \<open>num1\<close>, \<open>num2\<close> and an answer text: the reward of 10 is granted if and only if the
  number \<open>parseInt\<close> reads from the answer is strictly equal to the number
  \<open>num1 + num2\<close>; no other field of the payload (\<open>payload\<close> is any record with the three
  fields) is read. In the file-backed copy the reward is: the session's money raised by
  10, the stored account set to the new balance when it exists, and \<open>updateMoney\<close> and
  \<open>quizResult{success: true}\<close> sent to the submitter; otherwise
  \<open>quizResult{success: false}\<close> is sent and nothing else changes. In the document-store
  copy the handler decides when the event arrives: it raises the session's money by 10
  and sets the stored balance, or sends \<open>quizResult{success: false}\<close> and ends; when it
  goes on after the store's answer it sends \<open>updateMoney\<close> and
  \<open>quizResult{success: true}\<close> with the balance the session then has; run alone it does
  what the file-backed copy does. For operands and a sum within the exact integers, an
  answer that is the decimal numeral of the sum is always rewarded.
\<close>

theorem submitQuizAnswer_outcome:
  assumes "map_of (players fs) s = Some p" and "map_of (players ms) s = Some q"
  shows
   "(if strictly_equal (parseInt (answer payload))
          (add_number (number_value (num1 payload)) (number_value (num2 payload)))
     then submitQuizAnswer_file s payload fs =
       fs\<lparr>players := AList.update s (p\<lparr>money := money p + 10\<rparr>) (players fs),
           persistentUsers :=
             (case persistentUsers fs (username p) of
                None \<Rightarrow> persistentUsers fs
              | Some u \<Rightarrow> (persistentUsers fs)(username p \<mapsto> u\<lparr>money := money p + 10\<rparr>)),
           users_file :=
             (case persistentUsers fs (username p) of
                None \<Rightarrow> persistentUsers fs
              | Some u \<Rightarrow> (persistentUsers fs)(username p \<mapsto> u\<lparr>money := money p + 10\<rparr>)),
           outbox := outbox fs @
             [([s], UpdateMoney (money p + 10)), ([s], QuizResultOk 10 (money p + 10))]\<rparr>
     else submitQuizAnswer_file s payload fs =
       fs\<lparr>outbox := outbox fs @ [([s], QuizResultFail)]\<rparr>)
  \<and> submitQuizAnswer_start_mongo s payload ms =
     (if strictly_equal (parseInt (answer payload))
           (add_number (number_value (num1 payload)) (number_value (num2 payload)))
      then (ms\<lparr>players := AList.update s (q\<lparr>money := money q + 10\<rparr>) (players ms),
               usersCol := usersCol (updateOne_user (username q)
                             (\<lambda>u. u\<lparr>money := money q + 10\<rparr>) ms)\<rparr>,
            Some (QuizUpdateMoney s))
      else (ms\<lparr>outbox := outbox ms @ [([s], QuizResultFail)]\<rparr>, None))
  \<and> submitQuizAnswer_report_mongo s ms =
     (ms\<lparr>outbox := outbox ms @
         [([s], UpdateMoney (money q)), ([s], QuizResultOk 10 (money q))]\<rparr>, None)
  \<and> alone (OnSubmitQuizAnswer s payload) ms =
     (if strictly_equal (parseInt (answer payload))
           (add_number (number_value (num1 payload)) (number_value (num2 payload)))
      then ms\<lparr>players := AList.update s (q\<lparr>money := money q + 10\<rparr>) (players ms),
              usersCol := usersCol (updateOne_user (username q)
                            (\<lambda>u. u\<lparr>money := money q + 10\<rparr>) ms),
              outbox := outbox ms @
                [([s], UpdateMoney (money q + 10)), ([s], QuizResultOk 10 (money q + 10))]\<rparr>
      else ms\<lparr>outbox := outbox ms @ [([s], QuizResultFail)]\<rparr>, [])
  \<and> (exact (num1 payload) \<and> exact (num2 payload) \<and> exact (num1 payload + num2 payload)
       \<and> answer_is (answer payload) (num1 payload + num2 payload)
       \<longrightarrow> strictly_equal (parseInt (answer payload))
             (add_number (number_value (num1 payload)) (number_value (num2 payload))))"
proof -
  let ?c = "strictly_equal (parseInt (answer payload))
          (add_number (number_value (num1 payload)) (number_value (num2 payload)))"
  have a: "if ?c
     then submitQuizAnswer_file s payload fs =
       fs\<lparr>players := AList.update s (p\<lparr>money := money p + 10\<rparr>) (players fs),
           persistentUsers :=
             (case persistentUsers fs (username p) of
                None \<Rightarrow> persistentUsers fs
              | Some u \<Rightarrow> (persistentUsers fs)(username p \<mapsto> u\<lparr>money := money p + 10\<rparr>)),
           users_file :=
             (case persistentUsers fs (username p) of
                None \<Rightarrow> persistentUsers fs
              | Some u \<Rightarrow> (persistentUsers fs)(username p \<mapsto> u\<lparr>money := money p + 10\<rparr>)),
           outbox := outbox fs @
             [([s], UpdateMoney (money p + 10)), ([s], QuizResultOk 10 (money p + 10))]\<rparr>
     else submitQuizAnswer_file s payload fs =
       fs\<lparr>outbox := outbox fs @ [([s], QuizResultFail)]\<rparr>"
    using submitQuizAnswer_file_ok [OF assms(1), of payload]
      submitQuizAnswer_file_wrong [OF assms(1), of payload]
    by (cases ?c) simp_all
  have d: "alone (OnSubmitQuizAnswer s payload) ms =
     (if ?c
      then ms\<lparr>players := AList.update s (q\<lparr>money := money q + 10\<rparr>) (players ms),
              usersCol := usersCol (updateOne_user (username q)
                            (\<lambda>u. u\<lparr>money := money q + 10\<rparr>) ms),
              outbox := outbox ms @
                [([s], UpdateMoney (money q + 10)), ([s], QuizResultOk 10 (money q + 10))]\<rparr>
      else ms\<lparr>outbox := outbox ms @ [([s], QuizResultFail)]\<rparr>, [])"
    using submitQuizAnswer_mongo_ok [OF assms(2), of payload]
      submitQuizAnswer_mongo_wrong [OF assms(2), of payload]
    by (cases ?c) (simp_all add: alone_submitQuizAnswer)
  have e: "exact (num1 payload) \<and> exact (num2 payload) \<and> exact (num1 payload + num2 payload)
       \<and> answer_is (answer payload) (num1 payload + num2 payload) \<longrightarrow> ?c"
    using exact_sum_answer by blast
  show ?thesis
    using a submitQuizAnswer_start_mongo_cases [OF assms(2), of payload]
      submitQuizAnswer_report_mongo_sends [OF assms(2)] d e
    by (intro conjI)
qed

text \<open>The theorem at alice's answer \<open>8\<close> to 3 + 5, in both copies: her 1000 coins
  become 1010, in the session and in the store.\<close>

theorem submitQuizAnswer_outcome_witness:
  "map_of (players (after_file [sword] two_in_plaza)) ''s1'' = Some (new_session ''s1'' alice)
   \<and> map_of (players (after_mongo [sword] two_in_plaza)) ''s1'' = Some (new_session ''s1'' alice)
   \<and> exact 3 \<and> exact 5 \<and> exact (3 + 5)
   \<and> answer_is (code_units ''8'') (3 + 5)
   \<and> strictly_equal (parseInt (code_units ''8'')) (add_number (number_value 3) (number_value 5))
   \<and> map_option money (persistentUsers
        (submitQuizAnswer_file ''s1'' \<lparr>num1 = 3, num2 = 5, answer = code_units ''8''\<rparr>
           (after_file [sword] two_in_plaza)) ''alice'') = Some 1010
   \<and> map_option money (users_file
        (submitQuizAnswer_file ''s1'' \<lparr>num1 = 3, num2 = 5, answer = code_units ''8''\<rparr>
           (after_file [sword] two_in_plaza)) ''alice'') = Some 1010
   \<and> map_option money (usersCol (fst (alone
        (OnSubmitQuizAnswer ''s1'' \<lparr>num1 = 3, num2 = 5, answer = code_units ''8''\<rparr>)
        (after_mongo [sword] two_in_plaza))) ''alice'') = Some 1010
   \<and> snd (alone
        (OnSubmitQuizAnswer ''s1'' \<lparr>num1 = 3, num2 = 5, answer = code_units ''8''\<rparr>)
        (after_mongo [sword] two_in_plaza)) = []"
proof -
  have f: "map_of (players (after_file [sword] two_in_plaza)) ''s1'' = Some (new_session ''s1'' alice)"
    by (simp add: run_defs file_defs transport_defs Let_def)
  have m: "map_of (players (after_mongo [sword] two_in_plaza)) ''s1'' = Some (new_session ''s1'' alice)"
    by (simp add: run_defs mongo_defs transport_defs Let_def)
  have x: "exact 3" "exact 5" "exact (3 + 5)"
    by (simp_all add: exact_def)
  have a: "answer_is (code_units ''8'') (3 + 5)"
    by (simp add: answer_is_def is_decimal_digit_def decimal_value_def code_units_def)
  have u: "persistentUsers (after_file [sword] two_in_plaza) ''alice'' = Some alice"
    by (simp add: run_defs file_defs transport_defs Let_def)
  have v: "usersCol (after_mongo [sword] two_in_plaza) ''alice'' = Some alice"
    by (simp add: run_defs mongo_defs transport_defs Let_def)
  note inst = submitQuizAnswer_outcome [OF f m,
      of "\<lparr>num1 = 3, num2 = 5, answer = code_units ''8''\<rparr>"]
  have c: "strictly_equal (parseInt (code_units ''8''))
      (add_number (number_value 3) (number_value 5))"
    using inst x a by simp
  show ?thesis
    using inst f m x a c u v
    by (simp add: new_session_def alice_def usersCol_updateOne_user)
qed

subsection \<open>Combat\<close>

lemma outbox_emit [simp]:
  "outbox (io_emit ev st) = outbox st @ [(connected st, ev)]"
  "outbox (io_to_emit r ev st) = outbox st @ [(in_room st r, ev)]"
  "outbox (socket_emit s ev st) = outbox st @ [([s], ev)]"
  "outbox (socket_to_emit s r ev st) = outbox st @ [(filter (\<lambda>t. t \<noteq> s) (in_room st r), ev)]"
  "outbox (io_to_undefined_emit ev st) = outbox st @ [([], ev)]"
  by (simp_all add: transport_defs)

lemma players_emit [simp]:
  "players (io_emit ev st) = players st"
  "players (io_to_emit r ev st) = players st"
  "players (socket_emit s ev st) = players st"
  "players (socket_to_emit s r ev st) = players st"
  "players (io_to_undefined_emit ev st) = players st"
  by (simp_all add: transport_defs)

lemma file_emit [simp]:
  "persistentUsers (io_emit ev fs) = persistentUsers fs"
  "persistentUsers (io_to_emit r ev fs) = persistentUsers fs"
  "persistentUsers (socket_emit s ev fs) = persistentUsers fs"
  by (simp_all add: transport_defs)

lemma saveData_users_frame [simp]:
  "outbox (saveData_users fs) = outbox fs"
  "players (saveData_users fs) = players fs"
  by (simp_all add: saveData_users_def)

text \<open>The file-backed \<open>playerAttack\<close> clamps: whatever it sends carries a health of
  zero or more.\<close>

lemma playerAttack_file_health_nonneg:
  "\<exists>new. outbox (playerAttack_file s targetId fs) = outbox fs @ new \<and> no_negative_health new"
proof (cases "map_of (players fs) s")
  case None
  then show ?thesis by (simp add: playerAttack_file_def no_negative_health_def)
next
  case (Some attacker)
  note A = Some
  show ?thesis
  proof (cases "find (\<lambda>kp. playerId (snd kp) = targetId) (players fs)")
    case None
    then show ?thesis using A by (simp add: playerAttack_file_def no_negative_health_def)
  next
    case (Some kt)
    obtain tk target where kt: "kt = (tk, target)" by (cases kt)
    note T = Some [unfolded kt]
    show ?thesis
    proof (cases "district attacker \<noteq> ''arena_battle'' \<or> district target \<noteq> ''arena_battle''
        \<or> (mode attacker = Val ''team'' \<and> team attacker = team target)")
      case True
      then have "playerAttack_file s targetId fs = fs"
        using A T by (auto simp: playerAttack_file_def)
      then show ?thesis by (simp add: no_negative_health_def)
    next
      case False
      have "no_negative_health (drop (length (outbox fs)) (outbox (playerAttack_file s targetId fs)))
          \<and> take (length (outbox fs)) (outbox (playerAttack_file s targetId fs)) = outbox fs"
        using A T False
        by (cases "persistentUsers fs (username attacker)"; cases "map_of (players fs) tk")
           (simp_all add: playerAttack_file_def Let_def no_negative_health_def health_of_def
             map_of_upd_player option.case_distrib [of outbox] option.case_distrib [of players])
      then show ?thesis
        by (metis append_take_drop_id)
    qed
  qed
qed

text \<open>The file-backed \<open>playerAttack\<close> drops an attack inside a team.\<close>

lemma playerAttack_file_friendly_fire:
  assumes "map_of (players fs) s = Some attacker"
    and "find (\<lambda>kp. playerId (snd kp) = targetId) (players fs) = Some (tk, target)"
    and "mode attacker = Val ''team''" and "team attacker = team target"
  shows "playerAttack_file s targetId fs = fs"
  using assms by (simp add: playerAttack_file_def)

text \<open>
  C3 fails in the document-store copy, which subtracts the damage without a clamp and
  sends the result before it tests for death. Bob, at 15 after one bare-handed hit (5)
  and four hits of the sword (20), is hit with the sword again: \<open>playerHit\<close> goes to
  both sockets of the combat zone with a health of -5.
\<close>

theorem playerAttack_mongo_sends_negative_health:
  "map (\<lambda>kp. hp (snd kp)) (players (after_mongo [sword] bob_worn_down)) = [100, 15]
   \<and> ([''s2'', ''s1''], PlayerHit ''s2'' (- 5) ''s1'')
       \<in> set (outbox (after_mongo [sword] (bob_worn_down @ [PlayerAttack ''s1'' ''s2''])))"
  by code_simp

text \<open>
  C5 fails in the document-store copy, whose \<open>playerAttack\<close> has no test of
  \<open>mode\<close> and \<open>team\<close>. Alice and bob are both in team mode and in the red team;
  alice's attack takes 5 from bob's health and is broadcast.
\<close>

theorem playerAttack_mongo_hits_team_mate:
  "map (\<lambda>kp. (mode (snd kp), team (snd kp), hp (snd kp))) (players (after_mongo [sword] red_team))
     = [(Val ''team'', Val ''red'', 100), (Val ''team'', Val ''red'', 100)]
   \<and> map (\<lambda>kp. hp (snd kp))
        (players (after_mongo [sword] (red_team @ [PlayerAttack ''s1'' ''s2'']))) = [100, 95]
   \<and> last (outbox (after_mongo [sword] (red_team @ [PlayerAttack ''s1'' ''s2''])))
     = ([''s2'', ''s1''], PlayerHit ''s2'' 95 ''s1'')"
  by code_simp

subsection \<open>The client's collision test and sliding\<close>

lemma clamp_nearest:
  fixes x lo hi q :: int
  assumes "lo \<le> q" "q \<le> hi"
  shows "(x - max lo (min x hi)) * (x - max lo (min x hi)) \<le> (x - q) * (x - q)"
proof -
  have "\<bar>x - max lo (min x hi)\<bar> \<le> \<bar>x - q\<bar>"
    using assms by (auto simp: max_def min_def)
  then have "(x - max lo (min x hi))\<^sup>2 \<le> (x - q)\<^sup>2"
    by (simp only: abs_le_square_iff)
  then show ?thesis by (simp add: power2_eq_square)
qed

lemma clamp_inside:
  fixes x lo w :: int
  assumes "0 \<le> w"
  shows "lo \<le> max lo (min x (lo + w)) \<and> max lo (min x (lo + w)) \<le> lo + w"
  using assms by (auto simp: max_def min_def)

lemma obstacle_hit_iff:
  assumes "0 \<le> o_width ob" "0 \<le> o_height ob"
  shows "obstacle_hit x y radius ob \<longleftrightarrow> circle_meets x y radius ob"
proof
  assume "obstacle_hit x y radius ob"
  then show "circle_meets x y radius ob"
    unfolding obstacle_hit_def circle_meets_def Let_def
    using clamp_inside [OF assms(1), of "o_x ob" x] clamp_inside [OF assms(2), of "o_y ob" y]
    by blast
next
  assume "circle_meets x y radius ob"
  then obtain qx qy where q: "o_x ob \<le> qx" "qx \<le> o_x ob + o_width ob"
      "o_y ob \<le> qy" "qy \<le> o_y ob + o_height ob"
      "(x - qx) * (x - qx) + (y - qy) * (y - qy) < radius * radius"
    unfolding circle_meets_def by blast
  from clamp_nearest [OF q(1,2), of x] clamp_nearest [OF q(3,4), of y] q(5)
  show "obstacle_hit x y radius ob"
    unfolding obstacle_hit_def Let_def by linarith
qed

lemma hits_any_iff:
  "hits_any x y radius obs \<longleftrightarrow> (\<exists>ob \<in> set obs. obstacle_hit x y radius ob)"
  by (induction obs) auto

lemma checkCollision_iff:
  "checkCollision ''arena_battle'' x y \<longleftrightarrow>
     (\<exists>ob \<in> set BATTLE_OBSTACLES. circle_meets x y 15 ob)"
proof -
  have "\<forall>ob \<in> set BATTLE_OBSTACLES. 0 \<le> o_width ob \<and> 0 \<le> o_height ob"
    by (simp add: BATTLE_OBSTACLES_def)
  then have "(\<exists>ob \<in> set BATTLE_OBSTACLES. obstacle_hit x y 15 ob)
      \<longleftrightarrow> (\<exists>ob \<in> set BATTLE_OBSTACLES. circle_meets x y 15 ob)"
    using obstacle_hit_iff by blast
  then show ?thesis
    by (simp add: checkCollision_def checkCollision_radius_def hits_any_iff)
qed

text \<open>
  C7. In the combat zone (and with the quiz closed, when \<open>update\<close> moves at all) the
  candidate position is the current one moved by 5 for each pressed direction; it
  collides exactly when the circle of radius 15 round it meets one of the six obstacle
  rectangles. Without a collision the player moves to the candidate; on a collision the
  move is tried with only \<open>x\<close> changed, then with only \<open>y\<close> changed, and when both
  collide as well the position stays. Nothing but the position changes.
\<close>

theorem update_position_slides:
  assumes "currentDistrict c = ''arena_battle''" and "\<not> quizOpen c"
  shows
   "candidate c =
      (c_x c - (if key_a (pressed c) \<or> key_ArrowLeft (pressed c) then 5 else 0)
             + (if key_d (pressed c) \<or> key_ArrowRight (pressed c) then 5 else 0),
       c_y c - (if key_w (pressed c) \<or> key_ArrowUp (pressed c) then 5 else 0)
             + (if key_s (pressed c) \<or> key_ArrowDown (pressed c) then 5 else 0))
  \<and> length BATTLE_OBSTACLES = 6
  \<and> (\<forall>x y. checkCollision (currentDistrict c) x y \<longleftrightarrow>
         (\<exists>ob \<in> set BATTLE_OBSTACLES. circle_meets x y 15 ob))
  \<and> fst (update_position c) =
      (if \<not> checkCollision (currentDistrict c) (fst (candidate c)) (snd (candidate c))
       then c\<lparr>c_x := fst (candidate c), c_y := snd (candidate c)\<rparr>
       else if \<not> checkCollision (currentDistrict c) (fst (candidate c)) (c_y c)
       then c\<lparr>c_x := fst (candidate c)\<rparr>
       else if \<not> checkCollision (currentDistrict c) (c_x c) (snd (candidate c))
       then c\<lparr>c_y := snd (candidate c)\<rparr>
       else c)"
proof -
  have 1: "candidate c =
      (c_x c - (if key_a (pressed c) \<or> key_ArrowLeft (pressed c) then 5 else 0)
             + (if key_d (pressed c) \<or> key_ArrowRight (pressed c) then 5 else 0),
       c_y c - (if key_w (pressed c) \<or> key_ArrowUp (pressed c) then 5 else 0)
             + (if key_s (pressed c) \<or> key_ArrowDown (pressed c) then 5 else 0))"
    by (simp add: candidate_def Let_def SPEED_def)
  have 2: "length BATTLE_OBSTACLES = 6"
    by (simp add: BATTLE_OBSTACLES_def)
  have 3: "\<forall>x y. checkCollision (currentDistrict c) x y \<longleftrightarrow>
         (\<exists>ob \<in> set BATTLE_OBSTACLES. circle_meets x y 15 ob)"
    using checkCollision_iff assms(1) by simp
  have 4: "fst (update_position c) =
      (if \<not> checkCollision (currentDistrict c) (fst (candidate c)) (snd (candidate c))
       then c\<lparr>c_x := fst (candidate c), c_y := snd (candidate c)\<rparr>
       else if \<not> checkCollision (currentDistrict c) (fst (candidate c)) (c_y c)
       then c\<lparr>c_x := fst (candidate c)\<rparr>
       else if \<not> checkCollision (currentDistrict c) (c_x c) (snd (candidate c))
       then c\<lparr>c_y := snd (candidate c)\<rparr>
       else c)"
    using assms(2) by (simp add: update_position_def Let_def)
  from 1 2 3 4 show ?thesis by blast
qed

text \<open>The theorem beside the first obstacle: the move to the right and down collides, the
  move to the right alone collides, the move down alone does not, and the player slides
  down to \<open>(185, 205)\<close>.\<close>

theorem update_position_slides_witness:
  "currentDistrict beside_obstacle = ''arena_battle'' \<and> \<not> quizOpen beside_obstacle
   \<and> candidate beside_obstacle = (190, 205)
   \<and> checkCollision ''arena_battle'' 190 205
   \<and> checkCollision ''arena_battle'' 190 200
   \<and> \<not> checkCollision ''arena_battle'' 185 205
   \<and> fst (update_position beside_obstacle) = beside_obstacle\<lparr>c_y := 205\<rparr>"
proof -
  have a: "currentDistrict beside_obstacle = ''arena_battle''" "\<not> quizOpen beside_obstacle"
    by (simp_all add: beside_obstacle_def)
  have b: "checkCollision ''arena_battle'' 190 205" "checkCollision ''arena_battle'' 190 200"
    "\<not> checkCollision ''arena_battle'' 185 205"
    by (simp_all add: checkCollision_def checkCollision_radius_def BATTLE_OBSTACLES_def
        obstacle_hit_def Let_def)
  from update_position_slides [OF a]
  show ?thesis
    using a b by (simp add: beside_obstacle_def no_keys_def)
qed

subsection \<open>Crossing into a neighbouring district\<close>

text \<open>
  C8, as the claim states it, fails where the position leaves the world on two sides at
  once: only the first side in the order left, right, top, bottom is looked at. In the
  bottom left corner of the school, moving left and down takes the player to
  \<open>(-5, 605)\<close>; the bottom side has the plaza as its neighbour, yet no transfer is
  sent and the player is put back into the corner.
\<close>

theorem corner_exit_misses_neighbour:
  "candidate school_corner = (- 5, 605)
   \<and> DISTRICT_MAP ''school'' Bottom = Some ''plaza''
   \<and> sent (tick school_corner) = []
   \<and> currentDistrict (tick school_corner) = ''school''
   \<and> (c_x (tick school_corner), c_y (tick school_corner)) = (0, 600)"
  by (simp add: tick_def update_position_def candidate_def school_corner_def no_keys_def
      SPEED_def checkCollision_def checkCollision_radius_def checkDistrictBoundaries_def
      exit_side_def clamp_to_bounds_def Let_def)

lemma clamp_to_bounds_eq:
  "clamp_to_bounds c = c\<lparr>c_x := min 800 (max 0 (c_x c)), c_y := min 600 (max 0 (c_y c))\<rparr>"
  by (simp add: clamp_to_bounds_def Let_def min_def max_def)

text \<open>
  C8, amended. Within the cooldown that follows a transfer, \<open>checkDistrictBoundaries\<close>
  changes nothing. Otherwise the sides are looked at in the order left (\<open>x < 0\<close>), right
  (\<open>x > 800\<close>), top (\<open>y < 0\<close>), bottom (\<open>y > 600\<close>), and only the first side the
  position has left counts: when the district map has a neighbour on that side, the
  player is placed 75 inside the neighbour's opposite edge (the other coordinate kept), a
  transfer to the neighbour is sent with that spawn point, and the cooldown starts; when
  it has none, the position is clamped to the bounds and no transfer is sent. A position
  inside the bounds is left as it is.
\<close>

theorem checkDistrictBoundaries_outcome:
  "(isTransitioning c \<longrightarrow> checkDistrictBoundaries c = c)
   \<and> (\<not> isTransitioning c \<longrightarrow>
        (c_x c < 0 \<longrightarrow> checkDistrictBoundaries c = crossing c Left (725, c_y c))
      \<and> (800 < c_x c \<longrightarrow> checkDistrictBoundaries c = crossing c Right (75, c_y c))
      \<and> (0 \<le> c_x c \<and> c_x c \<le> 800 \<and> c_y c < 0 \<longrightarrow>
           checkDistrictBoundaries c = crossing c Top (c_x c, 525))
      \<and> (0 \<le> c_x c \<and> c_x c \<le> 800 \<and> 600 < c_y c \<longrightarrow>
           checkDistrictBoundaries c = crossing c Bottom (c_x c, 75))
      \<and> (0 \<le> c_x c \<and> c_x c \<le> 800 \<and> 0 \<le> c_y c \<and> c_y c \<le> 600 \<longrightarrow>
           checkDistrictBoundaries c = c))"
  by (auto simp: checkDistrictBoundaries_def exit_side_def crossing_def clamp_to_bounds_eq
      Let_def split: option.split)

text \<open>The theorem at the left edge of the plaza: the player, at \<open>(-5, 300)\<close>, is sent to
  the housing district at \<open>(725, 300)\<close>, and a second check within the cooldown changes
  nothing; the timer ends the cooldown.\<close>

theorem checkDistrictBoundaries_outcome_witness:
  "\<not> isTransitioning plaza_left_edge \<and> c_x plaza_left_edge < 0
   \<and> checkDistrictBoundaries plaza_left_edge = crossing plaza_left_edge Left (725, 300)
   \<and> sent (checkDistrictBoundaries plaza_left_edge) = [JoinDistrict ''housing'' (725, 300)]
   \<and> currentDistrict (checkDistrictBoundaries plaza_left_edge) = ''housing''
   \<and> isTransitioning (checkDistrictBoundaries plaza_left_edge)
   \<and> checkDistrictBoundaries ((checkDistrictBoundaries plaza_left_edge)\<lparr>c_x := - 5\<rparr>)
       = (checkDistrictBoundaries plaza_left_edge)\<lparr>c_x := - 5\<rparr>
   \<and> \<not> isTransitioning (transition_timeout (checkDistrictBoundaries plaza_left_edge))"
proof -
  have a: "\<not> isTransitioning plaza_left_edge" "c_x plaza_left_edge < 0"
    "c_y plaza_left_edge = 300"
    by (simp_all add: plaza_left_edge_def)
  have b: "isTransitioning ((crossing plaza_left_edge Left (725, 300))\<lparr>c_x := - 5\<rparr>)"
    by (simp add: crossing_def plaza_left_edge_def)
  from checkDistrictBoundaries_outcome [of plaza_left_edge]
    checkDistrictBoundaries_outcome [of "(crossing plaza_left_edge Left (725, 300))\<lparr>c_x := - 5\<rparr>"]
  show ?thesis
    using a b by (simp add: crossing_def plaza_left_edge_def transition_timeout_def)
qed

subsection \<open>District transfer\<close>

lemma others_in_rooms_cong:
  assumes "\<And>t. t \<noteq> s \<Longrightarrow> ((t, room) \<in> set (rooms st') \<longleftrightarrow> (t, room) \<in> set (rooms st))"
    and "connected st' = connected st"
  shows "filter (\<lambda>t. t \<noteq> s) (in_room st' room) = others_in st s room"
  using assms by (auto simp: in_room_def others_in_def intro!: filter_cong)

lemma move_session_Some:
  assumes "map_of (players st) s = Some p"
  shows "move_session s newRoom spawnPos st =
     st\<lparr>rooms := removeAll (s, district p) (rooms st),
        outbox := outbox st @ [(others_in st s (district p), PlayerDisconnected s)],
        players := AList.update s
          (p\<lparr>district := newRoom,
             px := fst (transfer_position p newRoom spawnPos),
             py := snd (transfer_position p newRoom spawnPos)\<rparr>) (players st)\<rparr>"
proof -
  have o: "\<And>r. filter (\<lambda>t. t \<noteq> s) (in_room (st\<lparr>rooms := removeAll (s, r) (rooms st)\<rparr>) r)
      = others_in st s r"
    by (rule others_in_rooms_cong) auto
  show ?thesis
    using assms o
    by (cases spawnPos)
       (simp_all add: move_session_def Let_def socket_leave_def socket_to_emit_def
          upd_player_def update_conv' transfer_position_def)
qed

lemma announce_session_Some:
  assumes "map_of (players st) s = Some p'"
  shows "announce_session s newRoom st =
     st\<lparr>rooms := List.insert (s, newRoom) (rooms st),
        outbox := outbox st @
          [([s], PlayerChangedDistrict (filter (\<lambda>q. district q = newRoom) (map snd (players st)))),
           (others_in st s newRoom, NewPlayer p'),
           ([s], SetDistrict newRoom)]\<rparr>"
proof -
  have o: "filter (\<lambda>t. t \<noteq> s) (in_room (st\<lparr>rooms := List.insert (s, newRoom) (rooms st)\<rparr>) newRoom)
      = others_in st s newRoom"
    by (rule others_in_rooms_cong) auto
  have o': "filter (\<lambda>t. t \<noteq> s)
       (in_room (st\<lparr>rooms := List.insert (s, newRoom) (rooms st),
                     outbox := outbox st @ [([s], PlayerChangedDistrict
                        (filter (\<lambda>q. district q = newRoom) (map snd (players st))))]\<rparr>) newRoom)
      = others_in st s newRoom"
    by (rule others_in_rooms_cong) auto
  show ?thesis
    using assms o o'
    by (simp add: announce_session_def Let_def socket_join_def socket_emit_def socket_to_emit_def)
qed

lemma others_in_cong:
  assumes "connected st' = connected st"
    and "\<And>t. t \<noteq> s \<Longrightarrow> ((t, room) \<in> set (rooms st') \<longleftrightarrow> (t, room) \<in> set (rooms st))"
  shows "others_in st' s room = others_in st s room"
  using assms by (auto simp: others_in_def intro!: filter_cong)

lemma emit_frame [simp]:
  "rooms (socket_emit s ev st) = rooms st"
  "connected (socket_emit s ev st) = connected st"
  "socketUserMap (socket_emit s ev st) = socketUserMap st"
  by (simp_all add: transport_defs)

lemma move_session_frame [simp]:
  "connected (move_session s r sp st) = connected st"
  "socketUserMap (move_session s r sp st) = socketUserMap st"
  "persistentUsers (move_session s r sp fs) = persistentUsers fs"
  "persistentHouses (move_session s r sp fs) = persistentHouses fs"
  "housesCol (move_session s r sp ms) = housesCol ms"
  "usersCol (move_session s r sp ms) = usersCol ms"
  by (simp_all add: move_session_def Let_def transport_defs split: option.split)

lemma announce_session_frame [simp]:
  "connected (announce_session s r st) = connected st"
  "socketUserMap (announce_session s r st) = socketUserMap st"
  "players (announce_session s r st) = players st"
  "persistentUsers (announce_session s r fs) = persistentUsers fs"
  "persistentHouses (announce_session s r fs) = persistentHouses fs"
  "housesCol (announce_session s r ms) = housesCol ms"
  "usersCol (announce_session s r ms) = usersCol ms"
  by (simp_all add: announce_session_def Let_def transport_defs split: option.split)

lemma persist_district_mongo_frame [simp]:
  "players (persist_district_mongo s r ms) = players ms"
  "outbox (persist_district_mongo s r ms) = outbox ms"
  "rooms (persist_district_mongo s r ms) = rooms ms"
  "connected (persist_district_mongo s r ms) = connected ms"
  "socketUserMap (persist_district_mongo s r ms) = socketUserMap ms"
  "housesCol (persist_district_mongo s r ms) = housesCol ms"
  by (simp_all add: persist_district_mongo_def split: option.split)

lemma persist_district_file_frame:
  assumes "persist_district_file s r fs = Inr fs'"
  shows "players fs' = players fs \<and> outbox fs' = outbox fs \<and> rooms fs' = rooms fs
       \<and> connected fs' = connected fs \<and> socketUserMap fs' = socketUserMap fs
       \<and> persistentHouses fs' = persistentHouses fs"
  using assms
  by (auto simp: persist_district_file_def saveData_users_def split: if_splits option.splits)

lemma persist_district_file_Inr:
  assumes "sockets_have_accounts fs"
  shows "\<exists>fs'. persist_district_file s r fs = Inr fs'"
proof (cases "map_of (socketUserMap fs) s")
  case None
  then show ?thesis by (simp add: persist_district_file_def)
next
  case (Some name)
  then have "(s, name) \<in> set (socketUserMap fs)" by (rule map_of_SomeD)
  then have "persistentUsers fs name \<noteq> None"
    using assms by (auto simp: sockets_have_accounts_def list_all_iff)
  then show ?thesis using Some by (auto simp: persist_district_file_def)
qed

text \<open>The steps of a transfer that both copies share, put together.\<close>

lemma transfer_steps:
  fixes st :: "'a session_state_scheme" and st1 st2 :: "'b session_state_scheme"
  assumes P: "map_of (players st) s = Some p"
    and 1: "players st1 = players (move_session s newRoom spawnPos st)"
           "outbox st1 = outbox (move_session s newRoom spawnPos st) @ between"
           "rooms st1 = rooms (move_session s newRoom spawnPos st)"
           "connected st1 = connected (move_session s newRoom spawnPos st)"
           "socketUserMap st1 = socketUserMap (move_session s newRoom spawnPos st)"
    and 2: "players st2 = players (announce_session s newRoom st1)"
           "outbox st2 = outbox (announce_session s newRoom st1) @ extra"
           "rooms st2 = rooms (announce_session s newRoom st1)"
           "connected st2 = connected (announce_session s newRoom st1)"
           "socketUserMap st2 = socketUserMap (announce_session s newRoom st1)"
  shows "transferred s p newRoom spawnPos between extra st st2"
proof -
  define p' where "p' = p\<lparr>district := newRoom,
                  px := fst (transfer_position p newRoom spawnPos),
                  py := snd (transfer_position p newRoom spawnPos)\<rparr>"
  note M = move_session_Some [OF P, of newRoom spawnPos, folded p'_def]
  have P1: "map_of (players st1) s = Some p'"
    using 1(1) by (simp add: M update_conv')
  note A = announce_session_Some [OF P1, of newRoom]
  have o: "others_in st1 s newRoom = others_in st s newRoom"
    by (rule others_in_cong) (auto simp: 1 M)
  have a: "map_of (players st2) s = Some p'"
    using 2(1) P1 by (simp add: A)
  have b: "\<forall>t. t \<noteq> s \<longrightarrow> map_of (players st2) t = map_of (players st) t"
    using 2(1) 1(1) by (simp add: A M update_conv')
  have c: "set (rooms st2) = insert (s, newRoom) (set (rooms st) - {(s, district p)})"
    using 2(3) 1(3) by (simp add: A M)
  have d: "connected st2 = connected st" "socketUserMap st2 = socketUserMap st"
    using 1 2 by (simp_all add: A M)
  have e: "outbox st2 = outbox st @
           [(others_in st s (district p), PlayerDisconnected s)] @ between @
           [([s], PlayerChangedDistrict
                    (filter (\<lambda>q. district q = newRoom) (map snd (players st2)))),
            (others_in st s newRoom, NewPlayer p'),
            ([s], SetDistrict newRoom)] @ extra"
    using 2(1,2) 1(1,2) o by (simp add: A M)
  show ?thesis
    unfolding transferred_def Let_def p'_def [symmetric]
    using a b c d e by blast
qed

lemma handleDistrictChange_mongo_transferred:
  assumes "map_of (players ms) s = Some p"
  shows "transferred s p newRoom spawnPos []
     (if newRoom = ''housing'' then [([s], HouseData (houses_by_id (housesCol ms)))] else [])
     ms (handleDistrictChange_mongo s newRoom spawnPos ms)"
proof (rule transfer_steps [OF assms,
      where ?st1.0 = "persist_district_mongo s newRoom (move_session s newRoom spawnPos ms)"
        and between = "[]"])
  let ?m = "persist_district_mongo s newRoom (move_session s newRoom spawnPos ms)"
  show "outbox (handleDistrictChange_mongo s newRoom spawnPos ms) =
      outbox (announce_session s newRoom ?m) @
      (if newRoom = ''housing'' then [([s], HouseData (houses_by_id (housesCol ms)))] else [])"
    using assms by (simp add: handleDistrictChange_mongo_def housing_data_mongo_def)
qed (use assms in \<open>simp_all add: handleDistrictChange_mongo_def housing_data_mongo_def\<close>)

lemma handleDistrictChange_file_transferred:
  assumes "map_of (players fs) s = Some p" and "sockets_have_accounts fs"
  shows "\<exists>fs'. handleDistrictChange_file s newRoom spawnPos fs = Inr fs'
     \<and> transferred s p newRoom spawnPos []
         (if newRoom = ''housing'' then [([s], HouseData (persistentHouses fs))] else [])
         fs fs'"
proof -
  let ?m = "move_session s newRoom spawnPos fs"
  have "sockets_have_accounts ?m"
    using assms(2) by (simp add: sockets_have_accounts_def)
  then obtain fs1 where F1: "persist_district_file s newRoom ?m = Inr fs1"
    using persist_district_file_Inr by blast
  note fr = persist_district_file_frame [OF F1]
  let ?a = "announce_session s newRoom fs1"
  let ?r = "if newRoom = ''housing'' then socket_emit s (HouseData (persistentHouses ?a)) ?a else ?a"
  have R: "handleDistrictChange_file s newRoom spawnPos fs = Inr ?r"
    using assms(1) F1 by (simp add: handleDistrictChange_file_def Let_def)
  have "transferred s p newRoom spawnPos []
         (if newRoom = ''housing'' then [([s], HouseData (persistentHouses fs))] else [])
         fs ?r"
    by (rule transfer_steps [OF assms(1), where ?st1.0 = fs1 and between = "[]"])
       (use fr in \<open>simp_all\<close>)
  with R show ?thesis by blast
qed

text \<open>The handlers that transfer a session do so through \<open>handleDistrictChange\<close>.\<close>

lemma transfer_handlers:
  "newRoom \<in> set DISTRICTS \<Longrightarrow>
     joinDistrict_file s newRoom spawnPos fs = handleDistrictChange_file s newRoom spawnPos fs"
  "newRoom \<in> set DISTRICTS \<or> take 6 newRoom = ''house_'' \<Longrightarrow>
     joinDistrict_mongo s newRoom spawnPos ms = handleDistrictChange_mongo s newRoom spawnPos ms"
  "enterHouse_file s plotId fs = handleDistrictChange_file s (''house_'' @ plotId) None fs"
  "enterHouse_mongo s plotId ms = handleDistrictChange_mongo s (''house_'' @ plotId) None ms"
  "leaveHouse_file s fs = handleDistrictChange_file s ''housing'' None fs"
  "leaveHouse_mongo s ms = handleDistrictChange_mongo s ''housing'' None ms"
  by (auto simp: joinDistrict_file_def joinDistrict_mongo_def enterHouse_file_def
      enterHouse_mongo_def leaveHouse_file_def leaveHouse_mongo_def)

lemma rooms_move_session:
  "map_of (players st) s = Some p \<Longrightarrow>
     rooms (move_session s r sp st) = removeAll (s, district p) (rooms st)"
  by (simp add: move_session_Some)

lemma joinBattle_mongo_transferred:
  assumes "map_of (players ms) s = Some q"
  shows "transferred s (q\<lparr>hp := 100, maxHp := 100, mode := md, team := tm\<rparr>)
     ''arena_battle'' (Some (400, 300))
     [(in_room (socket_leave s (district q) ms) ''arena_battle'',
       PlayerUpdate (q\<lparr>hp := 100, maxHp := 100, mode := md, team := tm,
                       district := ''arena_battle'', px := 400, py := 300\<rparr>))]
     []
     (upd_player s (\<lambda>p. p\<lparr>hp := 100, maxHp := 100, mode := md, team := tm\<rparr>) ms)
     (joinBattle_mongo s md tm ms)"
proof -
  let ?st = "upd_player s (\<lambda>p. p\<lparr>hp := 100, maxHp := 100, mode := md, team := tm\<rparr>) ms"
  let ?p1 = "q\<lparr>hp := 100, maxHp := 100, mode := md, team := tm\<rparr>"
  let ?p2 = "q\<lparr>hp := 100, maxHp := 100, mode := md, team := tm,
                       district := ''arena_battle'', px := 400, py := 300\<rparr>"
  let ?m = "persist_district_mongo s ''arena_battle'' (move_session s ''arena_battle'' (Some (400, 300)) ?st)"
  let ?st1 = "io_to_emit ''arena_battle'' (PlayerUpdate ?p2) ?m"
  have P: "map_of (players ?st) s = Some ?p1"
    using assms by (simp add: map_of_upd_player)
  note M = move_session_Some [OF P, of "''arena_battle''" "Some (400, 300)"]
  have pm: "map_of (players ?m) s = Some ?p2"
    by (simp add: M update_conv' transfer_position_def)
  have J: "joinBattle_mongo s md tm ms = announce_session s ''arena_battle'' ?st1"
    using assms pm by (simp add: joinBattle_mongo_def Let_def housing_data_mongo_def)
  have X: "rooms ?m = removeAll (s, district q) (rooms ms)"
    using rooms_move_session [OF P, of "''arena_battle''" "Some (400, 300)"] by simp
  have C: "connected ?m = connected ms" by simp
  have R: "in_room ?m ''arena_battle'' = in_room (socket_leave s (district q) ms) ''arena_battle''"
    unfolding in_room_def X C by (simp add: socket_leave_def)
  have "transferred s ?p1 ''arena_battle'' (Some (400, 300))
      [(in_room (socket_leave s (district q) ms) ''arena_battle'', PlayerUpdate ?p2)] []
      ?st (announce_session s ''arena_battle'' ?st1)"
    by (rule transfer_steps [OF P, where ?st1.0 = ?st1]) (simp_all add: R io_to_emit_def)
  then show ?thesis by (simp add: J)
qed

lemma joinBattle_file_transfers:
  assumes "map_of (players fs) s = Some p" and "sockets_have_accounts fs"
  shows "\<exists>fs1. handleDistrictChange_file s ''arena_battle'' (Some (400, 300))
              (upd_player s (\<lambda>p. p\<lparr>hp := 100, maxHp := 100, mode := md, team := tm\<rparr>) fs) = Inr fs1
       \<and> transferred s (p\<lparr>hp := 100, maxHp := 100, mode := md, team := tm\<rparr>)
            ''arena_battle'' (Some (400, 300)) [] []
            (upd_player s (\<lambda>p. p\<lparr>hp := 100, maxHp := 100, mode := md, team := tm\<rparr>) fs) fs1
       \<and> joinBattle_file s md tm fs =
           Inr (io_to_emit ''arena_battle''
                  (ChatMessage ''SYSTEM'' (username p @ '' entered the arena!'') ''#ff4444'')
                  (socket_emit s (BattleJoined md tm)
                     (io_emit (PlayerUpdate (p\<lparr>hp := 100, maxHp := 100, mode := md, team := tm,
                                   district := ''arena_battle'', px := 400, py := 300\<rparr>)) fs1)))"
proof -
  let ?st = "upd_player s (\<lambda>p. p\<lparr>hp := 100, maxHp := 100, mode := md, team := tm\<rparr>) fs"
  let ?p1 = "p\<lparr>hp := 100, maxHp := 100, mode := md, team := tm\<rparr>"
  have P: "map_of (players ?st) s = Some ?p1"
    using assms(1) by (simp add: map_of_upd_player)
  have A: "sockets_have_accounts ?st"
    using assms(2) by (simp add: sockets_have_accounts_def)
  from handleDistrictChange_file_transferred [OF P A, of "''arena_battle''" "Some (400, 300)"]
  obtain fs1 where F: "handleDistrictChange_file s ''arena_battle'' (Some (400, 300)) ?st = Inr fs1"
    and T: "transferred s ?p1 ''arena_battle'' (Some (400, 300)) [] [] ?st fs1"
    by auto
  have p2: "map_of (players fs1) s = Some (p\<lparr>hp := 100, maxHp := 100, mode := md, team := tm,
                                   district := ''arena_battle'', px := 400, py := 300\<rparr>)"
    using T by (simp add: transferred_def Let_def transfer_position_def)
  have "joinBattle_file s md tm fs =
           Inr (io_to_emit ''arena_battle''
                  (ChatMessage ''SYSTEM'' (username p @ '' entered the arena!'') ''#ff4444'')
                  (socket_emit s (BattleJoined md tm)
                     (io_emit (PlayerUpdate (p\<lparr>hp := 100, maxHp := 100, mode := md, team := tm,
                                   district := ''arena_battle'', px := 400, py := 300\<rparr>)) fs1)))"
    using assms(1) F p2 by (simp add: joinBattle_file_def Let_def)
  with F T show ?thesis by blast
qed

text \<open>Run alone, the handlers of the document-store copy that transfer a session do what
  the compositions of their segments say.\<close>

lemma alone_handleDistrictChange:
  assumes "start r ms = handleDistrictChange_start_mongo s newRoom spawnPos ms"
  shows "alone r ms = (handleDistrictChange_mongo s newRoom spawnPos ms, [])"
proof (cases "map_of (players ms) s")
  case None
  then show ?thesis
    by (simp add: alone_def assms handleDistrictChange_start_mongo_def
        handleDistrictChange_mongo_def)
next
  case (Some q)
  show ?thesis
  proof (cases "newRoom \<in> set DISTRICTS")
    case True
    with Some show ?thesis
      by (simp add: alone_def assms handleDistrictChange_start_mongo_def
          handleDistrictChange_join_mongo_def handleDistrictChange_houses_mongo_def
          handleDistrictChange_mongo_def housing_data_mongo_def Let_def)
  next
    case False
    then have "newRoom \<noteq> ''housing''"
      by (auto simp: DISTRICTS_def)
    with Some False show ?thesis
      by (simp add: alone_def assms handleDistrictChange_start_mongo_def
          handleDistrictChange_join_mongo_def handleDistrictChange_mongo_def
          housing_data_mongo_def persist_district_mongo_def Let_def)
  qed
qed

lemma alone_joinDistrict:
  "alone (OnJoinDistrict s newDistrict spawnPos) ms = (joinDistrict_mongo s newDistrict spawnPos ms, [])"
proof (cases "newDistrict \<notin> set DISTRICTS \<and> take 6 newDistrict \<noteq> ''house_''")
  case True
  then show ?thesis
    by (simp add: alone_def joinDistrict_start_mongo_def joinDistrict_mongo_def)
next
  case False
  then have "start (OnJoinDistrict s newDistrict spawnPos) ms
      = handleDistrictChange_start_mongo s newDistrict spawnPos ms"
    by (auto simp: joinDistrict_start_mongo_def)
  from alone_handleDistrictChange [OF this] False show ?thesis
    by (auto simp: joinDistrict_mongo_def)
qed

lemma alone_enterHouse:
  "alone (OnEnterHouse s plotId) ms = (enterHouse_mongo s plotId ms, [])"
  by (simp add: alone_handleDistrictChange enterHouse_mongo_def)

lemma alone_leaveHouse: "alone (OnLeaveHouse s) ms = (leaveHouse_mongo s ms, [])"
  by (simp add: alone_handleDistrictChange leaveHouse_mongo_def)

lemma alone_joinBattle:
  "alone (OnJoinBattle s md tm) ms = (joinBattle_mongo s md tm ms, [])"
proof (cases "map_of (players ms) s")
  case None
  then show ?thesis
    by (simp add: alone_def joinBattle_start_mongo_def joinBattle_mongo_def)
next
  case (Some q)
  then have P: "map_of (players (upd_player s
        (\<lambda>p. p\<lparr>hp := 100, maxHp := 100, mode := md, team := tm\<rparr>) ms)) s
      = Some (q\<lparr>hp := 100, maxHp := 100, mode := md, team := tm\<rparr>)"
    by (simp add: upd_player_def update_conv')
  have D: "''arena_battle'' \<in> set DISTRICTS" "''arena_battle'' \<noteq> ''housing''"
    by (simp_all add: DISTRICTS_def)
  show ?thesis
    using Some P D
    by (simp add: alone_def joinBattle_start_mongo_def joinBattle_mongo_def
        handleDistrictChange_start_mongo_def handleDistrictChange_join_mongo_def
        housing_data_mongo_def Let_def split: option.split)
qed

text \<open>
  Served one after the other, the two \<open>joinDistrict\<close> requests of \<open>two_transfers\<close>
  leave alice's socket in the room \<open>arena\<close> and in no other, in both copies.
\<close>

lemma transfers_in_turn_one_room:
  "rooms (fst (alone (OnJoinDistrict ''s1'' ''arena'' None :: unit request)
       (fst (alone (OnJoinDistrict ''s1'' ''housing'' None :: unit request)
          (after_mongo [sword] two_in_plaza)))))
     = [(''s1'', ''arena''), (''s2'', ''plaza'')]
   \<and> rooms (after_file [sword] (two_in_plaza @
        [JoinDistrictOf ''s1'' ''housing'' None, JoinDistrictOf ''s1'' ''arena'' None]))
     = [(''s1'', ''arena''), (''s2'', ''plaza'')]"
  by code_simp

text \<open>
  C6 fails in the document-store copy: \<open>handleDistrictChange\<close> waits for the store
  between leaving the old room and joining the new one, and its callers do not wait for
  it, so that two transfers of one session can overlap. Alice's socket sends
  \<open>joinDistrict\<close> for \<open>housing\<close> and then for \<open>arena\<close> (the run \<open>two_transfers\<close>): the
  second handler leaves the room \<open>housing\<close> before the first has joined it. When both
  have ended the session's district is \<open>arena\<close>, but the socket is a member of the
  rooms \<open>arena\<close> and \<open>housing\<close>; and the list of the first transfer, sent to alice
  before \<open>setDistrict\<close> for \<open>housing\<close>, is empty and not the members of the room she
  has joined. The file-backed copy, whose \<open>handleDistrictChange\<close> does not wait, makes
  every transfer as the claim says (lemma \<open>handleDistrictChange_file_transferred\<close>),
  and so does the document-store copy when the handler runs alone.
\<close>

theorem overlapping_transfers_two_rooms:
  "rooms (after_turns two_transfers)
     = [(''s1'', ''arena''), (''s1'', ''housing''), (''s2'', ''plaza'')]
   \<and> map_option district (map_of (players (after_turns two_transfers)) ''s1'') = Some ''arena''
   \<and> in_room (after_turns two_transfers) ''housing'' = [''s1'']
   \<and> take 5 (drop (length (outbox (after_mongo [sword] two_in_plaza)))
        (outbox (after_turns two_transfers)))
     = [([''s2''], PlayerDisconnected ''s1''),
        ([], PlayerDisconnected ''s1''),
        ([''s1''], PlayerChangedDistrict []),
        ([], NewPlayer ((new_session ''s1'' alice)\<lparr>district := ''arena''\<rparr>)),
        ([''s1''], SetDistrict ''housing'')]
   \<and> still_waiting two_transfers = []"
  by code_simp

subsection \<open>One session per account\<close>

lemma map_names_update:
  "map (\<lambda>kp. (fst kp, g (snd kp))) (AList.update k v al)
     = AList.update k (g v) (map (\<lambda>kp. (fst kp, g (snd kp))) al)"
  by (induction al) auto

lemma map_names_delete:
  "map (\<lambda>kp. (fst kp, g (snd kp))) (AList.delete k al)
     = AList.delete k (map (\<lambda>kp. (fst kp, g (snd kp))) al)"
  by (induction al) auto

lemma distinct_values_update:
  "distinct (map snd al) \<Longrightarrow> v \<notin> snd ` set al \<Longrightarrow> distinct (map snd (AList.update k v al))"
proof (induction al)
  case Nil
  then show ?case by simp
next
  case (Cons a al)
  have "snd ` set (AList.update k v al) \<subseteq> insert v (snd ` set al)"
    using set_AList_update [of k v al] by auto
  with Cons show ?case by (auto simp: image_iff)
qed

lemma set_delete_subset: "set (AList.delete k al) \<subseteq> set al"
  by (induction al) auto

lemma distinct_values_delete:
  "distinct (map snd al) \<Longrightarrow> distinct (map snd (AList.delete k al))"
proof (induction al)
  case Nil
  then show ?case by simp
next
  case (Cons a al)
  then show ?case using set_delete_subset [of k al] by (auto simp: image_iff)
qed

lemma sockets_have_accounts_lookup:
  "sockets_have_accounts st \<Longrightarrow> n \<in> snd ` set (socketUserMap st) \<Longrightarrow>
     persistentUsers st n \<noteq> None"
  by (auto simp: sockets_have_accounts_def list_all_iff)

lemma loginUser_file_wf:
  assumes wf: "sessions_wf_file st" and u: "persistentUsers st name = Some u"
    and new: "name \<notin> snd ` set (socketUserMap st)"
  shows "\<exists>st'. loginUser_file s name st = Inr st' \<and> sessions_wf_file st'"
proof -
  have n: "username (new_session s u) = name"
    using wf u by (simp add: sessions_wf_file_def store_consistent_def new_session_def)
  define st' where "st' = socket_to_emit s (district (new_session s u)) (NewPlayer (new_session s u))
     (socket_emit s (CurrentPlayers (filter (\<lambda>q. district q = district (new_session s u))
          (map snd (AList.update s (new_session s u) (players st)))))
       (socket_emit s (HouseData (persistentHouses st))
         (socket_emit s (LoginSuccess (new_session s u) (items st))
           (socket_join s (district (new_session s u))
             (st\<lparr>socketUserMap := AList.update s name (socketUserMap st),
                  players := AList.update s (new_session s u) (players st)\<rparr>)))))"
  have r: "loginUser_file s name st = Inr st'"
    using u by (simp add: loginUser_file_def Let_def st'_def transport_defs)
  have f: "persistentUsers st' = persistentUsers st"
    "socketUserMap st' = AList.update s name (socketUserMap st)"
    "players st' = AList.update s (new_session s u) (players st)"
    by (simp_all add: st'_def transport_defs)
  have a: "map (\<lambda>kp. (fst kp, username (snd kp))) (players st') = socketUserMap st'"
    using wf n by (simp add: f map_names_update sessions_wf_file_def)
  have b: "distinct (map fst (socketUserMap st'))"
    using wf by (simp add: f distinct_update sessions_wf_file_def)
  have c: "distinct (map snd (socketUserMap st'))"
    using wf new by (simp add: f distinct_values_update sessions_wf_file_def)
  have d: "sockets_have_accounts st'"
    using wf u set_AList_update [of s name "socketUserMap st"]
    by (auto simp: f sockets_have_accounts_def sessions_wf_file_def list_all_iff)
  show ?thesis
    using r a b c d wf by (simp add: sessions_wf_file_def f)
qed

lemma emit_wf_file [simp]:
  "sessions_wf_file (socket_emit s ev st) = sessions_wf_file st"
  "sessions_wf_file (io_to_emit r ev st) = sessions_wf_file st"
  by (simp_all add: sessions_wf_file_def sockets_have_accounts_def transport_defs)

lemma login_file_wf:
  assumes "sessions_wf_file st"
  shows "\<exists>st'. login_file s name pw st = Inr st' \<and> sessions_wf_file st'"
proof (cases "persistentUsers st name")
  case None
  then show ?thesis using assms by (simp add: login_file_def)
next
  case (Some u)
  show ?thesis
  proof (cases "password u \<noteq> pw \<or> name \<in> snd ` set (socketUserMap st)")
    case True
    then show ?thesis using assms Some by (auto simp: login_file_def)
  next
    case False
    then have "login_file s name pw st = loginUser_file s name st"
      using Some by (simp add: login_file_def)
    with loginUser_file_wf [OF assms Some] False show ?thesis by simp
  qed
qed

lemma register_file_wf:
  assumes "sessions_wf_file st"
  shows "\<exists>st'. register_file s name pw col st = Inr st' \<and> sessions_wf_file st'"
proof (cases "persistentUsers st name = None \<and> name \<notin> set inherited_keys")
  case False
  then show ?thesis using assms
    by (auto simp: register_file_def split: option.split)
next
  case True
  then have None: "persistentUsers st name = None" and fresh: "name \<notin> set inherited_keys"
    by simp_all
  define newUser where "newUser = \<lparr>username = name, password = pw, px = 400, py = 300,
                district = ''plaza'', color = col, money = 1000, equipment = None\<rparr>"
  define st1 where "st1 = saveData_users (st\<lparr>persistentUsers := (persistentUsers st)(name \<mapsto> newUser)\<rparr>)"
  have f: "persistentUsers st1 = (persistentUsers st)(name \<mapsto> newUser)"
    "socketUserMap st1 = socketUserMap st" "players st1 = players st"
    by (simp_all add: st1_def saveData_users_def)
  have new: "name \<notin> snd ` set (socketUserMap st1)"
    using sockets_have_accounts_lookup [of st name] assms None
    by (auto simp: f sessions_wf_file_def)
  have wf1: "sessions_wf_file st1"
    using assms
    by (auto simp: sessions_wf_file_def f store_consistent_def sockets_have_accounts_def
        newUser_def list_all_iff)
  have "register_file s name pw col st = loginUser_file s name st1"
    using None fresh by (simp add: register_file_def Let_def st1_def newUser_def)
  with loginUser_file_wf [OF wf1 _ new, of newUser s] show ?thesis by (simp add: f)
qed

lemma disconnect_file_wf:
  assumes "sessions_wf_file st"
  shows "\<exists>st'. disconnect_file s st = Inr st' \<and> sessions_wf_file st'"
proof -
  define st0 where "st0 = socket_close s st"
  have f0: "persistentUsers st0 = persistentUsers st" "socketUserMap st0 = socketUserMap st"
    "players st0 = players st"
    by (simp_all add: st0_def socket_close_def)
  have wf0: "sessions_wf_file st0"
    using assms by (simp add: sessions_wf_file_def sockets_have_accounts_def f0)
  show ?thesis
  proof (cases "\<exists>name p. map_of (socketUserMap st0) s = Some name \<and> name \<noteq> []
                   \<and> map_of (players st0) s = Some p")
    case False
    then have "disconnect_file s st = Inr st0"
      by (auto simp: disconnect_file_def Let_def st0_def [symmetric] split: option.split)
    with wf0 show ?thesis by simp
  next
    case True
    then obtain name p where N: "map_of (socketUserMap st0) s = Some name" "name \<noteq> []"
      and P: "map_of (players st0) s = Some p" by blast
    have "name \<in> snd ` set (socketUserMap st0)"
      using map_of_SomeD [OF N(1)] by force
    then obtain u where U: "persistentUsers st0 name = Some u"
      using sockets_have_accounts_lookup [of st0 name] wf0
      by (auto simp: sessions_wf_file_def)
    define u' where "u' = u\<lparr>px := px p, py := py p, district := district p,
                              money := money p, equipment := or_null (equipment p)\<rparr>"
    define st3 where "st3 = (saveData_users (st0\<lparr>persistentUsers := (persistentUsers st0)(name \<mapsto> u')\<rparr>))
        \<lparr>players := AList.delete s (players st0), socketUserMap := AList.delete s (socketUserMap st0)\<rparr>"
    have f3: "persistentUsers st3 = (persistentUsers st0)(name \<mapsto> u')"
      "socketUserMap st3 = AList.delete s (socketUserMap st0)"
      "players st3 = AList.delete s (players st0)"
      by (simp_all add: st3_def saveData_users_def)
    have un: "username u' = name"
      using wf0 U by (simp add: u'_def sessions_wf_file_def store_consistent_def)
    have wf3: "sessions_wf_file st3"
      using wf0 un U set_delete_subset [of s "socketUserMap st0"]
      by (auto simp: sessions_wf_file_def f3 store_consistent_def map_names_delete
          distinct_delete distinct_values_delete sockets_have_accounts_def list_all_iff)
    have "disconnect_file s st =
        Inr (if district p \<noteq> [] then io_to_emit (district p) (PlayerDisconnected s) st3 else st3)"
      using N P U
      by (simp add: disconnect_file_def Let_def st0_def [symmetric] st3_def u'_def saveData_users_def)
    with wf3 show ?thesis by simp
  qed
qed

lemma step_file_wf:
  assumes "sessions_wf_file st" and "registry_event ev"
  shows "\<exists>st'. step_file ev st = Inr st' \<and> sessions_wf_file st'"
proof (cases ev)
  case (Connection s)
  then show ?thesis
    using assms by (simp add: connection_def sessions_wf_file_def sockets_have_accounts_def)
next
  case (Register s name pw col)
  then show ?thesis using register_file_wf [OF assms(1)] by simp
next
  case (Login s name pw)
  then show ?thesis using login_file_wf [OF assms(1)] by simp
next
  case (Disconnect s)
  then show ?thesis using disconnect_file_wf [OF assms(1)] by simp
qed (use assms in simp_all)

lemma run_file_wf:
  assumes "sessions_wf_file st" and "list_all registry_event evs"
  shows "\<exists>st'. run_file evs st = Inr st' \<and> sessions_wf_file st'"
  using assms
proof (induction evs arbitrary: st)
  case Nil
  then show ?case by simp
next
  case (Cons ev evs)
  then obtain st1 where 1: "step_file ev st = Inr st1" "sessions_wf_file st1"
    using step_file_wf [of st ev] by auto
  with Cons.IH [of st1] Cons.prems show ?case by simp
qed

lemma wf_one_session_per_account:
  assumes "sessions_wf_file st"
  shows "one_session_per_account st"
proof -
  have "map snd (socketUserMap st) = session_names st"
    using assms by (auto simp: sessions_wf_file_def session_names_def
        dest!: arg_cong [where f = "map snd"] simp: comp_def)
  then show ?thesis
    using assms by (simp add: one_session_per_account_def sessions_wf_file_def)
qed

text \<open>
  The file-backed copy keeps one session per account: whatever \<open>connection\<close>,
  \<open>register\<close>, \<open>login\<close> and \<open>disconnect\<close> events reach it, in whatever order, no handler
  raises and no two live sessions have the same username; and a \<open>login\<close> for an account
  with a live session changes nothing and is answered with an \<open>authError\<close>.
\<close>

lemma file_one_session_per_account:
  assumes "list_all registry_event evs"
  shows "\<exists>st. run_file evs (file_start catalogue) = Inr st \<and> one_session_per_account st"
proof -
  have "sessions_wf_file (file_start catalogue)"
    by (simp add: sessions_wf_file_def file_start_def store_consistent_def
        sockets_have_accounts_def)
  from run_file_wf [OF this assms] wf_one_session_per_account show ?thesis by blast
qed

lemma login_file_already_logged_in:
  assumes "name \<in> snd ` set (socketUserMap st)"
  shows "\<exists>msg. login_file s name pw st = Inr (st\<lparr>outbox := outbox st @ [([s], AuthError msg)]\<rparr>)"
  using assms by (auto simp: login_file_def socket_emit_def split: option.split)

lemma login_file_already_logged_in_message:
  assumes "name \<in> snd ` set (socketUserMap st)" and "persistentUsers st name = Some u"
    and "password u = pw"
  shows "login_file s name pw st =
     Inr (st\<lparr>outbox := outbox st @ [([s], AuthError ''User already logged in'')]\<rparr>)"
  using assms by (simp add: login_file_def socket_emit_def)

text \<open>The document-store copy keeps the invariant too as long as every handler runs from
  its start to its end with no other handler in between.\<close>

lemma loginUser_mongo_wf:
  assumes wf: "sessions_wf_mongo st" and u: "usersCol st name = Some u"
    and new: "name \<notin> snd ` set (socketUserMap st)"
  shows "\<exists>st'. loginUser_mongo s name st = Inr st' \<and> sessions_wf_mongo st'"
proof -
  have n: "username (new_session s u) = name"
    using wf u by (simp add: sessions_wf_mongo_def store_consistent_def new_session_def)
  define st1 where "st1 = socket_join s (district (new_session s u))
             (st\<lparr>socketUserMap := AList.update s name (socketUserMap st),
                  players := AList.update s (new_session s u) (players st)\<rparr>)"
  have e: "loginUser_enter_mongo s name st = Inr st1"
    using u by (simp add: loginUser_enter_mongo_def Let_def st1_def)
  have f: "usersCol st1 = usersCol st"
    "socketUserMap st1 = AList.update s name (socketUserMap st)"
    "players st1 = AList.update s (new_session s u) (players st)"
    by (simp_all add: st1_def transport_defs)
  have p: "map_of (players st1) s = Some (new_session s u)"
    by (simp add: f update_conv')
  obtain st' where r: "loginUser_notify_mongo s (district (new_session s u)) st1 = Inr st'"
    and g: "usersCol st' = usersCol st1" "socketUserMap st' = socketUserMap st1"
      "players st' = players st1"
    using p by (simp add: loginUser_notify_mongo_def Let_def transport_defs)
  have a: "map (\<lambda>kp. (fst kp, username (snd kp))) (players st') = socketUserMap st'"
    using wf n by (simp add: f g map_names_update sessions_wf_mongo_def)
  have b: "distinct (map fst (socketUserMap st'))"
    using wf by (simp add: f g distinct_update sessions_wf_mongo_def)
  have c: "distinct (map snd (socketUserMap st'))"
    using wf new by (simp add: f g distinct_values_update sessions_wf_mongo_def)
  have d: "sockets_have_documents st'"
    using wf u set_AList_update [of s name "socketUserMap st"]
    by (auto simp: f g sockets_have_documents_def sessions_wf_mongo_def list_all_iff)
  have "loginUser_mongo s name st = Inr st'"
    using e p r by (simp add: loginUser_mongo_def)
  then show ?thesis
    using a b c d wf by (simp add: sessions_wf_mongo_def f g)
qed

lemma emit_wf_mongo [simp]:
  "sessions_wf_mongo (socket_emit s ev st) = sessions_wf_mongo st"
  "sessions_wf_mongo (io_to_emit r ev st) = sessions_wf_mongo st"
  by (simp_all add: sessions_wf_mongo_def sockets_have_documents_def transport_defs)

lemma login_mongo_wf:
  assumes "sessions_wf_mongo st"
  shows "\<exists>st'. login_mongo s name pw st = Inr st' \<and> sessions_wf_mongo st'"
proof (cases "usersCol st name")
  case None
  then show ?thesis using assms by (simp add: login_mongo_def login_check_mongo_def)
next
  case (Some u)
  show ?thesis
  proof (cases "password u \<noteq> pw \<or> name \<in> snd ` set (socketUserMap st)")
    case True
    then show ?thesis using assms Some by (auto simp: login_mongo_def login_check_mongo_def)
  next
    case False
    then have "login_mongo s name pw st = loginUser_mongo s name st"
      using Some by (simp add: login_mongo_def login_check_mongo_def)
    with loginUser_mongo_wf [OF assms Some] False show ?thesis by simp
  qed
qed

lemma sockets_have_documents_lookup:
  "sockets_have_documents st \<Longrightarrow> n \<in> snd ` set (socketUserMap st) \<Longrightarrow> usersCol st n \<noteq> None"
  by (auto simp: sockets_have_documents_def list_all_iff)

lemma register_mongo_wf:
  assumes "sessions_wf_mongo st"
  shows "\<exists>st'. register_mongo s name pw col st = Inr st' \<and> sessions_wf_mongo st'"
proof (cases "usersCol st name")
  case (Some u)
  then show ?thesis using assms by (simp add: register_mongo_def)
next
  case None
  define newUser where "newUser = \<lparr>username = name, password = pw, px = 400, py = 300,
                district = ''plaza'', color = col, money = 1000, equipment = None\<rparr>"
  define st1 where "st1 = st\<lparr>usersCol := (usersCol st)(name \<mapsto> newUser)\<rparr>"
  have f: "usersCol st1 = (usersCol st)(name \<mapsto> newUser)"
    "socketUserMap st1 = socketUserMap st" "players st1 = players st"
    by (simp_all add: st1_def)
  have new: "name \<notin> snd ` set (socketUserMap st1)"
    using sockets_have_documents_lookup [of st name] assms None
    by (auto simp: f sessions_wf_mongo_def)
  have wf1: "sessions_wf_mongo st1"
    using assms
    by (auto simp: sessions_wf_mongo_def f store_consistent_def sockets_have_documents_def
        newUser_def list_all_iff)
  have "register_mongo s name pw col st = loginUser_mongo s name st1"
    using None by (simp add: register_mongo_def Let_def st1_def newUser_def)
  with loginUser_mongo_wf [OF wf1 _ new, of newUser s] show ?thesis by (simp add: f)
qed

lemma disconnect_mongo_wf:
  assumes "sessions_wf_mongo st"
  shows "sessions_wf_mongo (disconnect_mongo s st)"
proof -
  define st0 where "st0 = socket_close s st"
  have f0: "usersCol st0 = usersCol st" "socketUserMap st0 = socketUserMap st"
    "players st0 = players st"
    by (simp_all add: st0_def socket_close_def)
  have wf0: "sessions_wf_mongo st0"
    using assms by (simp add: sessions_wf_mongo_def sockets_have_documents_def f0)
  show ?thesis
  proof (cases "\<exists>name p. map_of (socketUserMap st0) s = Some name \<and> name \<noteq> []
                   \<and> map_of (players st0) s = Some p")
    case False
    then have "disconnect_mongo s st = st0"
      by (auto simp: disconnect_mongo_def Let_def st0_def [symmetric] split: option.split)
    with wf0 show ?thesis by simp
  next
    case True
    then obtain name p where N: "map_of (socketUserMap st0) s = Some name" "name \<noteq> []"
      and P: "map_of (players st0) s = Some p" by blast
    define f :: "user \<Rightarrow> user" where "f = (\<lambda>u. u\<lparr>px := px p, py := py p, district := district p,
                              money := money p, equipment := or_null (equipment p)\<rparr>)"
    define st3 where "st3 = (updateOne_user name f st0)
        \<lparr>players := AList.delete s (players st0), socketUserMap := AList.delete s (socketUserMap st0)\<rparr>"
    have f3: "socketUserMap st3 = AList.delete s (socketUserMap st0)"
      "players st3 = AList.delete s (players st0)"
      "usersCol st3 = usersCol (updateOne_user name f st0)"
      by (simp_all add: st3_def)
    have un: "\<And>u. username (f u) = username u"
      by (simp add: f_def)
    have wf3: "sessions_wf_mongo st3"
      using wf0 un set_delete_subset [of s "socketUserMap st0"]
      by (auto simp: sessions_wf_mongo_def f3 store_consistent_def map_names_delete
          distinct_delete distinct_values_delete sockets_have_documents_def list_all_iff
          usersCol_updateOne_user split: if_splits)
    have "disconnect_mongo s st =
        (if district p \<noteq> [] then io_to_emit (district p) (PlayerDisconnected s) st3 else st3)"
      using N P
      by (simp add: disconnect_mongo_def Let_def st0_def [symmetric] st3_def f_def)
    with wf3 show ?thesis by simp
  qed
qed

lemma step_mongo_wf:
  assumes "sessions_wf_mongo st" and "registry_event ev"
  shows "\<exists>st'. step_mongo ev st = Inr st' \<and> sessions_wf_mongo st'"
proof (cases ev)
  case (Connection s)
  then show ?thesis
    using assms by (simp add: connection_def sessions_wf_mongo_def sockets_have_documents_def)
next
  case (Register s name pw col)
  then show ?thesis using register_mongo_wf [OF assms(1)] by simp
next
  case (Login s name pw)
  then show ?thesis using login_mongo_wf [OF assms(1)] by simp
next
  case (Disconnect s)
  then show ?thesis using disconnect_mongo_wf [OF assms(1)] by simp
qed (use assms in simp_all)

lemma run_mongo_wf:
  assumes "sessions_wf_mongo st" and "list_all registry_event evs"
  shows "\<exists>st'. run_mongo evs st = Inr st' \<and> sessions_wf_mongo st'"
  using assms
proof (induction evs arbitrary: st)
  case Nil
  then show ?case by simp
next
  case (Cons ev evs)
  then obtain st1 where 1: "step_mongo ev st = Inr st1" "sessions_wf_mongo st1"
    using step_mongo_wf [of st ev] by auto
  with Cons.IH [of st1] Cons.prems show ?case by simp
qed

lemma mongo_one_session_per_account_uninterrupted:
  assumes "list_all registry_event evs"
  shows "\<exists>st. run_mongo evs (mongo_start catalogue) = Inr st \<and> one_session_per_account st"
proof -
  have "sessions_wf_mongo (mongo_start catalogue)"
    by (simp add: sessions_wf_mongo_def mongo_start_def store_consistent_def
        sockets_have_documents_def)
  from run_mongo_wf [OF this assms] obtain st where
    r: "run_mongo evs (mongo_start catalogue) = Inr st" and w: "sessions_wf_mongo st" by blast
  have "map snd (socketUserMap st) = session_names st"
    using w by (auto simp: sessions_wf_mongo_def session_names_def
        dest!: arg_cong [where f = "map snd"] simp: comp_def)
  then have "one_session_per_account st"
    using w by (simp add: one_session_per_account_def sessions_wf_mongo_def)
  with r show ?thesis by blast
qed

text \<open>One \<open>login\<close> handler run through its three waits with nothing in between is
  \<open>login_mongo\<close>.\<close>

lemma schedule_one_login:
  "schedule [LoginArrives s name pw, Resume 0, Resume 0, Resume 0] (st, [])
     = map_sum id (\<lambda>st'. (st', [])) (login_mongo s name pw st)"
proof (cases "login_check_mongo s name pw st")
  case (Pair st1 ok)
  show ?thesis
  proof (cases ok)
    case False
    with Pair show ?thesis by (simp add: login_mongo_def)
  next
    case True
    note ok = this
    show ?thesis
    proof (cases "loginUser_enter_mongo s name st1")
      case (Inl e)
      with Pair ok show ?thesis by (simp add: login_mongo_def loginUser_mongo_def)
    next
      case (Inr st2)
      note E = this
      show ?thesis
      proof (cases "map_of (players st2) s")
        case None
        with Pair ok E show ?thesis by (simp add: login_mongo_def loginUser_mongo_def)
      next
        case (Some p)
        with Pair ok E show ?thesis
          by (cases "loginUser_notify_mongo s (district p) st2")
             (simp_all add: login_mongo_def loginUser_mongo_def)
      qed
    qed
  qed
qed

text \<open>
  C9 fails in the document-store copy. Alice has an account and no live session. Two
  sockets send \<open>login\<close> for her with the right password, and the second handler is
  started while the first one waits. Each handler tests \<open>socketUserMap\<close> before
  \<open>loginUser\<close> waits for its \<open>findOne\<close>; the entry is written only after that wait. Both
  tests find no session for alice, both handlers go on, and two live sessions hold her
  account; both sockets are sent \<open>loginSuccess\<close> and none an \<open>authError\<close>.
\<close>

theorem two_logins_two_sessions:
  "session_names (after_mongo [sword] alice_offline) = []
   \<and> map_sum id (\<lambda>c. (socketUserMap (fst c), session_names (fst c), snd c))
       (schedule [LoginArrives ''s1'' ''alice'' ''pa'', LoginArrives ''s2'' ''alice'' ''pa'',
                  Resume 0, Resume 1, Resume 0, Resume 1, Resume 0, Resume 0]
          (after_mongo [sword] alice_offline, []))
     = Inr ([(''s1'', ''alice''), (''s2'', ''alice'')], [''alice'', ''alice''], [])
   \<and> map_sum id (\<lambda>c. \<not> one_session_per_account (fst c))
       (schedule [LoginArrives ''s1'' ''alice'' ''pa'', LoginArrives ''s2'' ''alice'' ''pa'',
                  Resume 0, Resume 1, Resume 0, Resume 1, Resume 0, Resume 0]
          (after_mongo [sword] alice_offline, []))
     = Inr True"
  by code_simp

subsection \<open>The sessions stay while handlers wait\<close>

text \<open>The turns of the event loop for \<open>buyHouse\<close>, \<open>submitQuizAnswer\<close> and the
  transfers neither add nor remove a session: the sockets of \<open>players\<close> stay the same,
  and a handler that found its session when it started finds it whenever it goes on.\<close>

lemma keys_AList_update:
  "map_of xs k = Some v \<Longrightarrow> map fst (AList.update k w xs) = map fst xs"
  by (induction xs) (auto split: if_splits)

lemma keys_upd_player [simp]:
  "map fst (players (upd_player k f st)) = map fst (players st)"
  by (simp add: upd_player_def keys_AList_update split: option.split)

lemma keys_move_session [simp]:
  "map fst (players (move_session s newRoom spawnPos st)) = map fst (players st)"
  by (simp add: move_session_def Let_def socket_leave_def socket_to_emit_def
      split: option.split)

lemma players_announce_session [simp]:
  "players (announce_session s newRoom st) = players st"
  by (simp add: announce_session_def Let_def socket_join_def socket_emit_def
      socket_to_emit_def split: option.split)

lemma players_updateOne_user [simp]: "players (updateOne_user name f st) = players st"
  by (simp add: updateOne_user_def split: option.split)

lemma players_persist_district_mongo [simp]:
  "players (persist_district_mongo s newRoom st) = players st"
  by (simp add: persist_district_mongo_def split: option.split)

lemma keys_handleDistrictChange_start:
  "map fst (players (fst (handleDistrictChange_start_mongo s newRoom spawnPos st)))
     = map fst (players st)"
  by (simp add: handleDistrictChange_start_mongo_def handleDistrictChange_join_mongo_def
      Let_def split: option.split)

lemma keys_start: "map fst (players (fst (start r st))) = map fst (players st)"
proof (cases r)
  case (OnBuyHouse s plotId)
  then show ?thesis by (simp add: buyHouse_start_mongo_def split: option.split)
next
  case (OnSubmitQuizAnswer s payload)
  then show ?thesis
    by (simp add: submitQuizAnswer_start_mongo_def Let_def socket_emit_def
        split: option.split)
next
  case (OnJoinDistrict s newDistrict spawnPos)
  then show ?thesis
    by (simp add: joinDistrict_start_mongo_def keys_handleDistrictChange_start)
next
  case (OnEnterHouse s plotId)
  then show ?thesis by (simp add: keys_handleDistrictChange_start)
next
  case (OnLeaveHouse s)
  then show ?thesis by (simp add: keys_handleDistrictChange_start)
next
  case (OnJoinBattle s md tm)
  then show ?thesis
    by (simp add: joinBattle_start_mongo_def Let_def keys_handleDistrictChange_start
        io_to_emit_def split: option.split)
qed

lemma keys_continue: "map fst (players (fst (continue w st))) = map fst (players st)"
  by (cases w)
    (simp_all add: buyHouse_decide_mongo_def buyHouse_persist_mongo_def
      buyHouse_reread_mongo_def buyHouse_notify_mongo_def submitQuizAnswer_report_mongo_def
      handleDistrictChange_join_mongo_def handleDistrictChange_houses_mongo_def
      Let_def transport_defs split: option.split)

lemma sessions_stay:
  "map fst (players (fst (event_loop ts (st, ws)))) = map fst (players st)"
proof (induction ts arbitrary: st ws)
  case Nil
  show ?case by simp
next
  case (Cons t ts)
  show ?case
  proof (cases t)
    case (Arrival r)
    obtain st1 w where S: "start r st = (st1, w)" by (cases "start r st")
    with keys_start [of r st] have K: "map fst (players st1) = map fst (players st)" by simp
    show ?thesis
      using Arrival S K Cons.IH by (cases w) simp_all
  next
    case (Continue k)
    show ?thesis
    proof (cases "k < length ws")
      case False
      with Continue Cons.IH show ?thesis by simp
    next
      case True
      obtain st1 w where S: "continue (ws ! k) st = (st1, w)" by (cases "continue (ws ! k) st")
      with keys_continue [of "ws ! k" st] have K: "map fst (players st1) = map fst (players st)"
        by simp
      show ?thesis
        using Continue True S K Cons.IH by (cases w) simp_all
    qed
  qed
qed

end
